theory Spec2Isabelle
  imports Complex_Main
begin

section \<open>The additive sparse boosting regressor (src/asboostreg.py)\<close>

text \<open>
  A shallow embedding of the class \<open>SparseAdditiveBoostingRegressor\<close>. Floating point
  numbers are read as real numbers, numpy arrays as lists (a matrix is the list of its
  rows), an exception as the \<open>Inl\<close> branch of a sum, and a method that mutates \<open>self\<close>
  as a function that returns the updated object. An array made by \<open>np.empty\<close> holds
  cells that nobody has written yet: a cell is \<open>None\<close> until it is assigned, and what
  the memory held before is not known.
\<close>

subsection \<open>Values, errors and the numpy operations the class uses\<close>

type_synonym vec = "real list"
type_synonym matrix = "real list list"

text \<open>
  The exceptions, and \<open>NotANumber\<close>, which is not one of them. The real numbers have no
  \<open>nan\<close>. Where the code would go on computing with \<open>nan\<close> in an array of numbers (the
  residuals, after the mean of an empty target), the embedding does not follow it: it
  ends there with \<open>NotANumber\<close>, and no statement below is about such a run.
\<close>

datatype error = NotFittedError | ValueError | IndexError | TypeError | NotANumber

text \<open>The annotation \<open>np.ndarray | float\<close>: a one-dimensional array or a scalar.\<close>

datatype ndval = Scalar real | Vector vec

text \<open>
  \<open>Data\<close> is a \<open>pd.DataFrame\<close> (it has column labels) or a plain array (it has none);
  \<open>Target\<close> is a \<open>pd.Series\<close> (with a name, possibly \<open>None\<close>) or a plain array.
\<close>

record data =
  frame_values :: matrix
  frame_columns :: "string list option"

datatype target = Series "string option" vec | Array vec

fun target_values :: "target \<Rightarrow> vec" where
  "target_values (Series nm ys) = ys"
| "target_values (Array ys) = ys"

text \<open>
  \<open>np.mean\<close>. On an empty array numpy answers \<open>nan\<close> (with a warning, no exception):
  \<open>None\<close> stands for \<open>nan\<close>.
\<close>

definition mean :: "vec \<Rightarrow> real option" where
  "mean xs = (if xs = [] then None else Some (sum_list xs / real (length xs)))"

definition square :: "vec \<Rightarrow> vec" where
  "square xs = map (\<lambda>x. x * x) xs"

text \<open>\<open>np.array(X).shape\<close> unpacked into two names: the array must be two-dimensional.\<close>

definition shape2 :: "matrix \<Rightarrow> error + nat \<times> nat" where
  "shape2 X =
     (case X of
        [] \<Rightarrow> Inl ValueError
      | r # rs \<Rightarrow> if \<forall>q \<in> set rs. length q = length r then Inr (length X, length r)
                  else Inl ValueError)"

text \<open>\<open>X[:, f]\<close>: the column \<open>f\<close> of a matrix.\<close>

definition column :: "matrix \<Rightarrow> nat \<Rightarrow> error + vec" where
  "column X f = (if \<forall>r \<in> set X. f < length r then Inr (map (\<lambda>r. r ! f) X) else Inl IndexError)"

text \<open>
  \<open>np.argmax\<close> scans from the left and keeps the first position of the largest value;
  it raises on an empty array.
\<close>

fun argmax_scan :: "real \<Rightarrow> nat \<Rightarrow> nat \<Rightarrow> vec \<Rightarrow> nat" where
  "argmax_scan best bi i [] = bi"
| "argmax_scan best bi i (x # xs) =
     (if best < x then argmax_scan x i (Suc i) xs else argmax_scan best bi (Suc i) xs)"

definition argmax :: "vec \<Rightarrow> error + nat" where
  "argmax xs = (case xs of [] \<Rightarrow> Inl ValueError | x # rest \<Rightarrow> Inr (argmax_scan x 0 1 rest))"

text \<open>\<open>a[index]\<close> with an integer index array.\<close>

definition take_index :: "'a list \<Rightarrow> nat list \<Rightarrow> error + 'a list" where
  "take_index xs idx =
     (if \<forall>i \<in> set idx. i < length xs then Inr (map (\<lambda>i. xs ! i) idx) else Inl IndexError)"

text \<open>\<open>a[mask]\<close> with a boolean mask: the mask must be as long as the array.\<close>

definition mask_select :: "bool list \<Rightarrow> 'a list \<Rightarrow> error + 'a list" where
  "mask_select msk xs =
     (if length msk = length xs then Inr (map snd (filter fst (zip msk xs)))
      else Inl IndexError)"

text \<open>\<open>y -= y_pred\<close>: in place, the right side broadcast when it has one element.\<close>

definition isub :: "vec \<Rightarrow> vec \<Rightarrow> error + vec" where
  "isub y p =
     (if length p = length y then Inr (map2 (\<lambda>a b. a - b) y p)
      else if length p = 1 then Inr (map (\<lambda>a. a - hd p) y)
      else Inl ValueError)"

text \<open>\<open>a[i] = v\<close> on a one-dimensional array.\<close>

definition set_item :: "'a list \<Rightarrow> nat \<Rightarrow> 'a \<Rightarrow> error + 'a list" where
  "set_item xs i v = (if i < length xs then Inr (xs[i := v]) else Inl IndexError)"

text \<open>
  \<open>np.add.at(M, (f, slice(None)), v)\<close> adds \<open>v\<close> to every cell of row \<open>f\<close>, and
  \<open>np.add.at(M, (slice(None), f), v)\<close> to every cell of column \<open>f\<close>; \<open>M[f, g] = v\<close>
  writes one cell.
\<close>

definition add_at_row :: "matrix \<Rightarrow> nat \<Rightarrow> real \<Rightarrow> error + matrix" where
  "add_at_row M f v =
     (if f < length M then Inr (M[f := map (\<lambda>x. x + v) (M ! f)]) else Inl IndexError)"

definition add_at_col :: "matrix \<Rightarrow> nat \<Rightarrow> real \<Rightarrow> error + matrix" where
  "add_at_col M f v =
     (if \<forall>r \<in> set M. f < length r then Inr (map (\<lambda>r. r[f := r ! f + v]) M)
      else Inl IndexError)"

definition set_cell :: "matrix \<Rightarrow> nat \<Rightarrow> nat \<Rightarrow> real \<Rightarrow> error + matrix" where
  "set_cell M f g v =
     (if f < length M \<and> g < length (M ! f) then Inr (M[f := (M ! f)[g := v]])
      else Inl IndexError)"

text \<open>
  \<open>np.multiply(A, B, out=product)\<close> with \<open>product = np.empty_like(A)\<close>: the result has to
  fit the shape of \<open>A\<close>, so \<open>A\<close> and \<open>B\<close> have the same shape.
\<close>

definition same_shape :: "matrix \<Rightarrow> matrix \<Rightarrow> bool" where
  "same_shape A B = (map length A = map length B)"

definition multiply_out :: "matrix \<Rightarrow> matrix \<Rightarrow> error + matrix" where
  "multiply_out A B =
     (if same_shape A B then Inr (map2 (\<lambda>a b. map2 (\<lambda>x y. x * y) a b) A B)
      else Inl ValueError)"

text \<open>
  \<open>np.sum(product, axis=1, out=redundancy)\<close>: the row sums have to be as many as the
  output array is long.
\<close>

definition sum_axis1_out :: "matrix \<Rightarrow> nat \<Rightarrow> error + vec" where
  "sum_axis1_out product out_len =
     (if length product = out_len then Inr (map sum_list product) else Inl ValueError)"

text \<open>
  \<open>np.sum(list_of_arrays, axis=0)\<close>: the scalar 0.0 for the empty list, else the sum of
  the arrays position by position; arrays of different lengths do not make a matrix.
\<close>

fun add_vecs :: "vec list \<Rightarrow> vec" where
  "add_vecs [] = []"
| "add_vecs [v] = v"
| "add_vecs (v # w # vs) = map2 (\<lambda>a b. a + b) v (add_vecs (w # vs))"

definition sum_axis0 :: "vec list \<Rightarrow> error + ndval" where
  "sum_axis0 vs =
     (case vs of
        [] \<Rightarrow> Inr (Scalar 0)
      | v # ws \<Rightarrow> if \<forall>w \<in> set ws. length w = length v then Inr (Vector (add_vecs vs))
                  else Inl ValueError)"

fun scalar_add :: "real \<Rightarrow> ndval \<Rightarrow> ndval" where
  "scalar_add c (Scalar x) = Scalar (c + x)"
| "scalar_add c (Vector v) = Vector (map (\<lambda>x. c + x) v)"

text \<open>\<open>np.subtract\<close>, the default \<open>mrmr_scheme\<close>.\<close>

fun np_subtract :: "vec \<Rightarrow> ndval \<Rightarrow> vec" where
  "np_subtract rel (Scalar c) = map (\<lambda>x. x - c) rel"
| "np_subtract rel (Vector red) = map2 (\<lambda>a b. a - b) rel red"

text \<open>
  \<open>np.all(np.diff(last_iterations) >= 0.0)\<close>: every value is at least its predecessor.
  A difference with \<open>nan\<close> is \<open>nan\<close>, and \<open>nan >= 0.0\<close> is false.
\<close>

fun diff_all_ge0 :: "real option list \<Rightarrow> bool" where
  "diff_all_ge0 [] = True"
| "diff_all_ge0 [a] = True"
| "diff_all_ge0 (Some a # Some b # rest) = (0 \<le> b - a \<and> diff_all_ge0 (Some b # rest))"
| "diff_all_ge0 (a # b # rest) = False"

text \<open>The slice \<open>a[lo : hi]\<close> for \<open>0 \<le> lo\<close>.\<close>

definition slice :: "'a list \<Rightarrow> nat \<Rightarrow> nat \<Rightarrow> 'a list" where
  "slice xs lo hi = take (hi - lo) (drop lo xs)"

text \<open>The decimal digits of a number, for the names \<open>feature_0\<close>, \<open>feature_1\<close>, ...\<close>

definition digit_char :: "nat \<Rightarrow> char" where
  "digit_char d = ''0123456789'' ! d"

fun str_nat :: "nat \<Rightarrow> string" where
  "str_nat n = (if n < 10 then [digit_char n] else str_nat (n div 10) @ [digit_char (n mod 10)])"

text \<open>\<open>collections.Counter\<close>: each distinct item, in order of first appearance, with its count.\<close>

definition counter :: "'a list \<Rightarrow> ('a \<times> nat) list" where
  "counter xs = map (\<lambda>x. (x, count_list xs x)) (rev (remdups (rev xs)))"

text \<open>Sequencing of steps that may raise: the first exception ends the computation.\<close>

definition and_then :: "error + 'a \<Rightarrow> ('a \<Rightarrow> error + 'b) \<Rightarrow> error + 'b" where
  "and_then r f = (case r of Inl e \<Rightarrow> Inl e | Inr x \<Rightarrow> f x)"

subsection \<open>The object and its collaborators\<close>

text \<open>
  The fields a caller sets at construction (the \<open>attrs\<close> fields with \<open>init=True\<close>), in the
  order of the class body. The three scoring functions are fields like the others.
\<close>

record hyper =
  n_estimators :: nat
  learning_rate :: real
  random_state :: "int option"
  row_subsample :: real
  validation_fraction :: real
  n_iter_no_change :: nat
  fill_value :: real
  max_bins :: nat
  max_depth :: nat
  l2_regularization :: real
  min_samples_split :: nat
  min_samples_leaf :: nat
  relevancy_scorer :: "matrix \<Rightarrow> vec \<Rightarrow> vec"
  redundancy_matrix :: "matrix \<Rightarrow> matrix"
  mrmr_scheme :: "vec \<Rightarrow> ndval \<Rightarrow> vec"
  categorical_features :: "nat list"
  feature_names_in :: "string list option"
  output_name :: "string option"

text \<open>
  The fields learnt by \<open>fit\<close> and the private ones. A trailing or leading underscore is
  not part of a name here: \<open>regressors_\<close> is \<open>regressors\<close>, \<open>_regressors\<close> is
  \<open>priv_regressors\<close>, and so on. \<open>'l\<close> is the type of a \<open>ListTreeRegressor\<close>, \<open>'p\<close> of a
  \<open>TreePreprocessor\<close>, \<open>'g\<close> of the state of a \<open>np.random.Generator\<close>.
\<close>

text \<open>
  A row of \<open>score_history_\<close> is \<open>None\<close> until a round writes it; a written row is the pair
  of the training and the validation score, each a number or \<open>nan\<close> (\<open>None\<close>).
\<close>

record ('l, 'p, 'g) sabr = hyper +
  preprocessor :: 'p
  regressors :: "'l list"
  intercept :: real
  selection_history :: "nat option list"
  score_history :: "(real option \<times> real option) option list"
  selection_count :: "(string \<times> nat) list"
  priv_selected_count_matrix :: matrix
  priv_regressors :: "'l list list"
  priv_random_generator :: 'g
  priv_n :: nat
  priv_m :: nat
  priv_is_fitted :: bool
  priv_indexing_cache :: "nat list option list"

text \<open>
  The code of \<open>model_helpers\<close>, \<open>sklearn\<close> and \<open>numpy.random\<close> that the class calls is not
  part of the source file: it is a parameter of every function below.
  \<^item> \<open>train_test_split X y test_size random_state\<close> gives \<open>(X, X_val, y, y_val)\<close>;
  \<^item> \<open>make_preprocessor\<close> is the constructor \<open>TreePreprocessor(categorical_features,
    fill_value, max_bins, random_state)\<close>, \<open>pre_fit_transform\<close> returns the fitted
    preprocessor with the matrix, \<open>pre_transform\<close> the matrix;
  \<^item> \<open>default_rng seed\<close> is a generator, \<open>rng_random g k\<close> is \<open>g.random(k)\<close> with the
    generator's next state;
  \<^item> \<open>np_argsort\<close> is \<open>np.argsort\<close> with its default sort, which is not stable: which of
    the ascending orders of a column with equal values it returns is numpy's choice;
  \<^item> \<open>tree_fit max_depth min_samples_leaf min_samples_split l2_regularization learning_rate
    x y\<close> is \<open>ListTreeRegressor(...).fit(x, y)\<close>, \<open>tree_predict\<close> its \<open>predict\<close>,
    \<open>fix_bias\<close> returns the removed mean with the recentred regressor, \<open>is_selected\<close>
    and \<open>feature_name\<close> read the attributes of these names, \<open>get_split_count\<close> and
    \<open>get_mean_absolute_score\<close> are the methods of these names;
  \<^item> \<open>pre_inverse_transform\<close> is the \<open>inverse_transform\<close> of the preprocessor.
\<close>

record ('l, 'p, 'g) env =
  train_test_split :: "data \<Rightarrow> target \<Rightarrow> real \<Rightarrow> int option \<Rightarrow> data \<times> data \<times> target \<times> target"
  make_preprocessor :: "nat list \<Rightarrow> real \<Rightarrow> nat \<Rightarrow> int option \<Rightarrow> 'p"
  pre_fit_transform :: "'p \<Rightarrow> data \<Rightarrow> vec \<Rightarrow> 'p \<times> matrix"
  pre_transform :: "'p \<Rightarrow> data \<Rightarrow> matrix"
  default_rng :: "int option \<Rightarrow> 'g"
  rng_random :: "'g \<Rightarrow> nat \<Rightarrow> vec \<times> 'g"
  np_argsort :: "vec \<Rightarrow> nat list"
  tree_fit :: "nat \<Rightarrow> nat \<Rightarrow> nat \<Rightarrow> real \<Rightarrow> real \<Rightarrow> vec \<Rightarrow> vec \<Rightarrow> 'l"
  tree_predict :: "'l \<Rightarrow> vec \<Rightarrow> vec"
  sum_tree_regressors :: "'l list \<Rightarrow> string \<Rightarrow> string option \<Rightarrow> 'l"
  fix_bias :: "'l \<Rightarrow> vec \<Rightarrow> real \<times> 'l"
  is_selected :: "'l \<Rightarrow> bool"
  feature_name :: "'l \<Rightarrow> string"
  get_split_count :: "'l \<Rightarrow> nat"
  get_mean_absolute_score :: "'l \<Rightarrow> vec \<Rightarrow> real"
  pre_inverse_transform :: "'p \<Rightarrow> matrix \<Rightarrow> matrix"

subsection \<open>Construction\<close>

text \<open>
  The validators of the \<open>attrs\<close> fields. A count is a natural number here, so a negative
  value, which the validators reject as well, has no counterpart.
\<close>

definition valid_hyper :: "hyper \<Rightarrow> bool" where
  "valid_hyper h =
     (1 \<le> n_estimators h \<and> 0 < learning_rate h \<and> learning_rate h \<le> 1 \<and>
      0 < row_subsample h \<and> row_subsample h \<le> 1 \<and>
      0 < validation_fraction h \<and> validation_fraction h \<le> 1 \<and>
      1 \<le> n_iter_no_change h \<and> 0 < max_bins h \<and> 1 \<le> max_depth h \<and>
      0 < l2_regularization h \<and> 2 \<le> min_samples_split h \<and> 1 \<le> min_samples_leaf h)"

text \<open>
  The generated \<open>__init__\<close>. The two histories are \<open>np.empty\<close> arrays of \<open>n_estimators\<close>
  cells; \<open>_is_fitted\<close> starts as \<open>False\<close>. The attributes declared with \<open>init=False\<close> and
  no default do not exist before \<open>fit\<close> assigns them, and nothing reads them before; they
  hold an empty value here.
\<close>

definition new_model :: "('l, 'p, 'g) env \<Rightarrow> hyper \<Rightarrow> error + ('l, 'p, 'g) sabr" where
  "new_model E h =
     (if valid_hyper h then
        Inr (hyper.extend h
          (sabr.fields
             (make_preprocessor E (categorical_features h) (fill_value h) (max_bins h)
                (random_state h))
             [] 0
             (replicate (n_estimators h) None)
             (replicate (n_estimators h) None)
             [] [] []
             (default_rng E (random_state h))
             0 0 False []))
      else Inl ValueError)"

subsection \<open>Fitting\<close>

text \<open>\<open>_initialize_fit_params\<close>.\<close>

definition priv_initialize_fit_params ::
  "data \<Rightarrow> target \<Rightarrow> ('l, 'p, 'g) sabr \<Rightarrow> error + ('l, 'p, 'g) sabr" where
  "priv_initialize_fit_params X y s =
     and_then (shape2 (frame_values X)) (\<lambda>(m, n).
       Inr (s\<lparr>priv_m := m, priv_n := n,
              feature_names_in :=
                (case feature_names_in s of
                   None \<Rightarrow>
                     Some (case frame_columns X of
                             Some cs \<Rightarrow> cs
                           | None \<Rightarrow> map (\<lambda>i. ''feature_'' @ str_nat i) [0..<n])
                 | Some names \<Rightarrow> Some names),
              output_name :=
                (case output_name s of
                   None \<Rightarrow> (case y of Series nm ys \<Rightarrow> nm | Array ys \<Rightarrow> Some ''output'')
                 | Some nm \<Rightarrow> Some nm),
              priv_regressors := replicate n [],
              priv_selected_count_matrix := replicate n (replicate n 0),
              priv_indexing_cache := replicate n None\<rparr>))"

text \<open>\<open>_get_index\<close>: the sort order of a column, computed at the first request.\<close>

definition priv_get_index ::
  "('l, 'p, 'g) env \<Rightarrow> matrix \<Rightarrow> nat \<Rightarrow> ('l, 'p, 'g) sabr
     \<Rightarrow> error + nat list \<times> ('l, 'p, 'g) sabr" where
  "priv_get_index E X feature s =
     (if feature < length (priv_indexing_cache s) then
        (case priv_indexing_cache s ! feature of
           None \<Rightarrow>
             and_then (column X feature) (\<lambda>c.
               Inr (np_argsort E c,
                    s\<lparr>priv_indexing_cache :=
                        (priv_indexing_cache s)[feature := Some (np_argsort E c)]\<rparr>))
         | Some idx \<Rightarrow> Inr (idx, s))
      else Inl IndexError)"

text \<open>
  The three statements of \<open>_boost\<close> under its comment "Update the count matrix".
\<close>

definition update_count_matrix :: "matrix \<Rightarrow> nat \<Rightarrow> error + matrix" where
  "update_count_matrix M selected_feature =
     and_then (add_at_row M selected_feature 1) (\<lambda>M1.
     and_then (add_at_col M1 selected_feature 1) (\<lambda>M2.
       set_cell M2 selected_feature selected_feature 0))"

text \<open>
  \<open>_boost\<close>. The arrays \<open>y\<close> and \<open>y_val\<close> are updated in place and belong to the caller:
  the function returns them with the object.
\<close>

definition priv_boost ::
  "('l, 'p, 'g) env \<Rightarrow> matrix \<Rightarrow> vec \<Rightarrow> ndval \<Rightarrow> nat \<Rightarrow> matrix \<Rightarrow> vec \<Rightarrow> ('l, 'p, 'g) sabr
     \<Rightarrow> error + ('l, 'p, 'g) sabr \<times> vec \<times> vec" where
  "priv_boost E X y redundancy model_count X_val y_val s =
     (let relevancy = relevancy_scorer s X y;
          score = mrmr_scheme s relevancy redundancy
      in
      and_then (argmax score) (\<lambda>selected_feature.
      and_then (set_item (selection_history s) model_count (Some selected_feature)) (\<lambda>sh.
      and_then (update_count_matrix (priv_selected_count_matrix s) selected_feature) (\<lambda>cm.
      and_then (column X selected_feature) (\<lambda>X_selected.
      and_then (priv_get_index E X selected_feature
                  (s\<lparr>selection_history := sh, priv_selected_count_matrix := cm\<rparr>)) (\<lambda>(index, s1).
      and_then (take_index X_selected index) (\<lambda>X_sorted.
      and_then (take_index y index) (\<lambda>y_sorted.
      let (draws, g) = rng_random E (priv_random_generator s1) (priv_m s1);
          selected_rows = map (\<lambda>d. d \<le> row_subsample s1) draws
      in
      and_then (mask_select selected_rows X_sorted) (\<lambda>X_sub.
      and_then (mask_select selected_rows y_sorted) (\<lambda>y_sub.
      let new_model = tree_fit E (max_depth s1) (min_samples_leaf s1) (min_samples_split s1)
                        (l2_regularization s1) (learning_rate s1) X_sub y_sub
      in
      and_then (isub y (tree_predict E new_model X_selected)) (\<lambda>y1.
      and_then (column X_val selected_feature) (\<lambda>X_val_selected.
      and_then (isub y_val (tree_predict E new_model X_val_selected)) (\<lambda>y_val1.
      and_then (set_item (score_history s1) model_count
                  (Some (mean (square y1), mean (square y_val1)))) (\<lambda>sc.
        if selected_feature < length (priv_regressors s1) then
          Inr (s1\<lparr>priv_random_generator := g, score_history := sc,
                   priv_regressors := (priv_regressors s1)
                     [selected_feature := priv_regressors s1 ! selected_feature @ [new_model]]\<rparr>,
               y1, y_val1)
        else Inl IndexError))))))))))))))"

text \<open>
  The redundancy of a round of \<open>_fit\<close>: \<open>np.multiply\<close> into \<open>product\<close>, \<open>np.sum\<close> over
  axis 1 into \<open>redundancy\<close>, and \<open>redundancy /= model_count\<close>.
\<close>

definition redundancy_vector :: "matrix \<Rightarrow> matrix \<Rightarrow> nat \<Rightarrow> nat \<Rightarrow> error + vec" where
  "redundancy_vector R C out_len model_count =
     and_then (multiply_out R C) (\<lambda>product.
     and_then (sum_axis1_out product out_len) (\<lambda>redundancy.
       Inr (map (\<lambda>x. x / real model_count) redundancy)))"

text \<open>
  The test that ends the loop of \<open>_fit\<close> after the round \<open>model_count\<close>: the validation
  column of \<open>score_history_[model_count - n_iter_no_change : model_count]\<close>.
\<close>

fun training_of :: "(real option \<times> real option) option \<Rightarrow> real option" where
  "training_of None = None"
| "training_of (Some (a, b)) = a"

fun validation_of :: "(real option \<times> real option) option \<Rightarrow> real option" where
  "validation_of None = None"
| "validation_of (Some (a, b)) = b"

definition last_iterations :: "('l, 'p, 'g) sabr \<Rightarrow> nat \<Rightarrow> real option list" where
  "last_iterations s model_count =
     map validation_of
       (slice (score_history s) (model_count - n_iter_no_change s) model_count)"

definition stop_now :: "('l, 'p, 'g) sabr \<Rightarrow> nat \<Rightarrow> bool" where
  "stop_now s model_count =
     (n_iter_no_change s \<le> model_count \<and> diff_all_ge0 (last_iterations s model_count))"

text \<open>
  The loop \<open>for model_count in range(1, self.n_estimators)\<close> of \<open>_fit\<close>; the first
  argument counts the rounds still to run, \<open>break\<close> returns at once.
\<close>

fun fit_loop ::
  "('l, 'p, 'g) env \<Rightarrow> matrix \<Rightarrow> matrix \<Rightarrow> matrix \<Rightarrow> nat \<Rightarrow> nat \<Rightarrow> nat
     \<Rightarrow> ('l, 'p, 'g) sabr \<times> vec \<times> vec \<Rightarrow> error + ('l, 'p, 'g) sabr" where
  "fit_loop E X X_val R out_len 0 model_count (s, residual, residual_valid) = Inr s"
| "fit_loop E X X_val R out_len (Suc k) model_count (s, residual, residual_valid) =
     and_then (redundancy_vector R (priv_selected_count_matrix s) out_len model_count)
       (\<lambda>redundancy.
     and_then (priv_boost E X residual (Vector redundancy) model_count X_val residual_valid s)
       (\<lambda>(s1, residual1, residual_valid1).
         if stop_now s1 model_count then Inr (s1\<lparr>n_estimators := model_count + 1\<rparr>)
         else fit_loop E X X_val R out_len k (Suc model_count)
                (s1, residual1, residual_valid1)))"

text \<open>
  \<open>_fit\<close>. \<open>np.empty_like(X[0])\<close> needs a first row of \<open>X\<close>. With an empty target
  the intercept is \<open>nan\<close>, and the validation residuals with it: the embedding stops
  there. (The code does not complete such a fit either: with no target value, \<open>y[index]\<close>
  in the first round or \<open>X[0]\<close> after it raises.)
\<close>

definition priv_fit ::
  "('l, 'p, 'g) env \<Rightarrow> matrix \<Rightarrow> vec \<Rightarrow> matrix \<Rightarrow> vec \<Rightarrow> ('l, 'p, 'g) sabr
     \<Rightarrow> error + ('l, 'p, 'g) sabr" where
  "priv_fit E X y X_val y_val s =
     (case mean y of
        None \<Rightarrow> Inl NotANumber
      | Some mu \<Rightarrow>
          (let s0 = s\<lparr>intercept := mu\<rparr>;
               residual = map (\<lambda>v. v - intercept s0) y;
               residual_valid = map (\<lambda>v. v - intercept s0) y_val
           in
           and_then (priv_boost E X residual (Scalar 0) 0 X_val residual_valid s0) (\<lambda>first.
             let redundancy_matrix = redundancy_matrix (fst first) X in
             (case X of
                [] \<Rightarrow> Inl IndexError
              | row0 # rows \<Rightarrow>
                  fit_loop E X X_val redundancy_matrix (length row0)
                    (n_estimators (fst first) - 1) 1 first))))"

text \<open>
  The end of \<open>fit\<close>: one summed regressor per pair of \<open>zip(self._regressors,
  self.feature_names_in_)\<close>, each recentred on its training column.
\<close>

fun fix_all_bias ::
  "('l, 'p, 'g) env \<Rightarrow> matrix \<Rightarrow> nat \<Rightarrow> 'l list \<Rightarrow> error + real list \<times> 'l list" where
  "fix_all_bias E X i [] = Inr ([], [])"
| "fix_all_bias E X i (r # rs) =
     and_then (column X i) (\<lambda>c.
     and_then (fix_all_bias E X (Suc i) rs) (\<lambda>(bs, rs1).
       Inr (fst (fix_bias E r c) # bs, snd (fix_bias E r c) # rs1)))"

text \<open>\<open>self.feature_names_in_[self.selection_history_]\<close>: an array indexed by an array.\<close>

fun names_at :: "string list \<Rightarrow> nat option list \<Rightarrow> error + string list" where
  "names_at names [] = Inr []"
| "names_at names (None # es) = Inl IndexError"
| "names_at names (Some i # es) =
     (if i < length names then and_then (names_at names es) (\<lambda>r. Inr (names ! i # r))
      else Inl IndexError)"

text \<open>\<open>np.sqrt\<close> on a written row; the root of \<open>nan\<close> is \<open>nan\<close>.\<close>

definition sqrt_pair :: "real option \<times> real option \<Rightarrow> real option \<times> real option" where
  "sqrt_pair p = (map_option sqrt (fst p), map_option sqrt (snd p))"

text \<open>
  \<open>fit\<close>, in two parts. \<open>fit_rounds\<close> is the body up to and with the call of \<open>_fit\<close>:
  the split, the initialisation, the preprocessing (the conversions to \<open>float32\<close> arrays
  keep the values, as real numbers) and the rounds. It returns \<open>X_train\<close> with the object.
\<close>

definition fit_rounds ::
  "('l, 'p, 'g) env \<Rightarrow> data \<Rightarrow> target \<Rightarrow> (data \<times> target) option \<Rightarrow> ('l, 'p, 'g) sabr
     \<Rightarrow> error + matrix \<times> ('l, 'p, 'g) sabr" where
  "fit_rounds E X y validation_set s =
     (let split = (case validation_set of
                     None \<Rightarrow> train_test_split E X y (validation_fraction s) (random_state s)
                   | Some (Xv, yv) \<Rightarrow> (X, Xv, y, yv));
          X0 = fst split; X_val0 = fst (snd split);
          y0 = fst (snd (snd split)); y_val0 = snd (snd (snd split))
      in
      and_then (priv_initialize_fit_params X0 y0 s) (\<lambda>s1.
        let y_train = target_values y0;
            fitted = pre_fit_transform E (preprocessor s1) X0 y_train;
            X_train = snd fitted;
            s2 = s1\<lparr>preprocessor := fst fitted\<rparr>;
            X_val = pre_transform E (preprocessor s2) X_val0;
            y_val = target_values y_val0
        in
        and_then (priv_fit E X_train y_train X_val y_val s2) (\<lambda>s3. Inr (X_train, s3))))"

text \<open>
  The rest of \<open>fit\<close>: the summed regressors and the intercept, the selection history cut
  to \<open>n_estimators\<close>, the square root of the whole score history in place, the counts,
  and the flag.
\<close>

definition fit ::
  "('l, 'p, 'g) env \<Rightarrow> data \<Rightarrow> target \<Rightarrow> (data \<times> target) option \<Rightarrow> ('l, 'p, 'g) sabr
     \<Rightarrow> error + ('l, 'p, 'g) sabr" where
  "fit E X y validation_set s =
     and_then (fit_rounds E X y validation_set s) (\<lambda>(X_train, s3).
       (case feature_names_in s3 of
          None \<Rightarrow> Inl TypeError
        | Some names \<Rightarrow>
            and_then
              (fix_all_bias E X_train 0
                 (map (\<lambda>(estimators, name).
                         sum_tree_regressors E estimators name (output_name s3))
                    (zip (priv_regressors s3) names)))
              (\<lambda>(biases, regs).
                let s4 = s3\<lparr>regressors := regs,
                             intercept := intercept s3 + sum_list biases\<rparr>;
                    s5 = s4\<lparr>selection_history :=
                               take (n_estimators s4) (selection_history s4)\<rparr>;
                    s6 = s5\<lparr>score_history := map (map_option sqrt_pair) (score_history s5)\<rparr>
                in
                and_then (names_at names (selection_history s6)) (\<lambda>selected_names.
                  Inr (s6\<lparr>selection_count := counter selected_names,
                           priv_is_fitted := True\<rparr>)))))"

subsection \<open>Using a fitted model\<close>

text \<open>
  The list comprehensions over \<open>enumerate(self.regressors_)\<close>: the prediction of each
  regressor kept by the filter, on its own column of the matrix, in order.
\<close>

fun predict_each ::
  "('l, 'p, 'g) env \<Rightarrow> ('l \<Rightarrow> bool) \<Rightarrow> matrix \<Rightarrow> nat \<Rightarrow> 'l list \<Rightarrow> error + vec list" where
  "predict_each E keep X_arr i [] = Inr []"
| "predict_each E keep X_arr i (regressor # rs) =
     (if keep regressor then
        and_then (column X_arr i) (\<lambda>c.
        and_then (predict_each E keep X_arr (Suc i) rs) (\<lambda>ps.
          Inr (tree_predict E regressor c # ps)))
      else predict_each E keep X_arr (Suc i) rs)"

text \<open>\<open>predict\<close>.\<close>

definition predict :: "('l, 'p, 'g) env \<Rightarrow> data \<Rightarrow> ('l, 'p, 'g) sabr \<Rightarrow> error + ndval" where
  "predict E X s =
     (if \<not> priv_is_fitted s then Inl NotFittedError
      else
        let X_arr = pre_transform E (preprocessor s) X in
        and_then (predict_each E (is_selected E) X_arr 0 (regressors s)) (\<lambda>ps.
        and_then (sum_axis0 ps) (\<lambda>total. Inr (scalar_add (intercept s) total))))"

text \<open>
  \<open>contribution[:, 0] = self.intercept_\<close> and \<open>contribution[:, 1:] = np.array([...]).T\<close>
  on an array of \<open>rows\<close> rows and \<open>n + 1\<close> columns: one prediction per feature, each as
  long as the array has rows. (A right side of one row or one column would be broadcast;
  that case is an error here.)
\<close>

definition fill_contribution :: "nat \<Rightarrow> nat \<Rightarrow> real \<Rightarrow> vec list \<Rightarrow> error + matrix" where
  "fill_contribution rows n c ps =
     (if length ps = n \<and> (\<forall>p \<in> set ps. length p = rows)
      then Inr (map (\<lambda>i. c # map (\<lambda>p. p ! i) ps) [0..<rows])
      else Inl ValueError)"

text \<open>
  \<open>["intercept"] + self.feature_names_in_\<close>. The right operand is a numpy array, so the
  sum is numpy's: position by position, an operand of one element being repeated. It is
  not the concatenation of two lists. (Where numpy has no sum of strings, the sum itself
  raises.)
\<close>

definition add_labels :: "string list \<Rightarrow> string list \<Rightarrow> error + string list" where
  "add_labels a b =
     (if length a = length b then Inr (map2 (\<lambda>x y. x @ y) a b)
      else if length a = 1 then Inr (map (\<lambda>y. hd a @ y) b)
      else if length b = 1 then Inr (map (\<lambda>x. x @ hd b) a)
      else Inl ValueError)"

text \<open>
  \<open>pd.DataFrame(array, columns=labels)\<close> for an array of \<open>ncols\<close> columns: there must be
  one label per column.
\<close>

record dataframe =
  df_columns :: "string list"
  df_data :: matrix

definition new_dataframe :: "matrix \<Rightarrow> nat \<Rightarrow> string list \<Rightarrow> error + dataframe" where
  "new_dataframe M ncols labels =
     (if length labels = ncols then Inr \<lparr>df_columns = labels, df_data = M\<rparr>
      else Inl ValueError)"

text \<open>\<open>contribution_frame\<close>.\<close>

definition contribution_frame ::
  "('l, 'p, 'g) env \<Rightarrow> data \<Rightarrow> ('l, 'p, 'g) sabr \<Rightarrow> error + dataframe" where
  "contribution_frame E X s =
     (if \<not> priv_is_fitted s then Inl NotFittedError
      else
        let X_arr = pre_transform E (preprocessor s) X in
        and_then (predict_each E (\<lambda>r. True) X_arr 0 (regressors s)) (\<lambda>ps.
        and_then (fill_contribution (length (frame_values X)) (priv_n s) (intercept s) ps)
          (\<lambda>contribution.
            (case feature_names_in s of
               None \<Rightarrow> Inl TypeError
             | Some names \<Rightarrow>
                 and_then (add_labels [''intercept''] names) (\<lambda>labels.
                   new_dataframe contribution (priv_n s + 1) labels)))))"

text \<open>
  A \<open>dict\<close> and a \<open>pd.Series\<close> built from one, as the list of the keys with their values
  in the order of insertion: assigning to a key that is there replaces its value.
\<close>

fun dict_set :: "'k \<Rightarrow> 'v \<Rightarrow> ('k \<times> 'v) list \<Rightarrow> ('k \<times> 'v) list" where
  "dict_set k v [] = [(k, v)]"
| "dict_set k v (kv # kvs) = (if fst kv = k then (k, v) # kvs else kv # dict_set k v kvs)"

definition dict_of :: "('k \<times> 'v) list \<Rightarrow> ('k \<times> 'v) list" where
  "dict_of kvs = foldl (\<lambda>d kv. dict_set (fst kv) (snd kv) d) [] kvs"

text \<open>
  \<open>np.unique(a, return_index=True)\<close>: the distinct values in ascending order, each with
  the position of its first occurrence.
\<close>

fun first_index :: "'a list \<Rightarrow> 'a \<Rightarrow> nat" where
  "first_index [] v = 0"
| "first_index (x # xs) v = (if x = v then 0 else Suc (first_index xs v))"

definition np_unique :: "vec \<Rightarrow> vec \<times> nat list" where
  "np_unique a = (sort (remdups a), map (first_index a) (sort (remdups a)))"

text \<open>
  What the two drawing methods print and show, in order. Both return nothing; a figure is
  the data handed to plotly, to \<open>plot_continuous\<close> or \<open>plot_categorical\<close>, or to the
  bar plot of a sorted \<open>pd.Series\<close>, whose drawing is not part of the source file.
\<close>

datatype 'l figure =
    Printed "string list"
  | IterationHistory "nat list" "real option list" "real option list" "string list"
      "string option"
  | Complexities "(string \<times> nat) list"
  | MeanImportances "(string \<times> real) list"
  | ContinuousPlot 'l vec vec
  | CategoricalPlot 'l vec vec

text \<open>
  \<open>plot_model_information\<close>. The list it prints as "not selected" holds the names of the
  regressors that are selected. The two score columns are the rows of
  \<open>self.score_history_.T\<close>; the features are \<open>self.feature_names_in_[self.selection_history_]\<close>.
\<close>

definition plot_model_information ::
  "('l, 'p, 'g) env \<Rightarrow> ('l, 'p, 'g) sabr \<Rightarrow> error + 'l figure list" where
  "plot_model_information E s =
     (if \<not> priv_is_fitted s then Inl NotFittedError
      else
        let non_selected = map (feature_name E) (filter (is_selected E) (regressors s));
            training = map training_of (score_history s);
            validation = map validation_of (score_history s);
            iteration_count = [0..<n_estimators s]
        in
        (case feature_names_in s of
           None \<Rightarrow> Inl TypeError
         | Some names \<Rightarrow>
             and_then (names_at names (selection_history s)) (\<lambda>features.
               let complexities =
                     dict_of (map (\<lambda>model. (feature_name E model, get_split_count E model))
                                (filter (is_selected E) (regressors s)))
               in
               Inr [Printed non_selected,
                    IterationHistory iteration_count validation training features
                      (output_name s),
                    Complexities complexities])))"

text \<open>
  \<open>explain\<close>. \<open>selected\<close> pairs each selected regressor with its position. The first loop
  is the dict comprehension of the mean scores, the second the loop that draws one figure
  per selected feature.
\<close>

fun enumerate_from :: "nat \<Rightarrow> 'a list \<Rightarrow> (nat \<times> 'a) list" where
  "enumerate_from i [] = []"
| "enumerate_from i (x # xs) = (i, x) # enumerate_from (Suc i) xs"

fun mean_scores ::
  "('l, 'p, 'g) env \<Rightarrow> matrix \<Rightarrow> (nat \<times> 'l) list \<Rightarrow> error + (string \<times> real) list" where
  "mean_scores E X_arr [] = Inr []"
| "mean_scores E X_arr (fm # rest) =
     and_then (column X_arr (fst fm)) (\<lambda>c.
     and_then (mean_scores E X_arr rest) (\<lambda>r.
       Inr ((feature_name E (snd fm), get_mean_absolute_score E (snd fm) c) # r)))"

fun importance_plots ::
  "('l, 'p, 'g) env \<Rightarrow> ('l, 'p, 'g) sabr \<Rightarrow> matrix \<Rightarrow> matrix \<Rightarrow> (nat \<times> 'l) list
     \<Rightarrow> error + 'l figure list" where
  "importance_plots E s X_train X_arr [] = Inr []"
| "importance_plots E s X_train X_arr (fm # rest) =
     and_then
       (if fst fm \<notin> set (categorical_features s) then
          and_then (column X_arr (fst fm)) (\<lambda>c.
            let x_vals = fst (np_unique c); index = snd (np_unique c) in
            and_then (take_index X_arr index) (\<lambda>rows.
            and_then (column (pre_inverse_transform E (preprocessor s) rows) (fst fm))
              (\<lambda>x_to_plot. Inr (ContinuousPlot (snd fm) x_to_plot x_vals))))
        else
          and_then (column X_train (fst fm)) (\<lambda>x_to_plot.
          and_then (column X_arr (fst fm)) (\<lambda>x_vals.
            Inr (CategoricalPlot (snd fm) x_to_plot x_vals))))
       (\<lambda>fig.
     and_then (importance_plots E s X_train X_arr rest) (\<lambda>figs. Inr (fig # figs)))"

definition explain ::
  "('l, 'p, 'g) env \<Rightarrow> data \<Rightarrow> ('l, 'p, 'g) sabr \<Rightarrow> error + 'l figure list" where
  "explain E X s =
     (if \<not> priv_is_fitted s then Inl NotFittedError
      else
        let selected = filter (\<lambda>fm. is_selected E (snd fm)) (enumerate_from 0 (regressors s));
            X_train = frame_values X;
            X_arr = pre_transform E (preprocessor s) X
        in
        and_then (mean_scores E X_arr selected) (\<lambda>scores.
          let series = dict_set ''intercept'' (intercept s) (dict_of scores) in
          and_then (importance_plots E s X_train X_arr selected) (\<lambda>figs.
            Inr (MeanImportances series # figs))))"

subsection \<open>A small instance of the collaborators\<close>

text \<open>
  Modelled from the spec: the weak learner, the preprocessor, the split and the random
  generator are not in the source file. This instance follows their interfaces in the
  smallest way, to run the class on concrete data.
  \<^item> The weak learner is a single leaf: fitted on \<open>(x, y)\<close> it predicts the mean of \<open>y\<close>
    times the learning rate everywhere (0 when \<open>y\<close> is empty), and remembers what it was
    fitted on. The sum of a
    list of leaves predicts the sum of their values and is selected iff the list is not
    empty; \<open>fix_bias\<close> removes the mean of its predictions, which is its value.
  \<^item> The preprocessor leaves the matrix as it is; the split is never asked for a
    validation set in what follows (it hands the data back as both parts).
  \<^item> The generator's state counts its calls; call number \<open>g\<close> returns the first values
    of \<open>draws g\<close>.
  \<^item> The sort is the stable one: of the ascending orders of a column it returns the
    one that keeps equal values in the order of their positions.
  \<^item> A leaf has no name and no split; its mean absolute score is the size of its value.
\<close>

definition stable_argsort :: "vec \<Rightarrow> nat list" where
  "stable_argsort xs = sort_key (\<lambda>i. xs ! i) [0..<length xs]"

definition mean_or_zero :: "vec \<Rightarrow> real" where
  "mean_or_zero xs = (case mean xs of None \<Rightarrow> 0 | Some a \<Rightarrow> a)"

record leaf =
  seen_x :: vec
  seen_y :: vec
  leaf_value :: real
  leaf_selected :: bool

definition leaf_env :: "(nat \<Rightarrow> vec) \<Rightarrow> (leaf, unit, nat) env" where
  "leaf_env draws =
     \<lparr>train_test_split = (\<lambda>X y test_size seed. (X, X, y, y)),
      make_preprocessor = (\<lambda>cats fill bins seed. ()),
      pre_fit_transform = (\<lambda>p X y. ((), frame_values X)),
      pre_transform = (\<lambda>p X. frame_values X),
      default_rng = (\<lambda>seed. 0),
      rng_random = (\<lambda>g k. (take k (draws g), Suc g)),
      np_argsort = stable_argsort,
      tree_fit = (\<lambda>depth min_leaf min_split l2 rate x y.
        \<lparr>seen_x = x, seen_y = y, leaf_value = rate * mean_or_zero y, leaf_selected = True\<rparr>),
      tree_predict = (\<lambda>l x. replicate (length x) (leaf_value l)),
      sum_tree_regressors = (\<lambda>ls name out.
        \<lparr>seen_x = concat (map seen_x ls), seen_y = concat (map seen_y ls),
         leaf_value = sum_list (map leaf_value ls), leaf_selected = (ls \<noteq> [])\<rparr>),
      fix_bias = (\<lambda>l x. (leaf_value l, l\<lparr>leaf_value := 0\<rparr>)),
      is_selected = leaf_selected,
      feature_name = (\<lambda>l. ''''),
      get_split_count = (\<lambda>l. 0),
      get_mean_absolute_score = (\<lambda>l x. \<bar>leaf_value l\<bar>),
      pre_inverse_transform = (\<lambda>p X. X)\<rparr>"

text \<open>
  A configuration with every default of the class but the ones given; the scorer finds
  every feature equally relevant, the redundancy matrix is all ones (the size of the
  absolute correlation of a column with itself), the scheme is the default \<open>np.subtract\<close>.
\<close>

definition config :: "nat \<Rightarrow> nat \<Rightarrow> real \<Rightarrow> real \<Rightarrow> hyper" where
  "config rounds patience rate fraction =
     \<lparr>n_estimators = rounds, learning_rate = rate, random_state = None,
      row_subsample = fraction, validation_fraction = 1 / 10,
      n_iter_no_change = patience, fill_value = 10000, max_bins = 256, max_depth = 2,
      l2_regularization = 1 / 10, min_samples_split = 2, min_samples_leaf = 1,
      relevancy_scorer = (\<lambda>X y. replicate (length (hd X)) 1),
      redundancy_matrix = (\<lambda>X. replicate (length (hd X)) (replicate (length (hd X)) 1)),
      mrmr_scheme = np_subtract,
      categorical_features = [], feature_names_in = None, output_name = None\<rparr>"

text \<open>
  Two training samples of two features with targets 0 and 32, one validation sample with
  target 3; every round draws 0 for the first position and 3/4 for the second. Five
  rounds at most, a window of two, learning rate and subsample fraction one half.
\<close>

definition X1 :: data where
  "X1 = \<lparr>frame_values = [[0, 1], [1, 0]], frame_columns = None\<rparr>"

definition X1_val :: data where
  "X1_val = \<lparr>frame_values = [[0, 0]], frame_columns = None\<rparr>"

definition draws1 :: "nat \<Rightarrow> vec" where
  "draws1 g = [0, 3 / 4]"

definition env1 :: "(leaf, unit, nat) env" where
  "env1 = leaf_env draws1"

definition hyper1 :: hyper where
  "hyper1 = config 5 2 (1 / 2) (1 / 2)"

subsection \<open>Predicates used in the statements\<close>

text \<open>A matrix with as many columns in each row as it has rows.\<close>

definition square_matrix :: "matrix \<Rightarrow> bool" where
  "square_matrix M = (\<forall>r \<in> set M. length r = length M)"

text \<open>A square matrix equal to its transpose, with zeros on the diagonal.\<close>

definition sym_zero_diag :: "matrix \<Rightarrow> bool" where
  "sym_zero_diag M =
     (square_matrix M \<and> (\<forall>i<length M. \<forall>j<length M. M ! i ! j = M ! j ! i) \<and>
      (\<forall>i<length M. M ! i ! i = 0))"

text \<open>
  The histories of an object with \<open>N\<close> cells after \<open>t\<close> rounds: the cells of the rounds
  run so far are written (with scores that are not negative), the others are not.
\<close>

definition written :: "nat \<Rightarrow> nat \<Rightarrow> ('l, 'p, 'g) sabr \<Rightarrow> bool" where
  "written N t s =
     (length (score_history s) = N \<and> length (selection_history s) = N \<and>
      (\<forall>i<t. (\<exists>a b. score_history s ! i = Some (a, b)) \<and>
              (\<exists>f. selection_history s ! i = Some f)) \<and>
      (\<forall>i. t \<le> i \<and> i < N \<longrightarrow> score_history s ! i = None \<and> selection_history s ! i = None))"

text \<open>Every feature recorded in the selection history has a learner.\<close>

definition selected_have_learners :: "('l, 'p, 'g) sabr \<Rightarrow> bool" where
  "selected_have_learners s =
     (\<forall>i f. i < length (selection_history s) \<and> selection_history s ! i = Some f \<longrightarrow>
        f < length (priv_regressors s) \<and> priv_regressors s ! f \<noteq> [])"

text \<open>
  An ascending sort order of a column: every position once, the values in ascending
  order. A column with equal values has several; \<open>np.argsort\<close> returns one of them.
\<close>

definition ascending_order :: "vec \<Rightarrow> nat list \<Rightarrow> bool" where
  "ascending_order col idx =
     (distinct idx \<and> set idx = {0..<length col} \<and> sorted (map (\<lambda>i. col ! i) idx))"

text \<open>
  The validation column \<open>score_history_[:, 1]\<close>, and two windows of \<open>k\<close> of its cells
  at the round \<open>t\<close>: the one \<open>_fit\<close> reads, \<open>[t - k : t]\<close>, which ends with the round
  before \<open>t\<close>, and the one that ends with the round \<open>t\<close> itself, \<open>[t + 1 - k : t + 1]\<close>.
\<close>

definition validation_mse :: "('l, 'p, 'g) sabr \<Rightarrow> real option list" where
  "validation_mse s = map validation_of (score_history s)"

definition window_before :: "real option list \<Rightarrow> nat \<Rightarrow> nat \<Rightarrow> real option list" where
  "window_before h k t = slice h (t - k) t"

definition window_ending_at :: "real option list \<Rightarrow> nat \<Rightarrow> nat \<Rightarrow> real option list" where
  "window_ending_at h k t = slice h (Suc t - k) (Suc t)"

subsection \<open>The residuals of a fit, round by round\<close>

text \<open>
  The rounds of a fit once more, to name what each round leaves behind: the list of the
  object and the two residual arrays after each round that ran. \<open>loop_trace\<close> follows
  \<open>fit_loop\<close>, \<open>priv_fit_trace\<close> follows \<open>priv_fit\<close> and \<open>fit_trace\<close> follows \<open>fit_rounds\<close>,
  statement by statement; a round that raises ends the list. \<open>fit_split\<close> is the first
  statement of \<open>fit\<close>: the training and validation data and targets.
\<close>

fun loop_trace ::
  "('l, 'p, 'g) env \<Rightarrow> matrix \<Rightarrow> matrix \<Rightarrow> matrix \<Rightarrow> nat \<Rightarrow> nat \<Rightarrow> nat
     \<Rightarrow> ('l, 'p, 'g) sabr \<times> vec \<times> vec \<Rightarrow> (('l, 'p, 'g) sabr \<times> vec \<times> vec) list" where
  "loop_trace E X X_val R out_len 0 model_count (s, residual, residual_valid) = []"
| "loop_trace E X X_val R out_len (Suc k) model_count (s, residual, residual_valid) =
     (case redundancy_vector R (priv_selected_count_matrix s) out_len model_count of
        Inl e \<Rightarrow> []
      | Inr redundancy \<Rightarrow>
          (case priv_boost E X residual (Vector redundancy) model_count X_val residual_valid s of
             Inl e \<Rightarrow> []
           | Inr (s1, residual1, residual_valid1) \<Rightarrow>
               (s1, residual1, residual_valid1) #
               (if stop_now s1 model_count then []
                else loop_trace E X X_val R out_len k (Suc model_count)
                       (s1, residual1, residual_valid1))))"

definition priv_fit_trace ::
  "('l, 'p, 'g) env \<Rightarrow> matrix \<Rightarrow> vec \<Rightarrow> matrix \<Rightarrow> vec \<Rightarrow> ('l, 'p, 'g) sabr
     \<Rightarrow> (('l, 'p, 'g) sabr \<times> vec \<times> vec) list" where
  "priv_fit_trace E X y X_val y_val s =
     (case mean y of
        None \<Rightarrow> []
      | Some mu \<Rightarrow>
          (case priv_boost E X (map (\<lambda>v. v - mu) y) (Scalar 0) 0 X_val
                  (map (\<lambda>v. v - mu) y_val) (s\<lparr>intercept := mu\<rparr>) of
             Inl e \<Rightarrow> []
           | Inr first \<Rightarrow>
               first #
               (case X of
                  [] \<Rightarrow> []
                | row0 # rows \<Rightarrow>
                    loop_trace E X X_val (redundancy_matrix (fst first) X) (length row0)
                      (n_estimators (fst first) - 1) 1 first)))"

definition fit_split ::
  "('l, 'p, 'g) env \<Rightarrow> data \<Rightarrow> target \<Rightarrow> (data \<times> target) option \<Rightarrow> ('l, 'p, 'g) sabr
     \<Rightarrow> data \<times> data \<times> target \<times> target" where
  "fit_split E X y validation_set s =
     (case validation_set of
        None \<Rightarrow> train_test_split E X y (validation_fraction s) (random_state s)
      | Some (Xv, yv) \<Rightarrow> (X, Xv, y, yv))"

definition fit_trace ::
  "('l, 'p, 'g) env \<Rightarrow> data \<Rightarrow> target \<Rightarrow> (data \<times> target) option \<Rightarrow> ('l, 'p, 'g) sabr
     \<Rightarrow> (('l, 'p, 'g) sabr \<times> vec \<times> vec) list" where
  "fit_trace E X y validation_set s =
     (let split = fit_split E X y validation_set s;
          X0 = fst split; X_val0 = fst (snd split);
          y0 = fst (snd (snd split)); y_val0 = snd (snd (snd split))
      in
      (case priv_initialize_fit_params X0 y0 s of
         Inl e \<Rightarrow> []
       | Inr s1 \<Rightarrow>
           let y_train = target_values y0;
               fitted = pre_fit_transform E (preprocessor s1) X0 y_train;
               X_train = snd fitted;
               s2 = s1\<lparr>preprocessor := fst fitted\<rparr>;
               X_val = pre_transform E (preprocessor s2) X_val0;
               y_val = target_values y_val0
           in
           priv_fit_trace E X_train y_train X_val y_val s2))"

subsection \<open>A run of five rounds at most\<close>

text \<open>
  The object that \<open>new_model env1 hyper1\<close> builds, the object after
  \<open>_initialize_fit_params\<close>, after the first round, after the third, after the fourth
  (before and after \<open>n_estimators\<close> is assigned), and at the end of \<open>fit\<close>. Every round
  selects feature 0 and fits a leaf on the one sample the mask keeps.
\<close>

definition model1 :: "(leaf, unit, nat) sabr" where
  "model1 = hyper.extend hyper1
     (sabr.fields () [] 0 [None, None, None, None, None] [None, None, None, None, None]
        [] [] [] 0 0 0 False [])"

definition start1 :: "(leaf, unit, nat) sabr" where
  "start1 = model1\<lparr>priv_m := 2, priv_n := 2,
     feature_names_in := Some [''feature_0'', ''feature_1''], output_name := Some ''output'',
     priv_regressors := [[], []], priv_selected_count_matrix := [[0, 0], [0, 0]],
     priv_indexing_cache := [None, None]\<rparr>"

definition leaf1 :: "real \<Rightarrow> real \<Rightarrow> leaf" where
  "leaf1 a b = \<lparr>seen_x = [0], seen_y = [a], leaf_value = b, leaf_selected = True\<rparr>"

definition round0 :: "(leaf, unit, nat) sabr" where
  "round0 = start1\<lparr>intercept := 16,
     selection_history := [Some 0, None, None, None, None],
     priv_selected_count_matrix := [[0, 1], [1, 0]],
     priv_indexing_cache := [Some [0, 1], None],
     priv_random_generator := 1,
     score_history := [Some (Some 320, Some 25), None, None, None, None],
     priv_regressors := [[leaf1 (- 16) (- 8)], []]\<rparr>"

definition after2 :: "(leaf, unit, nat) sabr" where
  "after2 = start1\<lparr>intercept := 16,
     selection_history := [Some 0, Some 0, Some 0, None, None],
     priv_selected_count_matrix := [[0, 3], [3, 0]],
     priv_indexing_cache := [Some [0, 1], None],
     priv_random_generator := 3,
     score_history := [Some (Some 320, Some 25), Some (Some 400, Some 1), Some (Some 452, Some 1),
       None, None],
     priv_regressors := [[leaf1 (- 16) (- 8), leaf1 (- 8) (- 4), leaf1 (- 4) (- 2)], []]\<rparr>"

definition rounds1 :: "(leaf, unit, nat) sabr" where
  "rounds1 = start1\<lparr>n_estimators := 4, intercept := 16,
     selection_history := [Some 0, Some 0, Some 0, Some 0, None],
     priv_selected_count_matrix := [[0, 4], [4, 0]],
     priv_indexing_cache := [Some [0, 1], None],
     priv_random_generator := 4,
     score_history := [Some (Some 320, Some 25), Some (Some 400, Some 1), Some (Some 452, Some 1),
       Some (Some 481, Some 4), None],
     priv_regressors :=
       [[leaf1 (- 16) (- 8), leaf1 (- 8) (- 4), leaf1 (- 4) (- 2), leaf1 (- 2) (- 1)], []]\<rparr>"

definition after3 :: "(leaf, unit, nat) sabr" where
  "after3 = rounds1\<lparr>n_estimators := 5\<rparr>"

definition fitted1 :: "(leaf, unit, nat) sabr" where
  "fitted1 = rounds1\<lparr>
     regressors :=
       [\<lparr>seen_x = [0, 0, 0, 0], seen_y = [- 16, - 8, - 4, - 2], leaf_value = 0,
         leaf_selected = True\<rparr>,
        \<lparr>seen_x = [], seen_y = [], leaf_value = 0, leaf_selected = False\<rparr>],
     intercept := 1,
     selection_history := [Some 0, Some 0, Some 0, Some 0],
     score_history := [Some (Some (sqrt 320), Some (sqrt 25)), Some (Some (sqrt 400), Some (sqrt 1)),
       Some (Some (sqrt 452), Some (sqrt 1)), Some (Some (sqrt 481), Some (sqrt 4)), None],
     selection_count := [(''feature_0'', 4)],
     priv_is_fitted := True\<rparr>"

subsection \<open>A run of one round on a column that is not sorted\<close>

text \<open>
  One feature, whose column is \<open>[1, 0]\<close>: the sort order is \<open>[1, 0]\<close>, so the first
  position of the sorted arrays holds the second sample. The draws are \<open>[0, 3/4]\<close> and
  the fraction is one half as before.
\<close>

definition hyper2 :: hyper where
  "hyper2 = config 1 2 (1 / 2) (1 / 2)"

definition X2 :: data where
  "X2 = \<lparr>frame_values = [[1], [0]], frame_columns = None\<rparr>"

definition X2_val :: data where
  "X2_val = \<lparr>frame_values = [[0]], frame_columns = None\<rparr>"

definition model2 :: "(leaf, unit, nat) sabr" where
  "model2 = hyper.extend hyper2
     (sabr.fields () [] 0 [None] [None] [] [] [] 0 0 0 False [])"

definition start2 :: "(leaf, unit, nat) sabr" where
  "start2 = model2\<lparr>priv_m := 2, priv_n := 1,
     feature_names_in := Some [''feature_0''], output_name := Some ''output'',
     priv_regressors := [[]], priv_selected_count_matrix := [[0]],
     priv_indexing_cache := [None]\<rparr>"

definition round2 :: "(leaf, unit, nat) sabr" where
  "round2 = start2\<lparr>intercept := 16,
     selection_history := [Some 0],
     priv_selected_count_matrix := [[0]],
     priv_indexing_cache := [Some [1, 0]],
     priv_random_generator := 1,
     score_history := [Some (Some 320, Some 441)],
     priv_regressors := [[leaf1 16 8]]\<rparr>"

text \<open>
  The same run with a validation set of no sample: the validation score of the round is
  the mean of an empty array.
\<close>

definition X_none :: data where
  "X_none = \<lparr>frame_values = [], frame_columns = None\<rparr>"

definition round2e :: "(leaf, unit, nat) sabr" where
  "round2e = round2\<lparr>score_history := [Some (Some 320, None)]\<rparr>"

definition fitted2e :: "(leaf, unit, nat) sabr" where
  "fitted2e = round2e\<lparr>
     regressors := [\<lparr>seen_x = [0], seen_y = [16], leaf_value = 0, leaf_selected = True\<rparr>],
     intercept := 24,
     selection_history := [Some 0],
     score_history := [Some (Some (sqrt 320), None)],
     selection_count := [(''feature_0'', 1)],
     priv_is_fitted := True\<rparr>"

text \<open>A configuration that asks for no round at all.\<close>

definition hyper0 :: hyper where
  "hyper0 = config 0 2 (1 / 2) (1 / 2)"

section \<open>Lemmas\<close>

lemma and_then_Inr: "and_then r f = Inr y \<longleftrightarrow> (\<exists>x. r = Inr x \<and> f x = Inr y)"
  by (cases r) (simp_all add: and_then_def)

lemma and_then_Inl: "and_then r f = Inl e \<longleftrightarrow> r = Inl e \<or> (\<exists>x. r = Inr x \<and> f x = Inl e)"
  by (cases r) (simp_all add: and_then_def)

lemma and_thenE:
  assumes "and_then r f = Inr y"
  obtains x where "r = Inr x" and "f x = Inr y"
  using assms by (auto simp: and_then_Inr)

lemma set_item_Inr: "set_item xs i v = Inr ys \<longleftrightarrow> i < length xs \<and> ys = xs[i := v]"
  by (auto simp: set_item_def)

lemma mask_select_Inr: "mask_select msk xs = Inr ys \<Longrightarrow> length msk = length xs"
  by (auto simp: mask_select_def split: if_splits)

lemma take_index_length: "take_index xs idx = Inr ys \<Longrightarrow> length ys = length idx"
  by (auto simp: take_index_def split: if_splits)

lemma priv_get_index_frame:
  assumes "priv_get_index E X f s = Inr (idx, s1)"
  shows "\<exists>cache. s1 = s\<lparr>priv_indexing_cache := cache\<rparr> \<and> f < length cache \<and> cache ! f = Some idx
     \<and> length cache = length (priv_indexing_cache s)
     \<and> (case priv_indexing_cache s ! f of
          None \<Rightarrow> column X f = Inr (map (\<lambda>r. r ! f) X) \<and> idx = np_argsort E (map (\<lambda>r. r ! f) X)
        | Some i0 \<Rightarrow> idx = i0)"
proof (cases "priv_indexing_cache s ! f")
  case None
  with assms show ?thesis
    by (auto simp: priv_get_index_def and_then_Inr column_def split: if_splits)
next
  case (Some a)
  with assms have "s1 = s" "a = idx" "f < length (priv_indexing_cache s)"
    by (auto simp: priv_get_index_def split: if_splits)
  with Some show ?thesis
    by (intro exI[of _ "priv_indexing_cache s"]) simp
qed

lemma priv_boost_Inr:
  assumes b: "priv_boost E X y red t Xv yv s = Inr (s1, y1, yv1)"
  obtains f cm cache idx Xsel Xs ys Xsub ysub learner where
    "argmax (mrmr_scheme s (relevancy_scorer s X y) red) = Inr f"
    "t < length (selection_history s)" "t < length (score_history s)"
    "update_count_matrix (priv_selected_count_matrix s) f = Inr cm"
    "column X f = Inr Xsel"
    "f < length cache" "cache ! f = Some idx" "length cache = length (priv_indexing_cache s)"
    "take_index Xsel idx = Inr Xs" "take_index y idx = Inr ys"
    "mask_select (map (\<lambda>d. d \<le> row_subsample s) (fst (rng_random E (priv_random_generator s) (priv_m s)))) Xs = Inr Xsub"
    "mask_select (map (\<lambda>d. d \<le> row_subsample s) (fst (rng_random E (priv_random_generator s) (priv_m s)))) ys = Inr ysub"
    "learner = tree_fit E (max_depth s) (min_samples_leaf s) (min_samples_split s)
        (l2_regularization s) (learning_rate s) Xsub ysub"
    "isub y (tree_predict E learner Xsel) = Inr y1"
    "f < length (priv_regressors s)"
    "s1 = s\<lparr>selection_history := (selection_history s)[t := Some f],
            priv_selected_count_matrix := cm,
            priv_indexing_cache := cache,
            priv_random_generator := snd (rng_random E (priv_random_generator s) (priv_m s)),
            score_history := (score_history s)[t := Some (mean (square y1), mean (square yv1))],
            priv_regressors := (priv_regressors s)[f := priv_regressors s ! f @ [learner]]\<rparr>"
    "case priv_indexing_cache s ! f of None \<Rightarrow> idx = np_argsort E Xsel | Some i0 \<Rightarrow> idx = i0"
proof -
  from b obtain f sh cm Xsel p Xs ys Xsub ysub ya Xvsel yva sc where
    h1: "argmax (mrmr_scheme s (relevancy_scorer s X y) red) = Inr f"
    and h2: "set_item (selection_history s) t (Some f) = Inr sh"
    and h3: "update_count_matrix (priv_selected_count_matrix s) f = Inr cm"
    and h4: "column X f = Inr Xsel"
    and h5: "priv_get_index E X f (s\<lparr>selection_history := sh, priv_selected_count_matrix := cm\<rparr>) = Inr p"
    and h6: "take_index Xsel (fst p) = Inr Xs"
    and h7: "take_index y (fst p) = Inr ys"
    and h8: "mask_select (map (\<lambda>d. d \<le> row_subsample (snd p))
               (fst (rng_random E (priv_random_generator (snd p)) (priv_m (snd p))))) Xs = Inr Xsub"
    and h9: "mask_select (map (\<lambda>d. d \<le> row_subsample (snd p))
               (fst (rng_random E (priv_random_generator (snd p)) (priv_m (snd p))))) ys = Inr ysub"
    and h10: "isub y (tree_predict E (tree_fit E (max_depth (snd p)) (min_samples_leaf (snd p))
               (min_samples_split (snd p)) (l2_regularization (snd p)) (learning_rate (snd p))
               Xsub ysub) Xsel) = Inr ya"
    and h11: "column Xv f = Inr Xvsel"
    and h12: "isub yv (tree_predict E (tree_fit E (max_depth (snd p)) (min_samples_leaf (snd p))
               (min_samples_split (snd p)) (l2_regularization (snd p)) (learning_rate (snd p))
               Xsub ysub) Xvsel) = Inr yva"
    and h13: "set_item (score_history (snd p)) t (Some (mean (square ya), mean (square yva))) = Inr sc"
    and h14: "(if f < length (priv_regressors (snd p)) then
                 Inr (snd p\<lparr>priv_random_generator :=
                        snd (rng_random E (priv_random_generator (snd p)) (priv_m (snd p))),
                      score_history := sc,
                      priv_regressors := (priv_regressors (snd p))
                        [f := priv_regressors (snd p) ! f @
                           [tree_fit E (max_depth (snd p)) (min_samples_leaf (snd p))
                              (min_samples_split (snd p)) (l2_regularization (snd p))
                              (learning_rate (snd p)) Xsub ysub]]\<rparr>, ya, yva)
               else Inl IndexError) = Inr (s1, y1, yv1)"
    unfolding priv_boost_def Let_def split_def by (elim and_thenE)
  from h5 have "priv_get_index E X f (s\<lparr>selection_history := sh, priv_selected_count_matrix := cm\<rparr>)
      = Inr (fst p, snd p)" by simp
  from priv_get_index_frame[OF this] obtain cache where
    c: "snd p = s\<lparr>selection_history := sh, priv_selected_count_matrix := cm,
                   priv_indexing_cache := cache\<rparr>"
    "f < length cache" "cache ! f = Some (fst p)"
    "length cache = length (priv_indexing_cache
        (s\<lparr>selection_history := sh, priv_selected_count_matrix := cm\<rparr>))"
    "case priv_indexing_cache
        (s\<lparr>selection_history := sh, priv_selected_count_matrix := cm\<rparr>) ! f of
          None \<Rightarrow> column X f = Inr (map (\<lambda>r. r ! f) X) \<and> fst p = np_argsort E (map (\<lambda>r. r ! f) X)
        | Some i0 \<Rightarrow> fst p = i0"
    by (elim exE conjE)
  note c4 = c(4)[simplified]
  have c5: "case priv_indexing_cache s ! f of None \<Rightarrow> fst p = np_argsort E Xsel | Some i0 \<Rightarrow> fst p = i0"
    using c(5) h4 by (cases "priv_indexing_cache s ! f") simp_all
  from h2 have sh: "t < length (selection_history s)" "sh = (selection_history s)[t := Some f]"
    by (simp_all add: set_item_Inr)
  from h13 c(1) have sc: "t < length (score_history s)"
    "sc = (score_history s)[t := Some (mean (square ya), mean (square yva))]"
    by (simp_all add: set_item_Inr)
  from h14 c(1) have fin: "f < length (priv_regressors s)" "ya = y1" "yva = yv1"
    by (simp_all split: if_splits)
  show ?thesis
    apply (rule that[of f cm Xsel cache "fst p" Xs ys Xsub ysub])
    using h1 sh(1) sc(1) h3 h4 c(2,3) c4 h6 h7 h8 h9 h10 fin h14 c5 
                  apply (simp_all add: c(1) sh(2) sc(2) split: if_splits)
    apply (rule sym, assumption)
    done
qed

lemma priv_boost_frame:
  assumes "priv_boost E X y red t Xv yv s = Inr (s1, y1, yv1)"
  shows "hyper.truncate s1 = hyper.truncate s" "priv_is_fitted s1 = priv_is_fitted s"
    "priv_n s1 = priv_n s" "priv_m s1 = priv_m s" "intercept s1 = intercept s"
    "preprocessor s1 = preprocessor s" "regressors s1 = regressors s"
    "selection_count s1 = selection_count s"
  using assms by (auto elim!: priv_boost_Inr simp: hyper.truncate_def)

lemma argmax_scan_spec:
  assumes "length ps = i" "bi < i" "ps ! bi = best" "\<forall>j<i. ps ! j \<le> best" "\<forall>j<bi. ps ! j < best"
  shows "argmax_scan best bi i xs < i + length xs \<and>
         (\<forall>j < i + length xs. (ps @ xs) ! j \<le> (ps @ xs) ! argmax_scan best bi i xs) \<and>
         (\<forall>j < argmax_scan best bi i xs. (ps @ xs) ! j < (ps @ xs) ! argmax_scan best bi i xs)"
  using assms
proof (induction xs arbitrary: ps i bi best)
  case Nil
  then show ?case by simp
next
  case (Cons x xs)
  show ?case
  proof (cases "best < x")
    case True
    have "argmax_scan x i (Suc i) xs < Suc i + length xs \<and>
         (\<forall>j < Suc i + length xs. ((ps @ [x]) @ xs) ! j \<le> ((ps @ [x]) @ xs) ! argmax_scan x i (Suc i) xs) \<and>
         (\<forall>j < argmax_scan x i (Suc i) xs. ((ps @ [x]) @ xs) ! j < ((ps @ [x]) @ xs) ! argmax_scan x i (Suc i) xs)"
    proof (rule Cons.IH)
      show "length (ps @ [x]) = Suc i" using Cons.prems by simp
      show "i < Suc i" by simp
      show "(ps @ [x]) ! i = x" using Cons.prems by (simp add: nth_append)
      show "\<forall>j<Suc i. (ps @ [x]) ! j \<le> x"
        using Cons.prems True by (auto simp: nth_append less_Suc_eq intro: less_imp_le order_trans)
      show "\<forall>j<i. (ps @ [x]) ! j < x"
        using Cons.prems True by (auto simp: nth_append intro: le_less_trans)
    qed
    with True show ?thesis by simp
  next
    case False
    have "argmax_scan best bi (Suc i) xs < Suc i + length xs \<and>
         (\<forall>j < Suc i + length xs. ((ps @ [x]) @ xs) ! j \<le> ((ps @ [x]) @ xs) ! argmax_scan best bi (Suc i) xs) \<and>
         (\<forall>j < argmax_scan best bi (Suc i) xs. ((ps @ [x]) @ xs) ! j < ((ps @ [x]) @ xs) ! argmax_scan best bi (Suc i) xs)"
    proof (rule Cons.IH)
      show "length (ps @ [x]) = Suc i" using Cons.prems by simp
      show "bi < Suc i" using Cons.prems by simp
      show "(ps @ [x]) ! bi = best" using Cons.prems by (simp add: nth_append)
      show "\<forall>j<Suc i. (ps @ [x]) ! j \<le> best"
        using Cons.prems False by (auto simp: nth_append less_Suc_eq)
      show "\<forall>j<bi. (ps @ [x]) ! j < best"
        using Cons.prems by (auto simp: nth_append)
    qed
    with False show ?thesis by simp
  qed
qed

lemma argmax_Inr:
  assumes "argmax xs = Inr f"
  shows "f < length xs" "\<forall>j<length xs. xs ! j \<le> xs ! f" "\<forall>j<f. xs ! j < xs ! f"
proof -
  from assms obtain x rest where xs: "xs = x # rest" and f: "f = argmax_scan x 0 1 rest"
    by (auto simp: argmax_def split: list.splits)
  have "argmax_scan x 0 1 rest < 1 + length rest \<and>
        (\<forall>j < 1 + length rest. ([x] @ rest) ! j \<le> ([x] @ rest) ! argmax_scan x 0 1 rest) \<and>
        (\<forall>j < argmax_scan x 0 1 rest. ([x] @ rest) ! j < ([x] @ rest) ! argmax_scan x 0 1 rest)"
    by (rule argmax_scan_spec) simp_all
  then show "f < length xs" "\<forall>j<length xs. xs ! j \<le> xs ! f" "\<forall>j<f. xs ! j < xs ! f"
    using xs f by simp_all
qed

lemma argmax_Inl: "argmax xs = Inl e \<longleftrightarrow> xs = [] \<and> e = ValueError"
  by (auto simp: argmax_def split: list.splits)

lemma update_count_matrix_Inr:
  assumes u: "update_count_matrix M f = Inr M1" and sq: "square_matrix M"
  shows "f < length M" "length M1 = length M" "square_matrix M1"
    "\<forall>i<length M. \<forall>j<length M. M1 ! i ! j =
        (if i = f \<and> j = f then 0
         else M ! i ! j + (if i = f then 1 else 0) + (if j = f then 1 else 0))"
proof -
  from u obtain A B where a: "add_at_row M f 1 = Inr A" and b: "add_at_col A f 1 = Inr B"
    and c: "set_cell B f f 0 = Inr M1"
    unfolding update_count_matrix_def by (elim and_thenE)
  from a have f: "f < length M" and A: "A = M[f := map (\<lambda>x. x + 1) (M ! f)]"
    by (auto simp: add_at_row_def split: if_splits)
  from b have B: "B = map (\<lambda>r. r[f := r ! f + 1]) A"
    by (auto simp: add_at_col_def split: if_splits)
  from c have M1: "M1 = B[f := (B ! f)[f := 0]]"
    by (auto simp: set_cell_def split: if_splits)
  show "f < length M" by (rule f)
  show len: "length M1 = length M" by (simp add: M1 B A)
  have rowlen: "\<And>i. i < length M \<Longrightarrow> length (M ! i) = length M"
    using sq by (simp add: square_matrix_def)
  have rowlen1: "\<And>i. i < length M \<Longrightarrow> length (M1 ! i) = length M"
    using f by (simp add: M1 B A nth_list_update rowlen)
  show "square_matrix M1"
    unfolding square_matrix_def using rowlen1 len by (auto simp: in_set_conv_nth)
  show "\<forall>i<length M. \<forall>j<length M. M1 ! i ! j =
        (if i = f \<and> j = f then 0
         else M ! i ! j + (if i = f then 1 else 0) + (if j = f then 1 else 0))"
    using f by (auto simp: M1 B A nth_list_update rowlen)
qed

lemma sym_zero_diag_zeros: "sym_zero_diag (replicate n (replicate n 0))"
  by (simp add: sym_zero_diag_def square_matrix_def)

lemma sym_zero_diag_update:
  assumes "update_count_matrix M f = Inr M1" "sym_zero_diag M"
  shows "sym_zero_diag M1"
proof -
  from assms(2) have sq: "square_matrix M" by (simp add: sym_zero_diag_def)
  note u = update_count_matrix_Inr[OF assms(1) sq]
  from assms(2) have s: "\<And>i j. i < length M \<Longrightarrow> j < length M \<Longrightarrow> M ! i ! j = M ! j ! i"
    and d: "\<And>i. i < length M \<Longrightarrow> M ! i ! i = 0" by (simp_all add: sym_zero_diag_def)
  show ?thesis
    unfolding sym_zero_diag_def using u(2,3,4) s d by auto
qed

lemma mean_square_nonneg: "mean (square xs) = Some m \<Longrightarrow> 0 \<le> m"
  by (auto simp: mean_def square_def split: if_splits
      intro!: divide_nonneg_nonneg sum_list_nonneg)

lemma mean_None: "mean xs = None \<longleftrightarrow> xs = []"
  by (simp add: mean_def)

lemma mean_square_None: "mean (square xs) = None \<longleftrightarrow> xs = []"
  by (simp add: mean_def square_def)

lemma isub_length: "isub y p = Inr y1 \<Longrightarrow> length y1 = length y"
  by (auto simp: isub_def split: if_splits)

lemma fit_loop_SucE:
  assumes "fit_loop E X Xv R n0 (Suc k) t (s, y, yv) = Inr S"
  obtains red s1 y1 yv1 where
    "redundancy_vector R (priv_selected_count_matrix s) n0 t = Inr red"
    "priv_boost E X y (Vector red) t Xv yv s = Inr (s1, y1, yv1)"
    "(if stop_now s1 t then Inr (s1\<lparr>n_estimators := t + 1\<rparr>)
      else fit_loop E X Xv R n0 k (Suc t) (s1, y1, yv1)) = Inr S"
proof -
  from assms obtain red p where
    r: "redundancy_vector R (priv_selected_count_matrix s) n0 t = Inr red"
    and b: "priv_boost E X y (Vector red) t Xv yv s = Inr p"
    and c: "(case p of (s1, residual1, residual_valid1) \<Rightarrow>
              if stop_now s1 t then Inr (s1\<lparr>n_estimators := t + 1\<rparr>)
              else fit_loop E X Xv R n0 k (Suc t) (s1, residual1, residual_valid1)) = Inr S"
    by (auto simp: and_then_Inr)
  obtain s1 y1 yv1 where p: "p = (s1, y1, yv1)" by (cases p)
  show ?thesis
    using r b c unfolding p by (intro that[of red s1 y1 yv1]) simp_all
qed

lemma fit_loop_invariant:
  assumes "fit_loop E X Xv R n0 k t (s, y, yv) = Inr S" "P s" "1 \<le> t"
    and step: "\<And>s y red t yv s1 y1 yv1.
       P s \<Longrightarrow> 1 \<le> t \<Longrightarrow> priv_boost E X y red t Xv yv s = Inr (s1, y1, yv1) \<Longrightarrow> P s1"
    and upd: "\<And>s n. P s \<Longrightarrow> P (s\<lparr>n_estimators := n\<rparr>)"
  shows "P S"
  using assms(1,2,3)
proof (induction k arbitrary: t s y yv)
  case 0
  then show ?case by simp
next
  case (Suc k)
  from Suc.prems(1) obtain red s1 y1 yv1 where
    r: "redundancy_vector R (priv_selected_count_matrix s) n0 t = Inr red"
    and b: "priv_boost E X y (Vector red) t Xv yv s = Inr (s1, y1, yv1)"
    and c: "(if stop_now s1 t then Inr (s1\<lparr>n_estimators := t + 1\<rparr>)
      else fit_loop E X Xv R n0 k (Suc t) (s1, y1, yv1)) = Inr S"
    by (rule fit_loop_SucE)
  from c have st: "stop_now s1 t \<Longrightarrow> S = s1\<lparr>n_estimators := t + 1\<rparr>"
    and co: "\<not> stop_now s1 t \<Longrightarrow> fit_loop E X Xv R n0 k (Suc t) (s1, y1, yv1) = Inr S"
    by (simp_all split: if_splits)
  have p1: "P s1" using step[OF Suc.prems(2,3) b] .
  show ?case
  proof (cases "stop_now s1 t")
    case True
    with st upd[OF p1] show ?thesis by simp
  next
    case False
    from Suc.IH[OF co[OF False] p1] show ?thesis by simp
  qed
qed

lemma written_n_estimators [simp]: "written N t (s\<lparr>n_estimators := n\<rparr>) = written N t s"
  by (simp add: written_def)

lemma priv_boost_written:
  assumes b: "priv_boost E X y red t Xv yv s = Inr (s1, y1, yv1)" and w: "written N t s"
  shows "written N (Suc t) s1" "t < N"
proof -
  from b obtain f where
    t1: "t < length (selection_history s)" and t2: "t < length (score_history s)"
    and sh: "selection_history s1 = (selection_history s)[t := Some f]"
    and sc: "score_history s1 = (score_history s)[t := Some (mean (square y1), mean (square yv1))]"
    by (rule priv_boost_Inr) simp
  from w t2 show "t < N" by (simp add: written_def)
  show "written N (Suc t) s1"
    unfolding written_def
  proof (intro conjI allI impI)
    show "length (score_history s1) = N" using w by (simp add: sc written_def)
    show "length (selection_history s1) = N" using w by (simp add: sh written_def)
  next
    fix i assume i: "i < Suc t"
    show "\<exists>a b. score_history s1 ! i = Some (a, b)"
    proof (cases "i = t")
      case True
      with t2 show ?thesis by (simp add: sc)
    next
      case False
      with i w show ?thesis by (simp add: sc written_def)
    qed
    show "\<exists>f. selection_history s1 ! i = Some f"
    proof (cases "i = t")
      case True
      with t1 show ?thesis by (simp add: sh)
    next
      case False
      with i w show ?thesis by (simp add: sh written_def)
    qed
  next
    fix i assume i: "Suc t \<le> i \<and> i < N"
    with w show "score_history s1 ! i = None" by (simp add: sc written_def)
    from i w show "selection_history s1 ! i = None" by (simp add: sh written_def)
  qed
qed

lemma priv_boost_n_estimators:
  assumes "priv_boost E X y red t Xv yv s = Inr (s1, y1, yv1)"
  shows "n_estimators s1 = n_estimators s" "n_iter_no_change s1 = n_iter_no_change s"
  using assms by (auto elim!: priv_boost_Inr)

lemma priv_boost_score_history:
  assumes "priv_boost E X y red t Xv yv s = Inr (s1, y1, yv1)"
  shows "score_history s1 = (score_history s)[t := Some (mean (square y1), mean (square yv1))]"
    "t < length (score_history s)"
  using assms by (auto elim!: priv_boost_Inr)

lemma slice_take: "slice xs lo hi = drop lo (take hi xs)"
  by (simp add: slice_def drop_take)

lemma stop_now_cong:
  assumes "take t (score_history s1) = take t (score_history s)"
    "n_iter_no_change s1 = n_iter_no_change s"
  shows "stop_now s1 t = stop_now s t"
  using assms by (simp add: stop_now_def last_iterations_def slice_take)

lemma stop_now_n_estimators [simp]: "stop_now (s\<lparr>n_estimators := n\<rparr>) t = stop_now s t"
  by (simp add: stop_now_def last_iterations_def)

lemma fit_loop_rounds:
  assumes "fit_loop E X Xv R n0 k t (s, y, yv) = Inr S"
    "written N t s" "t + k = N" "n_estimators s = N" "1 \<le> t"
  shows "written N (n_estimators S) S \<and> t \<le> n_estimators S \<and> n_estimators S \<le> N \<and>
         take t (score_history S) = take t (score_history s) \<and>
         n_iter_no_change S = n_iter_no_change s \<and>
         (\<forall>u. t \<le> u \<and> u + 1 < n_estimators S \<longrightarrow> \<not> stop_now S u) \<and>
         (n_estimators S < N \<longrightarrow> t + 1 \<le> n_estimators S \<and> stop_now S (n_estimators S - 1))"
  using assms
proof (induction k arbitrary: t s y yv)
  case 0
  then show ?case by auto
next
  case (Suc k)
  from Suc.prems(1) obtain red s1 y1 yv1 where
    r: "redundancy_vector R (priv_selected_count_matrix s) n0 t = Inr red"
    and b: "priv_boost E X y (Vector red) t Xv yv s = Inr (s1, y1, yv1)"
    and c: "(if stop_now s1 t then Inr (s1\<lparr>n_estimators := t + 1\<rparr>)
      else fit_loop E X Xv R n0 k (Suc t) (s1, y1, yv1)) = Inr S"
    by (rule fit_loop_SucE)
  from c have st: "stop_now s1 t \<Longrightarrow> S = s1\<lparr>n_estimators := t + 1\<rparr>"
    and co: "\<not> stop_now s1 t \<Longrightarrow> fit_loop E X Xv R n0 k (Suc t) (s1, y1, yv1) = Inr S"
    by (simp_all split: if_splits)
  note w1 = priv_boost_written[OF b Suc.prems(2)]
  note ne = priv_boost_n_estimators[OF b]
  note sc = priv_boost_score_history[OF b]
  have tk: "take t (score_history s1) = take t (score_history s)" by (simp add: sc(1))
  show ?case
  proof (cases "stop_now s1 t")
    case True
    from st[OF True] have S: "S = s1\<lparr>n_estimators := t + 1\<rparr>" .
    show ?thesis using w1 True tk ne Suc.prems(3) by (auto simp: S)
  next
    case False
    have ih: "written N (n_estimators S) S \<and> Suc t \<le> n_estimators S \<and> n_estimators S \<le> N \<and>
         take (Suc t) (score_history S) = take (Suc t) (score_history s1) \<and>
         n_iter_no_change S = n_iter_no_change s1 \<and>
         (\<forall>u. Suc t \<le> u \<and> u + 1 < n_estimators S \<longrightarrow> \<not> stop_now S u) \<and>
         (n_estimators S < N \<longrightarrow> Suc t + 1 \<le> n_estimators S \<and> stop_now S (n_estimators S - 1))"
      using Suc.IH[OF co[OF False] w1(1)] Suc.prems(3,4) ne by simp
    from ih have tk1: "take (Suc t) (score_history S) = take (Suc t) (score_history s1)" by simp
    have "take t (take (Suc t) (score_history S)) = take t (take (Suc t) (score_history s1))"
      by (simp only: tk1)
    then have tkS: "take t (score_history S) = take t (score_history s1)" by (simp add: min_def)
    have "stop_now S t = stop_now s1 t"
      using tkS ih by (intro stop_now_cong) simp_all
    with False have ns: "\<not> stop_now S t" by simp
    have "\<forall>u. t \<le> u \<and> u + 1 < n_estimators S \<longrightarrow> \<not> stop_now S u"
    proof (intro allI impI)
      fix u assume u: "t \<le> u \<and> u + 1 < n_estimators S"
      show "\<not> stop_now S u"
      proof (cases "u = t")
        case True
        with ns show ?thesis by simp
      next
        case False
        with u ih show ?thesis by simp
      qed
    qed
    with ih tkS tk ne show ?thesis by simp
  qed
qed

lemma priv_fit_E:
  assumes "priv_fit E X y Xv yv s = Inr S"
  obtains mu s1 r1 rv1 row0 rows where
    "mean y = Some mu"
    "priv_boost E X (map (\<lambda>v. v - mu) y) (Scalar 0) 0 Xv (map (\<lambda>v. v - mu) yv)
        (s\<lparr>intercept := mu\<rparr>) = Inr (s1, r1, rv1)"
    "X = row0 # rows"
    "fit_loop E X Xv (redundancy_matrix s X) (length row0) (n_estimators s - 1) 1 (s1, r1, rv1)
       = Inr S"
proof -
  from assms obtain mu where m: "mean y = Some mu"
    by (cases "mean y") (simp_all add: priv_fit_def)
  from assms m obtain p where
    b: "priv_boost E X (map (\<lambda>v. v - mu) y) (Scalar 0) 0 Xv (map (\<lambda>v. v - mu) yv)
        (s\<lparr>intercept := mu\<rparr>) = Inr p"
    and c: "(case X of [] \<Rightarrow> Inl IndexError
             | row0 # rows \<Rightarrow> fit_loop E X Xv (redundancy_matrix (fst p) X) (length row0)
                 (n_estimators (fst p) - 1) 1 p) = Inr S"
    unfolding priv_fit_def Let_def by (auto simp: and_then_Inr)
  obtain s1 r1 rv1 where p: "p = (s1, r1, rv1)" by (cases p)
  from c obtain row0 rows where X: "X = row0 # rows" by (cases X) simp_all
  from b have fr: "hyper.truncate s1 = hyper.truncate (s\<lparr>intercept := mu\<rparr>)"
    unfolding p by (rule priv_boost_frame(1))
  from arg_cong[OF fr, of redundancy_matrix] arg_cong[OF fr, of n_estimators]
  have h: "redundancy_matrix s1 = redundancy_matrix s" "n_estimators s1 = n_estimators s"
    by (simp_all add: hyper.truncate_def)
  from c X have l: "fit_loop E X Xv (redundancy_matrix s1 X) (length row0)
      (n_estimators s1 - 1) 1 (s1, r1, rv1) = Inr S" by (simp add: p)
  show ?thesis by (rule that[OF m b[unfolded p] X l[unfolded h]])
qed

lemma written_intercept [simp]: "written N t (s\<lparr>intercept := c\<rparr>) = written N t s"
  by (simp add: written_def)

lemma priv_fit_rounds:
  assumes f: "priv_fit E X y Xv yv s = Inr S"
    and w: "written N 0 s" and n: "n_estimators s = N" and pos: "1 \<le> N"
  shows "written N (n_estimators S) S" "1 \<le> n_estimators S" "n_estimators S \<le> N"
    "n_iter_no_change S = n_iter_no_change s"
    "\<forall>u. 1 \<le> u \<and> u + 1 < n_estimators S \<longrightarrow> \<not> stop_now S u"
    "n_estimators S < N \<longrightarrow> 2 \<le> n_estimators S \<and> stop_now S (n_estimators S - 1)"
proof -
  from f obtain mu s1 r1 rv1 row0 rows where
    m: "mean y = Some mu"
    and b: "priv_boost E X (map (\<lambda>v. v - mu) y) (Scalar 0) 0 Xv (map (\<lambda>v. v - mu) yv)
        (s\<lparr>intercept := mu\<rparr>) = Inr (s1, r1, rv1)"
    and X: "X = row0 # rows"
    and l: "fit_loop E X Xv (redundancy_matrix s X) (length row0) (n_estimators s - 1) 1
        (s1, r1, rv1) = Inr S"
    by (rule priv_fit_E)
  from w have w0: "written N 0 (s\<lparr>intercept := mu\<rparr>)" by simp
  note w1 = priv_boost_written(1)[OF b w0]
  note ne = priv_boost_n_estimators[OF b]
  have "written N (n_estimators S) S \<and> 1 \<le> n_estimators S \<and> n_estimators S \<le> N \<and>
         take 1 (score_history S) = take 1 (score_history s1) \<and>
         n_iter_no_change S = n_iter_no_change s1 \<and>
         (\<forall>u. 1 \<le> u \<and> u + 1 < n_estimators S \<longrightarrow> \<not> stop_now S u) \<and>
         (n_estimators S < N \<longrightarrow> 1 + 1 \<le> n_estimators S \<and> stop_now S (n_estimators S - 1))"
    using l w1 n pos ne by (intro fit_loop_rounds[where k = "N - 1" and s = s1]) simp_all
  then show "written N (n_estimators S) S" "1 \<le> n_estimators S" "n_estimators S \<le> N"
    "n_iter_no_change S = n_iter_no_change s"
    "\<forall>u. 1 \<le> u \<and> u + 1 < n_estimators S \<longrightarrow> \<not> stop_now S u"
    "n_estimators S < N \<longrightarrow> 2 \<le> n_estimators S \<and> stop_now S (n_estimators S - 1)"
    using ne by auto
qed

lemma priv_fit_invariant:
  assumes "priv_fit E X y Xv yv s = Inr S" "P s"
    and step: "\<And>s y red t yv s1 y1 yv1.
       P s \<Longrightarrow> priv_boost E X y red t Xv yv s = Inr (s1, y1, yv1) \<Longrightarrow> P s1"
    and upd: "\<And>s n. P s \<Longrightarrow> P (s\<lparr>n_estimators := n\<rparr>)"
    and icp: "\<And>s c. P s \<Longrightarrow> P (s\<lparr>intercept := c\<rparr>)"
  shows "P S"
proof -
  from assms(1) obtain mu s1 r1 rv1 row0 rows where
    m: "mean y = Some mu"
    and b: "priv_boost E X (map (\<lambda>v. v - mu) y) (Scalar 0) 0 Xv (map (\<lambda>v. v - mu) yv)
        (s\<lparr>intercept := mu\<rparr>) = Inr (s1, r1, rv1)"
    and X: "X = row0 # rows"
    and l: "fit_loop E X Xv (redundancy_matrix s X) (length row0) (n_estimators s - 1) 1
        (s1, r1, rv1) = Inr S"
    by (rule priv_fit_E)
  have "P s1" using step[OF icp[OF assms(2)] b] .
  with l show ?thesis
    by (rule fit_loop_invariant) (auto intro: step upd)
qed

lemma fit_rounds_E:
  fixes E X y vs s
  defines "split \<equiv> (case vs of
        None \<Rightarrow> train_test_split E X y (validation_fraction s) (random_state s)
      | Some (Xv, yv) \<Rightarrow> (X, Xv, y, yv))"
  assumes "fit_rounds E X y vs s = Inr (Xt, s3)"
  obtains s1 p Xv yv where
    "priv_initialize_fit_params (fst split) (fst (snd (snd split))) s = Inr s1"
    "Xt = snd (pre_fit_transform E (preprocessor s1) (fst split)
                (target_values (fst (snd (snd split)))))"
    "priv_fit E Xt (target_values (fst (snd (snd split)))) Xv yv (s1\<lparr>preprocessor := p\<rparr>)
       = Inr s3"
proof -
  from assms(2) obtain s1 where
    i: "priv_initialize_fit_params (fst split) (fst (snd (snd split))) s = Inr s1"
    and f: "priv_fit E (snd (pre_fit_transform E (preprocessor s1) (fst split)
                (target_values (fst (snd (snd split))))))
              (target_values (fst (snd (snd split))))
              (pre_transform E (fst (pre_fit_transform E (preprocessor s1) (fst split)
                (target_values (fst (snd (snd split)))))) (fst (snd split)))
              (target_values (snd (snd (snd split))))
              (s1\<lparr>preprocessor := fst (pre_fit_transform E (preprocessor s1) (fst split)
                (target_values (fst (snd (snd split)))))\<rparr>) = Inr s3"
    and x: "Xt = snd (pre_fit_transform E (preprocessor s1) (fst split)
                (target_values (fst (snd (snd split)))))"
    unfolding fit_rounds_def Let_def split_def[symmetric]
    by (auto simp: and_then_Inr)
  show ?thesis
    by (rule that[OF i x f[folded x]])
qed

lemma fit_E:
  assumes "fit E X y vs s = Inr s'"
  obtains Xt s3 names biases regs selected_names where
    "fit_rounds E X y vs s = Inr (Xt, s3)"
    "feature_names_in s3 = Some names"
    "fix_all_bias E Xt 0 (map (\<lambda>(estimators, name).
        sum_tree_regressors E estimators name (output_name s3)) (zip (priv_regressors s3) names))
       = Inr (biases, regs)"
    "names_at names (take (n_estimators s3) (selection_history s3)) = Inr selected_names"
    "s' = s3\<lparr>regressors := regs, intercept := intercept s3 + sum_list biases,
              selection_history := take (n_estimators s3) (selection_history s3),
              score_history := map (map_option sqrt_pair) (score_history s3),
              selection_count := counter selected_names, priv_is_fitted := True\<rparr>"
proof -
  from assms obtain q where r: "fit_rounds E X y vs s = Inr q"
    and c: "(case q of (X_train, s3) \<Rightarrow>
       (case feature_names_in s3 of
          None \<Rightarrow> Inl TypeError
        | Some names \<Rightarrow>
            and_then
              (fix_all_bias E X_train 0
                 (map (\<lambda>(estimators, name).
                         sum_tree_regressors E estimators name (output_name s3))
                    (zip (priv_regressors s3) names)))
              (\<lambda>(biases, regs).
                let s4 = s3\<lparr>regressors := regs,
                             intercept := intercept s3 + sum_list biases\<rparr>;
                    s5 = s4\<lparr>selection_history :=
                               take (n_estimators s4) (selection_history s4)\<rparr>;
                    s6 = s5\<lparr>score_history := map (map_option sqrt_pair) (score_history s5)\<rparr>
                in
                and_then (names_at names (selection_history s6)) (\<lambda>selected_names.
                  Inr (s6\<lparr>selection_count := counter selected_names,
                           priv_is_fitted := True\<rparr>))))) = Inr s'"
    unfolding fit_def by (elim and_thenE)
  obtain Xt s3 where q: "q = (Xt, s3)" by (cases q)
  from c obtain names where nm: "feature_names_in s3 = Some names"
    unfolding q by (cases "feature_names_in s3") simp_all
  from c have c': "and_then
              (fix_all_bias E Xt 0
                 (map (\<lambda>(estimators, name).
                         sum_tree_regressors E estimators name (output_name s3))
                    (zip (priv_regressors s3) names)))
              (\<lambda>(biases, regs).
                let s4 = s3\<lparr>regressors := regs,
                             intercept := intercept s3 + sum_list biases\<rparr>;
                    s5 = s4\<lparr>selection_history :=
                               take (n_estimators s4) (selection_history s4)\<rparr>;
                    s6 = s5\<lparr>score_history := map (map_option sqrt_pair) (score_history s5)\<rparr>
                in
                and_then (names_at names (selection_history s6)) (\<lambda>selected_names.
                  Inr (s6\<lparr>selection_count := counter selected_names,
                           priv_is_fitted := True\<rparr>))) = Inr s'"
    by (simp add: q nm)
  from c' obtain br sn where
    fb: "fix_all_bias E Xt 0 (map (\<lambda>(estimators, name).
        sum_tree_regressors E estimators name (output_name s3)) (zip (priv_regressors s3) names))
       = Inr br"
    and na: "names_at names (take (n_estimators s3) (selection_history s3)) = Inr sn"
    and s': "s' = s3\<lparr>regressors := snd br, intercept := intercept s3 + sum_list (fst br),
              selection_history := take (n_estimators s3) (selection_history s3),
              score_history := map (map_option sqrt_pair) (score_history s3),
              selection_count := counter sn, priv_is_fitted := True\<rparr>"
    by (auto simp: and_then_Inr Let_def split_def)
  show ?thesis
    using r nm fb na s' unfolding q by (intro that[of Xt s3 names "fst br" "snd br" sn]) simp_all
qed

lemma sum_list_map2_mult:
  assumes "length a = length b"
  shows "sum_list (map2 (\<lambda>x y. x * y) a b) = (\<Sum>j<length a. a ! j * b ! (j::nat) :: real)"
proof -
  have "sum_list (map2 (\<lambda>x y. x * y) a b)
      = (\<Sum>j = 0..<length (map2 (\<lambda>x y. x * y) a b). map2 (\<lambda>x y. x * y) a b ! j)"
    by (rule sum_list_sum_nth)
  also have "\<dots> = (\<Sum>j = 0..<length a. a ! j * b ! j)"
    using assms by (intro sum.cong) simp_all
  finally show ?thesis by (simp add: lessThan_atLeast0)
qed

lemma redundancy_vector_Inr:
  assumes "redundancy_vector R C out_len t = Inr red"
  shows "length R = out_len" "map length R = map length C" "length red = out_len"
    "\<forall>i<out_len. red ! i = (\<Sum>j<length (R ! i). R ! i ! j * C ! i ! j) / real t"
proof -
  from assms obtain product summed where
    m: "multiply_out R C = Inr product" and a: "sum_axis1_out product out_len = Inr summed"
    and r: "red = map (\<lambda>x. x / real t) summed"
    unfolding redundancy_vector_def by (auto simp: and_then_Inr)
  from m have sh: "map length R = map length C"
    and p: "product = map2 (\<lambda>a b. map2 (\<lambda>x y. x * y) a b) R C"
    by (auto simp: multiply_out_def same_shape_def split: if_splits)
  from sh have len: "length R = length C" by (rule map_eq_imp_length_eq)
  from a have lp: "length product = out_len" and su: "summed = map sum_list product"
    by (auto simp: sum_axis1_out_def split: if_splits)
  show "length R = out_len" using lp len by (simp add: p)
  show "map length R = map length C" by (rule sh)
  show "length red = out_len" using lp by (simp add: r su)
  show "\<forall>i<out_len. red ! i = (\<Sum>j<length (R ! i). R ! i ! j * C ! i ! j) / real t"
  proof (intro allI impI)
    fix i assume i: "i < out_len"
    with lp len have iR: "i < length R" "i < length C" by (simp_all add: p)
    from sh iR have "length (R ! i) = length (C ! i)"
      by (metis nth_map)
    then have "sum_list (map2 (\<lambda>x y. x * y) (R ! i) (C ! i))
        = (\<Sum>j<length (R ! i). R ! i ! j * C ! i ! j)"
      by (rule sum_list_map2_mult)
    with iR i lp show "red ! i = (\<Sum>j<length (R ! i). R ! i ! j * C ! i ! j) / real t"
      by (simp add: r su p)
  qed
qed

lemma filter_zip_nth:
  assumes "length ds = length xs"
  shows "map snd (filter fst (zip (map P ds) xs))
       = map (\<lambda>j. xs ! j) (filter (\<lambda>j. P (ds ! j)) [0..<length xs])"
  using assms
proof (induction xs arbitrary: ds rule: rev_induct)
  case Nil
  then show ?case by simp
next
  case (snoc x xs)
  from snoc.prems obtain d ds' where ds: "ds = ds' @ [d]" and l: "length ds' = length xs"
    by (cases ds rule: rev_cases) simp_all
  have eq: "filter (\<lambda>j. P ((ds' @ [d]) ! j)) [0..<length xs] = filter (\<lambda>j. P (ds' ! j)) [0..<length xs]"
    using l by (intro filter_cong) (simp_all add: nth_append)
  have m: "map (\<lambda>j. (xs @ [x]) ! j) (filter (\<lambda>j. P (ds' ! j)) [0..<length xs])
         = map (\<lambda>j. xs ! j) (filter (\<lambda>j. P (ds' ! j)) [0..<length xs])"
    by (intro map_cong) (auto simp: nth_append)
  have dl: "(ds' @ [d]) ! length xs = d" using l by (metis nth_append_length)
  have L: "map snd (filter fst (zip (map P ds) (xs @ [x])))
         = map snd (filter fst (zip (map P ds') xs)) @ (if P d then [x] else [])"
    using l by (simp add: ds)
  have "map (\<lambda>j. (xs @ [x]) ! j) (filter (\<lambda>j. P (ds ! j)) [0..<length (xs @ [x])])
      = map (\<lambda>j. (xs @ [x]) ! j) (filter (\<lambda>j. P ((ds' @ [d]) ! j)) [0..<length xs])
        @ (if P d then [x] else [])"
    by (simp add: ds dl)
  also have "\<dots> = map (\<lambda>j. xs ! j) (filter (\<lambda>j. P (ds' ! j)) [0..<length xs])
        @ (if P d then [x] else [])"
    by (simp only: eq m)
  finally show ?case
    using snoc.IH[OF l] L by simp
qed

lemma mask_select_nth:
  assumes "mask_select (map P ds) xs = Inr r"
  shows "length ds = length xs" "r = map (\<lambda>j. xs ! j) (filter (\<lambda>j. P (ds ! j)) [0..<length xs])"
proof -
  from assms show l: "length ds = length xs" by (auto simp: mask_select_def split: if_splits)
  from assms have "r = map snd (filter fst (zip (map P ds) xs))"
    by (auto simp: mask_select_def split: if_splits)
  with filter_zip_nth[OF l, of P] show "r = map (\<lambda>j. xs ! j) (filter (\<lambda>j. P (ds ! j)) [0..<length xs])"
    by simp
qed

lemma take_index_Inr:
  assumes "take_index xs idx = Inr r"
  shows "r = map (\<lambda>i. xs ! i) idx" "length r = length idx"
  using assms by (auto simp: take_index_def split: if_splits)

lemma hyper_truncate_updates [simp]:
  "hyper.truncate (s\<lparr>preprocessor := a\<rparr>) = hyper.truncate s"
  "hyper.truncate (s\<lparr>regressors := b\<rparr>) = hyper.truncate s"
  "hyper.truncate (s\<lparr>intercept := c\<rparr>) = hyper.truncate s"
  "hyper.truncate (s\<lparr>selection_history := d\<rparr>) = hyper.truncate s"
  "hyper.truncate (s\<lparr>score_history := e\<rparr>) = hyper.truncate s"
  "hyper.truncate (s\<lparr>selection_count := f\<rparr>) = hyper.truncate s"
  "hyper.truncate (s\<lparr>priv_selected_count_matrix := g\<rparr>) = hyper.truncate s"
  "hyper.truncate (s\<lparr>priv_regressors := h\<rparr>) = hyper.truncate s"
  "hyper.truncate (s\<lparr>priv_random_generator := i\<rparr>) = hyper.truncate s"
  "hyper.truncate (s\<lparr>priv_n := j\<rparr>) = hyper.truncate s"
  "hyper.truncate (s\<lparr>priv_m := k\<rparr>) = hyper.truncate s"
  "hyper.truncate (s\<lparr>priv_is_fitted := l\<rparr>) = hyper.truncate s"
  "hyper.truncate (s\<lparr>priv_indexing_cache := m\<rparr>) = hyper.truncate s"
  "hyper.truncate (s\<lparr>n_estimators := n\<rparr>) = (hyper.truncate s)\<lparr>n_estimators := n\<rparr>"
  "hyper.truncate (s\<lparr>feature_names_in := fn\<rparr>) = (hyper.truncate s)\<lparr>feature_names_in := fn\<rparr>"
  "hyper.truncate (s\<lparr>output_name := on\<rparr>) = (hyper.truncate s)\<lparr>output_name := on\<rparr>"
  by (simp_all add: hyper.truncate_def)

lemma new_model_Inr:
  assumes "new_model E h = Inr s0"
  shows "valid_hyper h" "hyper.truncate s0 = h" "\<not> priv_is_fitted s0"
    "selection_history s0 = replicate (n_estimators h) None"
    "score_history s0 = replicate (n_estimators h) None"
    "written (n_estimators h) 0 s0"
proof -
  from assms show v: "valid_hyper h" by (simp add: new_model_def split: if_splits)
  with assms have s0: "s0 = hyper.extend h
          (sabr.fields
             (make_preprocessor E (categorical_features h) (fill_value h) (max_bins h)
                (random_state h))
             [] 0
             (replicate (n_estimators h) None)
             (replicate (n_estimators h) None)
             [] [] []
             (default_rng E (random_state h))
             0 0 False [])"
    by (simp add: new_model_def)
  show "hyper.truncate s0 = h" by (simp add: s0 hyper.defs sabr.defs)
  show "\<not> priv_is_fitted s0" by (simp add: s0 hyper.defs sabr.defs)
  show sh: "selection_history s0 = replicate (n_estimators h) None"
    by (simp add: s0 hyper.defs sabr.defs)
  show sc: "score_history s0 = replicate (n_estimators h) None"
    by (simp add: s0 hyper.defs sabr.defs)
  show "written (n_estimators h) 0 s0" by (simp add: written_def sh sc)
qed

lemma priv_initialize_fit_params_Inr:
  assumes "priv_initialize_fit_params X y s = Inr s1"
  shows "selection_history s1 = selection_history s" "score_history s1 = score_history s"
    "priv_is_fitted s1 = priv_is_fitted s"
    "priv_selected_count_matrix s1 = replicate (priv_n s1) (replicate (priv_n s1) 0)"
    "priv_regressors s1 = replicate (priv_n s1) []"
    "hyper.truncate s1 = (hyper.truncate s)\<lparr>feature_names_in := feature_names_in s1,
        output_name := output_name s1\<rparr>"
    "feature_names_in s \<noteq> None \<Longrightarrow> feature_names_in s1 = feature_names_in s"
    "output_name s \<noteq> None \<Longrightarrow> output_name s1 = output_name s"
    "feature_names_in s = None \<Longrightarrow> feature_names_in s1 =
        Some (case frame_columns X of Some cs \<Rightarrow> cs
              | None \<Rightarrow> map (\<lambda>i. ''feature_'' @ str_nat i) [0..<priv_n s1])"
    "output_name s = None \<Longrightarrow> output_name s1 =
        (case y of Series nm ys \<Rightarrow> nm | Array ys \<Rightarrow> Some ''output'')"
    "shape2 (frame_values X) = Inr (priv_m s1, priv_n s1)"
proof -
  from assms obtain mn where sh: "shape2 (frame_values X) = Inr mn"
    and s1: "s1 = s\<lparr>priv_m := fst mn, priv_n := snd mn,
              feature_names_in :=
                (case feature_names_in s of
                   None \<Rightarrow>
                     Some (case frame_columns X of
                             Some cs \<Rightarrow> cs
                           | None \<Rightarrow> map (\<lambda>i. ''feature_'' @ str_nat i) [0..<snd mn])
                 | Some names \<Rightarrow> Some names),
              output_name :=
                (case output_name s of
                   None \<Rightarrow> (case y of Series nm ys \<Rightarrow> nm | Array ys \<Rightarrow> Some ''output'')
                 | Some nm \<Rightarrow> Some nm),
              priv_regressors := replicate (snd mn) [],
              priv_selected_count_matrix := replicate (snd mn) (replicate (snd mn) 0),
              priv_indexing_cache := replicate (snd mn) None\<rparr>"
    unfolding priv_initialize_fit_params_def and_then_Inr split_def by (elim exE conjE) simp
  show "selection_history s1 = selection_history s" by (simp add: s1)
  show "score_history s1 = score_history s" by (simp add: s1)
  show "priv_is_fitted s1 = priv_is_fitted s" by (simp add: s1)
  show "priv_selected_count_matrix s1 = replicate (priv_n s1) (replicate (priv_n s1) 0)"
    by (simp add: s1)
  show "priv_regressors s1 = replicate (priv_n s1) []" by (simp add: s1)
  show "hyper.truncate s1 = (hyper.truncate s)\<lparr>feature_names_in := feature_names_in s1,
        output_name := output_name s1\<rparr>" by (simp add: s1)
  show "feature_names_in s \<noteq> None \<Longrightarrow> feature_names_in s1 = feature_names_in s"
    by (cases "feature_names_in s") (simp_all add: s1)
  show "output_name s \<noteq> None \<Longrightarrow> output_name s1 = output_name s"
    by (cases "output_name s") (simp_all add: s1)
  show "feature_names_in s = None \<Longrightarrow> feature_names_in s1 =
        Some (case frame_columns X of Some cs \<Rightarrow> cs
              | None \<Rightarrow> map (\<lambda>i. ''feature_'' @ str_nat i) [0..<priv_n s1])"
    by (cases "frame_columns X") (simp_all add: s1)
  show "output_name s = None \<Longrightarrow> output_name s1 =
        (case y of Series nm ys \<Rightarrow> nm | Array ys \<Rightarrow> Some ''output'')"
    by (simp add: s1)
  show "shape2 (frame_values X) = Inr (priv_m s1, priv_n s1)" by (simp add: s1 sh)
qed

lemma written_preprocessor [simp]: "written N t (s\<lparr>preprocessor := p\<rparr>) = written N t s"
  by (simp add: written_def)

lemma priv_fit_frame:
  assumes f: "priv_fit E X y Xv yv s = Inr S"
  shows "hyper.truncate S = (hyper.truncate s)\<lparr>n_estimators := n_estimators S\<rparr>"
    "priv_is_fitted S = priv_is_fitted s" "priv_n S = priv_n s"
    "preprocessor S = preprocessor s"
proof -
  let ?P = "\<lambda>x. hyper.truncate x = (hyper.truncate s)\<lparr>n_estimators := n_estimators x\<rparr> \<and>
        priv_is_fitted x = priv_is_fitted s \<and> priv_n x = priv_n s \<and>
        preprocessor x = preprocessor s"
  have "?P S"
  proof (rule priv_fit_invariant[OF f, where P = ?P])
    show "?P s" by (simp add: hyper.truncate_def)
  next
    fix a y red t yv a1 y1 yv1
    assume p: "?P a" and b: "priv_boost E X y red t Xv yv a = Inr (a1, y1, yv1)"
    from priv_boost_frame[OF b] priv_boost_n_estimators[OF b] p show "?P a1" by simp
  next
    fix a n assume p: "?P a"
    have "hyper.truncate (a\<lparr>n_estimators := n\<rparr>) = (hyper.truncate a)\<lparr>n_estimators := n\<rparr>"
      by simp
    also have "\<dots> = (hyper.truncate s)\<lparr>n_estimators := n\<rparr>"
      using p by simp
    finally show "?P (a\<lparr>n_estimators := n\<rparr>)" using p by simp
  next
    fix a c assume "?P a" then show "?P (a\<lparr>intercept := c\<rparr>)" by simp
  qed
  then show "hyper.truncate S = (hyper.truncate s)\<lparr>n_estimators := n_estimators S\<rparr>"
    "priv_is_fitted S = priv_is_fitted s" "priv_n S = priv_n s"
    "preprocessor S = preprocessor s" by simp_all
qed

lemma priv_boost_selected:
  assumes b: "priv_boost E X y red t Xv yv s = Inr (s1, y1, yv1)"
  shows "\<exists>f l. selection_history s1 = (selection_history s)[t := Some f] \<and>
    t < length (selection_history s) \<and>
    update_count_matrix (priv_selected_count_matrix s) f = Inr (priv_selected_count_matrix s1) \<and>
    f < length (priv_regressors s) \<and>
    priv_regressors s1 = (priv_regressors s)[f := priv_regressors s ! f @ [l]]"
  apply (rule priv_boost_Inr[OF b])
  subgoal for f cm cache idx Xsel Xs ys Xsub ysub learner
    apply (rule exI[of _ f])
    apply (rule exI[of _ learner])
    apply simp
    done
  done

lemma priv_boost_count_matrix:
  assumes b: "priv_boost E X y red t Xv yv s = Inr (s1, y1, yv1)"
  obtains f l where "selection_history s1 = (selection_history s)[t := Some f]"
    "t < length (selection_history s)"
    "update_count_matrix (priv_selected_count_matrix s) f = Inr (priv_selected_count_matrix s1)"
    "f < length (priv_regressors s)"
    "priv_regressors s1 = (priv_regressors s)[f := priv_regressors s ! f @ [l]]"
  using priv_boost_selected[OF b] by (elim exE conjE)

lemma priv_fit_count_matrix:
  assumes f: "priv_fit E X y Xv yv s = Inr S"
    and "sym_zero_diag (priv_selected_count_matrix s)"
  shows "sym_zero_diag (priv_selected_count_matrix S)"
    "length (priv_selected_count_matrix S) = length (priv_selected_count_matrix s)"
proof -
  let ?P = "\<lambda>x. sym_zero_diag (priv_selected_count_matrix x) \<and>
     length (priv_selected_count_matrix x) = length (priv_selected_count_matrix s)"
  have "?P S"
  proof (rule priv_fit_invariant[OF f, where P = ?P])
    show "?P s" using assms(2) by simp
  next
    fix a y red t yv a1 y1 yv1
    assume p: "?P a" and b: "priv_boost E X y red t Xv yv a = Inr (a1, y1, yv1)"
    from b obtain g where
      u: "update_count_matrix (priv_selected_count_matrix a) g = Inr (priv_selected_count_matrix a1)"
      by (rule priv_boost_count_matrix)
    from p have sq: "square_matrix (priv_selected_count_matrix a)" by (simp add: sym_zero_diag_def)
    from sym_zero_diag_update[OF u] update_count_matrix_Inr(2)[OF u sq] p show "?P a1" by simp
  qed simp_all
  then show "sym_zero_diag (priv_selected_count_matrix S)"
    "length (priv_selected_count_matrix S) = length (priv_selected_count_matrix s)" by simp_all
qed

lemma priv_fit_selected_have_learners:
  assumes f: "priv_fit E X y Xv yv s = Inr S" and "selected_have_learners s"
  shows "selected_have_learners S"
proof (rule priv_fit_invariant[OF f, where P = selected_have_learners])
  show "selected_have_learners s" by (rule assms(2))
next
  fix a y red t yv a1 y1 yv1
  assume p: "selected_have_learners a" and b: "priv_boost E X y red t Xv yv a = Inr (a1, y1, yv1)"
  from b obtain g l where sh: "selection_history a1 = (selection_history a)[t := Some g]"
    and t: "t < length (selection_history a)"
    and g: "g < length (priv_regressors a)"
    and pr: "priv_regressors a1 = (priv_regressors a)[g := priv_regressors a ! g @ [l]]"
    by (rule priv_boost_count_matrix)
  show "selected_have_learners a1"
    unfolding selected_have_learners_def
  proof (intro allI impI)
    fix i f' assume h: "i < length (selection_history a1) \<and> selection_history a1 ! i = Some f'"
    show "f' < length (priv_regressors a1) \<and> priv_regressors a1 ! f' \<noteq> []"
    proof (cases "i = t")
      case True
      with h t have "f' = g" by (simp add: sh)
      with g show ?thesis by (simp add: pr)
    next
      case False
      with h have "i < length (selection_history a) \<and> selection_history a ! i = Some f'"
        by (simp add: sh)
      with p have "f' < length (priv_regressors a) \<and> priv_regressors a ! f' \<noteq> []"
        unfolding selected_have_learners_def by blast
      then show ?thesis by (cases "f' = g") (simp_all add: pr)
    qed
  qed
qed (simp_all add: selected_have_learners_def)

lemma written_selected_have_learners: "written N 0 s \<Longrightarrow> selected_have_learners s"
  by (auto simp: written_def selected_have_learners_def)

text \<open>What holds after the rounds of a fit that starts with empty histories.\<close>

lemma fit_rounds_facts:
  assumes fr: "fit_rounds E X y vs s = Inr (Xt, s3)"
    and w: "written N 0 s" and n: "n_estimators s = N" and pos: "1 \<le> N"
  shows "written N (n_estimators s3) s3" "1 \<le> n_estimators s3" "n_estimators s3 \<le> N"
    "n_iter_no_change s3 = n_iter_no_change s"
    "\<forall>u. 1 \<le> u \<and> u + 1 < n_estimators s3 \<longrightarrow> \<not> stop_now s3 u"
    "n_estimators s3 < N \<longrightarrow> 2 \<le> n_estimators s3 \<and> stop_now s3 (n_estimators s3 - 1)"
    "selected_have_learners s3"
proof -
  from fr obtain s1 p Xv yv y0 where
    i: "priv_initialize_fit_params
          (fst (case vs of None \<Rightarrow> train_test_split E X y (validation_fraction s) (random_state s)
                | Some (Xv, yv) \<Rightarrow> (X, Xv, y, yv)))
          (fst (snd (snd (case vs of None \<Rightarrow> train_test_split E X y (validation_fraction s) (random_state s)
                | Some (Xv, yv) \<Rightarrow> (X, Xv, y, yv))))) s = Inr s1"
    and f: "priv_fit E Xt y0 Xv yv (s1\<lparr>preprocessor := p\<rparr>) = Inr s3"
    by (rule fit_rounds_E)
  note ini = priv_initialize_fit_params_Inr[OF i]
  have w1: "written N 0 (s1\<lparr>preprocessor := p\<rparr>)"
    using w ini(1,2) by (simp add: written_def)
  from arg_cong[OF ini(6), of n_estimators] arg_cong[OF ini(6), of n_iter_no_change]
  have h: "n_estimators s1 = n_estimators s" "n_iter_no_change s1 = n_iter_no_change s"
    by (simp_all add: hyper.truncate_def)
  have n1: "n_estimators (s1\<lparr>preprocessor := p\<rparr>) = N" using n h by simp
  note r = priv_fit_rounds[OF f w1 n1 pos]
  show "written N (n_estimators s3) s3" by (rule r(1))
  show "1 \<le> n_estimators s3" by (rule r(2))
  show "n_estimators s3 \<le> N" by (rule r(3))
  show "n_iter_no_change s3 = n_iter_no_change s" using r(4) h by simp
  show "\<forall>u. 1 \<le> u \<and> u + 1 < n_estimators s3 \<longrightarrow> \<not> stop_now s3 u" by (rule r(5))
  show "n_estimators s3 < N \<longrightarrow> 2 \<le> n_estimators s3 \<and> stop_now s3 (n_estimators s3 - 1)"
    by (rule r(6))
  show "selected_have_learners s3"
    by (rule priv_fit_selected_have_learners[OF f written_selected_have_learners[OF w1]])
qed

lemma fit_rounds_frame:
  assumes fr: "fit_rounds E X y vs s = Inr (Xt, s3)"
  shows "hyper.truncate s3 = (hyper.truncate s)\<lparr>n_estimators := n_estimators s3,
           feature_names_in := feature_names_in s3, output_name := output_name s3\<rparr>"
    "feature_names_in s \<noteq> None \<Longrightarrow> feature_names_in s3 = feature_names_in s"
    "output_name s \<noteq> None \<Longrightarrow> output_name s3 = output_name s"
    "priv_is_fitted s3 = priv_is_fitted s"
    "sym_zero_diag (priv_selected_count_matrix s3)"
    "length (priv_selected_count_matrix s3) = priv_n s3"
proof -
  from fr obtain s1 p Xv yv y0 X0 where
    i: "priv_initialize_fit_params X0 y0 s = Inr s1"
    and f: "priv_fit E Xt (target_values y0) Xv yv (s1\<lparr>preprocessor := p\<rparr>) = Inr s3"
    by (rule fit_rounds_E)
  note ini = priv_initialize_fit_params_Inr[OF i]
  note fra = priv_fit_frame[OF f]
  have t3: "hyper.truncate s3 = (hyper.truncate s1)\<lparr>n_estimators := n_estimators s3\<rparr>"
    using fra(1) by simp
  from arg_cong[OF t3, of feature_names_in] arg_cong[OF t3, of output_name]
  have nm: "feature_names_in s3 = feature_names_in s1" "output_name s3 = output_name s1"
    by (simp_all add: hyper.truncate_def)
  show "hyper.truncate s3 = (hyper.truncate s)\<lparr>n_estimators := n_estimators s3,
           feature_names_in := feature_names_in s3, output_name := output_name s3\<rparr>"
    by (simp add: t3 nm ini(6))
  show "feature_names_in s \<noteq> None \<Longrightarrow> feature_names_in s3 = feature_names_in s"
    using ini(7) nm by simp
  show "output_name s \<noteq> None \<Longrightarrow> output_name s3 = output_name s"
    using ini(8) nm by simp
  show "priv_is_fitted s3 = priv_is_fitted s" using fra(2) ini(3) by simp
  have z: "sym_zero_diag (priv_selected_count_matrix (s1\<lparr>preprocessor := p\<rparr>))"
    by (simp add: ini(4) sym_zero_diag_zeros)
  show "sym_zero_diag (priv_selected_count_matrix s3)"
    by (rule priv_fit_count_matrix(1)[OF f z])
  show "length (priv_selected_count_matrix s3) = priv_n s3"
    using priv_fit_count_matrix(2)[OF f z] fra(3) by (simp add: ini(4))
qed

lemma column_Inr: "column X f = Inr c \<Longrightarrow> length c = length X"
  by (auto simp: column_def split: if_splits)

lemma column_Inl: "column X f = Inl e \<Longrightarrow> e = IndexError"
  by (auto simp: column_def split: if_splits)

lemma column_ok: "\<forall>r \<in> set X. f < length r \<Longrightarrow> column X f = Inr (map (\<lambda>r. r ! f) X)"
  by (simp add: column_def)

lemma predict_each_Inl: "predict_each E keep Xa i rs = Inl e \<Longrightarrow> e = IndexError"
proof (induction rs arbitrary: i)
  case Nil
  then show ?case by simp
next
  case (Cons r rs)
  show ?case
  proof (cases "keep r")
    case True
    with Cons.prems have "column Xa i = Inl e \<or> predict_each E keep Xa (Suc i) rs = Inl e"
      by (auto simp: and_then_Inl)
    then show ?thesis using Cons.IH column_Inl by blast
  next
    case False
    with Cons show ?thesis by simp
  qed
qed

lemma predict_each_total:
  assumes "\<forall>row \<in> set Xa. i + length rs \<le> length row"
    and "\<forall>l c. length (tree_predict E l c) = length c"
  shows "\<exists>ps. predict_each E keep Xa i rs = Inr ps \<and> (\<forall>p \<in> set ps. length p = length Xa) \<and>
     ((\<exists>r \<in> set rs. keep r) \<longrightarrow> ps \<noteq> [])"
  using assms(1)
proof (induction rs arbitrary: i)
  case Nil
  then show ?case by simp
next
  case (Cons r rs)
  have "\<forall>row \<in> set Xa. Suc i + length rs \<le> length row" using Cons.prems by simp
  from Cons.IH[OF this] obtain ps where
    ps: "predict_each E keep Xa (Suc i) rs = Inr ps" "\<forall>p \<in> set ps. length p = length Xa"
    "(\<exists>r \<in> set rs. keep r) \<longrightarrow> ps \<noteq> []" by blast
  show ?case
  proof (cases "keep r")
    case True
    have "\<forall>row \<in> set Xa. i < length row" using Cons.prems by auto
    then have c: "column Xa i = Inr (map (\<lambda>r. r ! i) Xa)" by (rule column_ok)
    show ?thesis
      using True ps c assms(2) by (simp add: and_then_def)
  next
    case False
    with ps show ?thesis by simp
  qed
qed

lemma length_add_vecs:
  assumes "vs \<noteq> []" "\<forall>v \<in> set vs. length v = n"
  shows "length (add_vecs vs) = n"
  using assms by (induction vs rule: add_vecs.induct) simp_all

lemma sum_axis0_Vector:
  assumes "ps \<noteq> []" "\<forall>p \<in> set ps. length p = n"
  shows "\<exists>v. sum_axis0 ps = Inr (Vector v) \<and> length v = n"
proof -
  from assms(1) obtain p rest where ps: "ps = p # rest" by (cases ps) simp_all
  have "length (add_vecs ps) = n" using assms by (rule length_add_vecs)
  with assms(2) show ?thesis by (simp add: sum_axis0_def ps)
qed

lemma sum_axis0_Inl: "sum_axis0 ps = Inl e \<Longrightarrow> e = ValueError"
  by (auto simp: sum_axis0_def split: list.splits if_splits)

lemma fix_all_bias_Inr:
  assumes "fix_all_bias E X i cs = Inr (bs, rs)"
  shows "length rs = length cs \<and> (\<forall>j<length cs. \<exists>c. rs ! j = snd (fix_bias E (cs ! j) c))"
  using assms
proof (induction cs arbitrary: i bs rs)
  case Nil
  then show ?case by simp
next
  case (Cons a cs)
  from Cons.prems obtain c q where c: "column X i = Inr c"
    and q: "fix_all_bias E X (Suc i) cs = Inr q"
    and r: "rs = snd (fix_bias E a c) # snd q"
    by (auto simp: and_then_Inr split_def)
  from Cons.IH[of "Suc i" "fst q" "snd q"] q
  have ih: "length (snd q) = length cs \<and>
      (\<forall>j<length cs. \<exists>c. snd q ! j = snd (fix_bias E (cs ! j) c))" by simp
  show ?case
  proof (intro conjI allI impI)
    show "length rs = length (a # cs)" using ih by (simp add: r)
  next
    fix j assume "j < length (a # cs)"
    then show "\<exists>c. rs ! j = snd (fix_bias E ((a # cs) ! j) c)"
      using ih by (cases j) (auto simp: r)
  qed
qed

lemma names_at_Inr:
  assumes "names_at names es = Inr r"
  shows "\<forall>i<length es. \<exists>f. es ! i = Some f \<and> f < length names"
  using assms
proof (induction es arbitrary: r)
  case Nil
  then show ?case by simp
next
  case (Cons e es)
  from Cons.prems obtain f where e: "e = Some f" by (cases e) simp_all
  from Cons.prems have f: "f < length names" by (simp add: e split: if_splits)
  from Cons.prems f obtain r' where "names_at names es = Inr r'"
    by (auto simp: e and_then_Inr)
  from Cons.IH[OF this] show ?case
    using e f by (auto simp: nth_Cons split: nat.splits)
qed

lemma predict_unfitted: "\<not> priv_is_fitted s \<Longrightarrow> predict E X s = Inl NotFittedError"
  by (simp add: predict_def)

lemma predict_fitted_error:
  assumes "priv_is_fitted s" "predict E X s = Inl e"
  shows "e \<noteq> NotFittedError"
proof -
  from assms have "predict_each E (is_selected E) (pre_transform E (preprocessor s) X) 0
        (regressors s) = Inl e \<or>
      (\<exists>ps. sum_axis0 ps = Inl e)"
    by (auto simp: predict_def Let_def and_then_Inl)
  then show ?thesis using predict_each_Inl sum_axis0_Inl by blast
qed

lemma contribution_frame_fitted_error:
  assumes "priv_is_fitted s" "contribution_frame E X s = Inl e"
  shows "e \<noteq> NotFittedError"
proof -
  from assms have "predict_each E (\<lambda>r. True) (pre_transform E (preprocessor s) X) 0
        (regressors s) = Inl e \<or> (\<exists>r n c ps. fill_contribution r n c ps = Inl e) \<or>
        e = TypeError \<or> (\<exists>a b. add_labels a b = Inl e) \<or> (\<exists>M n l. new_dataframe M n l = Inl e)"
    by (auto simp: contribution_frame_def Let_def and_then_Inl split: option.splits)
  moreover have "\<And>r n c ps. fill_contribution r n c ps = Inl e \<Longrightarrow> e = ValueError"
    by (auto simp: fill_contribution_def split: if_splits)
  moreover have "\<And>a b. add_labels a b = Inl e \<Longrightarrow> e = ValueError"
    by (auto simp: add_labels_def split: if_splits)
  moreover have "\<And>M n l. new_dataframe M n l = Inl e \<Longrightarrow> e = ValueError"
    by (auto simp: new_dataframe_def split: if_splits)
  ultimately show ?thesis using predict_each_Inl by blast
qed

lemma take_index_Inl: "take_index xs idx = Inl e \<Longrightarrow> e = IndexError"
  by (auto simp: take_index_def split: if_splits)

lemma names_at_Inl: "names_at names es = Inl e \<Longrightarrow> e = IndexError"
proof (induction names es arbitrary: e rule: names_at.induct)
  case (1 names)
  then show ?case by simp
next
  case (2 names es)
  then show ?case by simp
next
  case (3 names i es)
  show ?case
  proof (cases "i < length names")
    case True
    with "3.prems" have "names_at names es = Inl e" by (auto simp: and_then_Inl)
    with "3.IH"[OF True] show ?thesis .
  next
    case False
    with "3.prems" show ?thesis by simp
  qed
qed

lemma mean_scores_Inl: "mean_scores E Xa sel = Inl e \<Longrightarrow> e = IndexError"
proof (induction sel arbitrary: e)
  case Nil
  then show ?case by simp
next
  case (Cons fm sel)
  from Cons.prems have "column Xa (fst fm) = Inl e \<or> mean_scores E Xa sel = Inl e"
    by (auto simp: and_then_Inl)
  then show ?case using Cons.IH column_Inl by blast
qed

lemma importance_plots_Inl: "importance_plots E s Xt Xa sel = Inl e \<Longrightarrow> e = IndexError"
proof (induction sel arbitrary: e)
  case Nil
  then show ?case by simp
next
  case (Cons fm sel)
  from Cons.prems have "(\<exists>X f. column X f = Inl e) \<or> (\<exists>xs idx. take_index xs (idx :: nat list) = Inl (e :: error) \<and> xs = Xa)
      \<or> importance_plots E s Xt Xa sel = Inl e"
    by (auto simp: and_then_Inl Let_def split: if_splits)
  then show ?case using Cons.IH column_Inl take_index_Inl by blast
qed

lemma plot_model_information_fitted_error:
  assumes "priv_is_fitted s" "plot_model_information E s = Inl e"
  shows "e \<noteq> NotFittedError"
proof (cases "feature_names_in s")
  case None
  with assms show ?thesis by (simp add: plot_model_information_def Let_def)
next
  case (Some names)
  with assms have "names_at names (selection_history s) = Inl e"
    by (auto simp: plot_model_information_def Let_def and_then_Inl)
  from names_at_Inl[OF this] show ?thesis by simp
qed

lemma explain_fitted_error:
  assumes "priv_is_fitted s" "explain E X s = Inl e"
  shows "e \<noteq> NotFittedError"
proof -
  from assms have "(\<exists>Xa sel. mean_scores E Xa sel = Inl e) \<or>
      (\<exists>Xt Xa sel. importance_plots E s Xt Xa sel = Inl e)"
    by (auto simp: explain_def Let_def and_then_Inl)
  then show ?thesis using mean_scores_Inl importance_plots_Inl by blast
qed

lemma stop_now_window:
  "stop_now s t = (n_iter_no_change s \<le> t \<and>
      diff_all_ge0 (window_before (validation_mse s) (n_iter_no_change s) t))"
  by (simp add: stop_now_def last_iterations_def window_before_def validation_mse_def
      slice_def take_map drop_map)

lemmas np_defs = mean_def square_def shape2_def column_def argmax_def stable_argsort_def mean_or_zero_def take_index_def
  mask_select_def isub_def set_item_def add_at_row_def add_at_col_def set_cell_def same_shape_def
  multiply_out_def sum_axis1_out_def sum_axis0_def slice_def counter_def and_then_def

lemmas cls_defs = priv_get_index_def update_count_matrix_def priv_boost_def
  redundancy_vector_def last_iterations_def stop_now_def priv_fit_def

lemmas run1_defs = leaf_env_def config_def X1_def X1_val_def draws1_def env1_def hyper1_def
  model1_def start1_def leaf1_def hyper.defs sabr.defs

lemma replicate5: "replicate 5 x = [x, x, x, x, x]"
  by (simp add: numeral_nat)

lemma new_model1: "new_model env1 hyper1 = Inr model1"
  by (simp add: new_model_def valid_hyper_def run1_defs replicate5)

lemma initialize1:
  "priv_initialize_fit_params X1 (Array [0, 32]) model1 = Inr start1"
  by (simp add: priv_initialize_fit_params_def np_defs run1_defs digit_char_def upt_rec)

lemma boost0:
  "priv_boost env1 [[0, 1], [1, 0]] [- 16, 16] (Scalar 0) 0 [[0, 0]] [- 13]
     (start1\<lparr>intercept := 16\<rparr>) = Inr (round0, [- 8, 24], [- 5])"
  by (simp add: cls_defs np_defs run1_defs round0_def Let_def upt_rec)

lemma fit_loop_4:
  "fit_loop E X Xv R n 4 t p = fit_loop E X Xv R n (Suc (Suc (Suc (Suc 0)))) t p"
  by (rule arg_cong[where f = "\<lambda>k. fit_loop E X Xv R n k t p"]) simp

lemma fit_rounds1:
  "fit_rounds env1 X1 (Array [0, 32]) (Some (X1_val, Array [3])) model1
     = Inr ([[0, 1], [1, 0]], rounds1)"
  by (simp add: fit_rounds_def priv_initialize_fit_params_def cls_defs np_defs run1_defs
      rounds1_def Let_def upt_rec digit_char_def fit_loop_4)

lemma fit1:
  "fit env1 X1 (Array [0, 32]) (Some (X1_val, Array [3])) model1 = Inr fitted1"
  apply (simp only: fit_def fit_rounds1 and_then_def sum.case prod.case)
  apply (simp add: rounds1_def fitted1_def sqrt_pair_def np_defs run1_defs Let_def upt_rec)
  done

lemma update_count_matrix_steps:
  assumes u: "update_count_matrix M f = Inr M1" and sq: "square_matrix M"
  shows "\<exists>A B. add_at_row M f 1 = Inr A \<and> add_at_col A f 1 = Inr B \<and>
     B ! f ! f = M ! f ! f + 2 \<and> set_cell B f f 0 = Inr M1"
proof -
  from u obtain A B where a: "add_at_row M f 1 = Inr A" and b: "add_at_col A f 1 = Inr B"
    and c: "set_cell B f f 0 = Inr M1"
    unfolding update_count_matrix_def by (elim and_thenE)
  from a have f: "f < length M" and A: "A = M[f := map (\<lambda>x. x + 1) (M ! f)]"
    by (auto simp: add_at_row_def split: if_splits)
  from b have B: "B = map (\<lambda>r. r[f := r ! f + 1]) A"
    by (auto simp: add_at_col_def split: if_splits)
  from sq f have "length (M ! f) = length M" by (simp add: square_matrix_def)
  with f have "B ! f ! f = M ! f ! f + 2" by (simp add: B A)
  with a b c show ?thesis by blast
qed

lemma writtenD:
  assumes "written N t s"
  shows "length (score_history s) = N" "length (selection_history s) = N"
    "\<And>i. i < t \<Longrightarrow> \<exists>a b. score_history s ! i = Some (a, b)"
    "\<And>i. i < t \<Longrightarrow> \<exists>f. selection_history s ! i = Some f"
    "\<And>i. t \<le> i \<Longrightarrow> i < N \<Longrightarrow> score_history s ! i = None"
    "\<And>i. t \<le> i \<Longrightarrow> i < N \<Longrightarrow> selection_history s ! i = None"
  using assms unfolding written_def by blast+

lemma fit_fresh:
  assumes nm: "new_model E h = Inr s0" and fr: "fit_rounds E X y vs s0 = Inr (Xt, s3)"
  shows "written (n_estimators h) (n_estimators s3) s3" "1 \<le> n_estimators s3"
    "n_estimators s3 \<le> n_estimators h" "n_iter_no_change s3 = n_iter_no_change h"
    "\<forall>u. 1 \<le> u \<and> u + 1 < n_estimators s3 \<longrightarrow> \<not> stop_now s3 u"
    "n_estimators s3 < n_estimators h \<longrightarrow>
       2 \<le> n_estimators s3 \<and> stop_now s3 (n_estimators s3 - 1)"
proof -
  note nw = new_model_Inr[OF nm]
  from nw(1) have pos: "1 \<le> n_estimators h" by (simp add: valid_hyper_def)
  from arg_cong[OF nw(2), of n_estimators] arg_cong[OF nw(2), of n_iter_no_change]
  have n0: "n_estimators s0 = n_estimators h" "n_iter_no_change s0 = n_iter_no_change h"
    by (simp_all add: hyper.truncate_def)
  note fa = fit_rounds_facts[OF fr nw(6) n0(1) pos]
  show "written (n_estimators h) (n_estimators s3) s3" by (rule fa(1))
  show "1 \<le> n_estimators s3" by (rule fa(2))
  show "n_estimators s3 \<le> n_estimators h" by (rule fa(3))
  show "n_iter_no_change s3 = n_iter_no_change h" using fa(4) n0(2) by simp
  show "\<forall>u. 1 \<le> u \<and> u + 1 < n_estimators s3 \<longrightarrow> \<not> stop_now s3 u" by (rule fa(5))
  show "n_estimators s3 < n_estimators h \<longrightarrow>
       2 \<le> n_estimators s3 \<and> stop_now s3 (n_estimators s3 - 1)" by (rule fa(6))
qed

lemma stable_argsort_ascending: "ascending_order col (stable_argsort col)"
  by (simp add: ascending_order_def stable_argsort_def)

lemmas run2_defs = leaf_env_def config_def X2_def X2_val_def draws1_def env1_def hyper2_def
  model2_def start2_def leaf1_def hyper.defs sabr.defs

lemma new_model2: "new_model env1 hyper2 = Inr model2"
  by (simp add: new_model_def valid_hyper_def run2_defs)

lemma initialize2:
  "priv_initialize_fit_params X2 (Array [0, 32]) model2 = Inr start2"
  by (simp add: priv_initialize_fit_params_def np_defs run2_defs digit_char_def upt_rec)

lemma boost2:
  "priv_boost env1 [[1], [0]] [- 16, 16] (Scalar 0) 0 [[0]] [- 13]
     (start2\<lparr>intercept := 16\<rparr>) = Inr (round2, [- 24, 8], [- 21])"
  by (simp add: cls_defs np_defs run2_defs round2_def Let_def upt_rec)

lemma fit_rounds2:
  "fit_rounds env1 X2 (Array [0, 32]) (Some (X2_val, Array [3])) model2
     = Inr ([[1], [0]], round2)"
  by (simp add: fit_rounds_def priv_initialize_fit_params_def cls_defs np_defs run2_defs
      round2_def Let_def upt_rec digit_char_def)

lemma priv_fit1:
  "priv_fit env1 [[0, 1], [1, 0]] [0, 32] [[0, 0]] [3] start1 = Inr rounds1"
  by (simp add: cls_defs np_defs run1_defs rounds1_def Let_def upt_rec fit_loop_4)

lemma loop1:
  "fit_loop env1 [[0, 1], [1, 0]] [[0, 0]] [[1, 1], [1, 1]] 2 (Suc 2) 1
     (round0, [- 8, 24], [- 5]) = Inr rounds1"
  by (simp add: cls_defs np_defs run1_defs round0_def rounds1_def Let_def upt_rec
      numeral_3_eq_3 numeral_2_eq_2)

lemma predict1: "predict env1 X1 fitted1 = Inr (Vector [1, 1])"
  by (simp add: predict_def fitted1_def rounds1_def np_defs run1_defs Let_def)

lemma contribution_frame1: "contribution_frame env1 X1 fitted1 = Inl ValueError"
  by (simp add: contribution_frame_def fill_contribution_def add_labels_def new_dataframe_def
      fitted1_def rounds1_def np_defs run1_defs Let_def upt_rec)

lemma redundancy3: "redundancy_vector [[1, 1], [1, 1]] [[0, 3], [3, 0]] 2 3 = Inr [1, 1]"
  by (simp add: redundancy_vector_def np_defs)

lemma boost3:
  "priv_boost env1 [[0, 1], [1, 0]] [- 2, 30] (Vector [1, 1]) 3 [[0, 0]] [1] after2
     = Inr (after3, [- 1, 31], [2])"
  by (simp add: cls_defs np_defs run1_defs after2_def after3_def rounds1_def Let_def upt_rec)

lemma stop3: "stop_now after3 3"
  by (simp add: stop_now_def last_iterations_def slice_def after3_def rounds1_def run1_defs)

lemma contribution_frame_names:
  assumes "priv_is_fitted s" "feature_names_in s = Some names" "length names = priv_n s"
  shows "\<exists>e. contribution_frame E X s = Inl e"
proof -
  have l: "add_labels [''intercept''] names = Inr labels \<Longrightarrow> length labels = length names"
    for labels
    by (auto simp: add_labels_def split: if_splits)
  have n: "\<exists>e. and_then (add_labels [''intercept''] names)
      (\<lambda>labels. new_dataframe M (priv_n s + 1) labels) = Inl e" for M
  proof (cases "add_labels [''intercept''] names")
    case (Inl e)
    then show ?thesis by (simp add: and_then_def)
  next
    case (Inr labels)
    with l[OF Inr] assms(3) show ?thesis by (simp add: and_then_def new_dataframe_def)
  qed
  show ?thesis
  proof (cases "predict_each E (\<lambda>r. True) (pre_transform E (preprocessor s) X) 0 (regressors s)")
    case (Inl e)
    then show ?thesis using assms(1) by (simp add: contribution_frame_def Let_def and_then_def)
  next
    case ps: (Inr ps)
    show ?thesis
    proof (cases "fill_contribution (length (frame_values X)) (priv_n s) (intercept s) ps")
      case (Inl e)
      then show ?thesis using assms(1) ps
        by (simp add: contribution_frame_def Let_def and_then_def)
    next
      case (Inr M)
      from n[of M] obtain e where "and_then (add_labels [''intercept''] names)
        (\<lambda>labels. new_dataframe M (priv_n s + 1) labels) = Inl e" by blast
      then show ?thesis using assms(1,2) ps Inr
        by (simp add: contribution_frame_def Let_def and_then_def)
    qed
  qed
qed

lemma square0: "square_matrix (priv_selected_count_matrix (start1\<lparr>intercept := 16\<rparr>))"
  by (simp add: square_matrix_def run1_defs)

lemma valid_hyper1: "valid_hyper hyper1"
  by (simp add: valid_hyper_def hyper1_def config_def)

lemma invalid_hyper0: "\<not> valid_hyper hyper0"
  by (simp add: valid_hyper_def hyper0_def config_def)

lemma env1_predict_length: "\<forall>l c. length (tree_predict env1 l c) = length c"
  by (simp add: env1_def leaf_env_def)

lemma env1_selected:
  "\<forall>ls name out c. ls \<noteq> [] \<longrightarrow>
     is_selected env1 (snd (fix_bias env1 (sum_tree_regressors env1 ls name out) c))"
  by (simp add: env1_def leaf_env_def)

lemma env1_rows:
  "length (pre_transform env1 (preprocessor fitted1) X1) = length (frame_values X1)"
  by (simp add: env1_def leaf_env_def)

lemma env1_columns:
  "\<forall>row \<in> set (pre_transform env1 (preprocessor fitted1) X1). length (regressors fitted1) \<le> length row"
  by (simp add: env1_def leaf_env_def X1_def fitted1_def)

lemma priv_boost_lengths:
  assumes b: "priv_boost E X y red t Xv yv s = Inr (s1, y1, yv1)"
  shows "length y1 = length y" "length yv1 = length yv"
proof -
  from b obtain f sh cm Xsel p Xs ys Xsub ysub ya Xvsel yva sc where
    h1: "argmax (mrmr_scheme s (relevancy_scorer s X y) red) = Inr f"
    and h2: "set_item (selection_history s) t (Some f) = Inr sh"
    and h3: "update_count_matrix (priv_selected_count_matrix s) f = Inr cm"
    and h4: "column X f = Inr Xsel"
    and h5: "priv_get_index E X f (s\<lparr>selection_history := sh, priv_selected_count_matrix := cm\<rparr>) = Inr p"
    and h6: "take_index Xsel (fst p) = Inr Xs"
    and h7: "take_index y (fst p) = Inr ys"
    and h8: "mask_select (map (\<lambda>d. d \<le> row_subsample (snd p))
               (fst (rng_random E (priv_random_generator (snd p)) (priv_m (snd p))))) Xs = Inr Xsub"
    and h9: "mask_select (map (\<lambda>d. d \<le> row_subsample (snd p))
               (fst (rng_random E (priv_random_generator (snd p)) (priv_m (snd p))))) ys = Inr ysub"
    and h10: "isub y (tree_predict E (tree_fit E (max_depth (snd p)) (min_samples_leaf (snd p))
               (min_samples_split (snd p)) (l2_regularization (snd p)) (learning_rate (snd p))
               Xsub ysub) Xsel) = Inr ya"
    and h11: "column Xv f = Inr Xvsel"
    and h12: "isub yv (tree_predict E (tree_fit E (max_depth (snd p)) (min_samples_leaf (snd p))
               (min_samples_split (snd p)) (l2_regularization (snd p)) (learning_rate (snd p))
               Xsub ysub) Xvsel) = Inr yva"
    and h13: "set_item (score_history (snd p)) t (Some (mean (square ya), mean (square yva))) = Inr sc"
    and h14: "(if f < length (priv_regressors (snd p)) then
                 Inr (snd p\<lparr>priv_random_generator :=
                        snd (rng_random E (priv_random_generator (snd p)) (priv_m (snd p))),
                      score_history := sc,
                      priv_regressors := (priv_regressors (snd p))
                        [f := priv_regressors (snd p) ! f @
                           [tree_fit E (max_depth (snd p)) (min_samples_leaf (snd p))
                              (min_samples_split (snd p)) (l2_regularization (snd p))
                              (learning_rate (snd p)) Xsub ysub]]\<rparr>, ya, yva)
               else Inl IndexError) = Inr (s1, y1, yv1)"
    unfolding priv_boost_def Let_def split_def by (elim and_thenE)
  from h14 have e: "ya = y1" "yva = yv1" by (simp_all split: if_splits)
  from isub_length[OF h10] e show "length y1 = length y" by simp
  from isub_length[OF h12] e show "length yv1 = length yv" by simp
qed

lemma loop_trace_spec:
  assumes "fit_loop E X Xv R n0 k t (s, r, rv) = Inr S" "t + k = n_estimators s"
  shows "n_estimators S = t + length (loop_trace E X Xv R n0 k t (s, r, rv)) \<and>
     (\<forall>j<length (loop_trace E X Xv R n0 k t (s, r, rv)).
        score_history S ! (t + j) =
          Some (mean (square (fst (snd (loop_trace E X Xv R n0 k t (s, r, rv) ! j)))),
                mean (square (snd (snd (loop_trace E X Xv R n0 k t (s, r, rv) ! j))))) \<and>
        length (fst (snd (loop_trace E X Xv R n0 k t (s, r, rv) ! j))) = length r \<and>
        length (snd (snd (loop_trace E X Xv R n0 k t (s, r, rv) ! j))) = length rv) \<and>
     (\<forall>i<t. score_history S ! i = score_history s ! i) \<and>
     length (score_history S) = length (score_history s) \<and>
     S = (fst (last ((s, r, rv) # loop_trace E X Xv R n0 k t (s, r, rv))))
           \<lparr>n_estimators := n_estimators S\<rparr>"
  using assms
proof (induction k arbitrary: t s r rv)
  case 0
  then show ?case by simp
next
  case (Suc k)
  from Suc.prems(1) obtain red s1 y1 yv1 where
    rd: "redundancy_vector R (priv_selected_count_matrix s) n0 t = Inr red"
    and b: "priv_boost E X r (Vector red) t Xv rv s = Inr (s1, y1, yv1)"
    and c: "(if stop_now s1 t then Inr (s1\<lparr>n_estimators := t + 1\<rparr>)
      else fit_loop E X Xv R n0 k (Suc t) (s1, y1, yv1)) = Inr S"
    by (rule fit_loop_SucE)
  note ne = priv_boost_n_estimators[OF b]
  note sc = priv_boost_score_history[OF b]
  note ln = priv_boost_lengths[OF b]
  let ?L = "loop_trace E X Xv R n0 (Suc k) t (s, r, rv)"
  show ?case
  proof (cases "stop_now s1 t")
    case True
    with c have S: "S = s1\<lparr>n_estimators := t + 1\<rparr>" by simp
    have L: "?L = [(s1, y1, yv1)]" using rd b True by simp
    show ?thesis unfolding L using sc ln by (simp add: S del: loop_trace.simps)
  next
    case False
    with c have co: "fit_loop E X Xv R n0 k (Suc t) (s1, y1, yv1) = Inr S" by simp
    let ?L' = "loop_trace E X Xv R n0 k (Suc t) (s1, y1, yv1)"
    have L: "?L = (s1, y1, yv1) # ?L'" using rd b False by simp
    have "Suc t + k = n_estimators s1" using Suc.prems(2) ne by simp
    from Suc.IH[OF co this] have
      i1: "n_estimators S = Suc t + length ?L'"
      and i2: "\<And>j. j < length ?L' \<Longrightarrow>
        score_history S ! (Suc t + j) =
          Some (mean (square (fst (snd (?L' ! j)))), mean (square (snd (snd (?L' ! j))))) \<and>
        length (fst (snd (?L' ! j))) = length y1 \<and>
        length (snd (snd (?L' ! j))) = length yv1"
      and i3: "\<And>i. i < Suc t \<Longrightarrow> score_history S ! i = score_history s1 ! i"
      and i4: "length (score_history S) = length (score_history s1)"
      and i5: "S = (fst (last ((s1, y1, yv1) # ?L')))\<lparr>n_estimators := n_estimators S\<rparr>"
      by blast+
    have a1: "n_estimators S = t + length ?L" using i1 by (simp add: L del: loop_trace.simps)
    have a2: "\<forall>j<length ?L.
        score_history S ! (t + j) =
          Some (mean (square (fst (snd (?L ! j)))), mean (square (snd (snd (?L ! j))))) \<and>
        length (fst (snd (?L ! j))) = length r \<and>
        length (snd (snd (?L ! j))) = length rv"
    proof (intro allI impI)
      fix j assume j: "j < length ?L"
      show "score_history S ! (t + j) =
          Some (mean (square (fst (snd (?L ! j)))), mean (square (snd (snd (?L ! j))))) \<and>
        length (fst (snd (?L ! j))) = length r \<and>
        length (snd (snd (?L ! j))) = length rv"
      proof (cases j)
        case 0
        from i3[of t] sc have "score_history S ! t = Some (mean (square y1), mean (square yv1))"
          by simp
        with 0 ln show ?thesis by (simp add: L del: loop_trace.simps)
      next
        case (Suc j')
        with j have "j' < length ?L'" by (simp add: L del: loop_trace.simps)
        from i2[OF this] Suc ln show ?thesis by (simp add: L del: loop_trace.simps)
      qed
    qed
    have a3: "\<forall>i<t. score_history S ! i = score_history s ! i"
    proof (intro allI impI)
      fix i assume i: "i < t"
      then have "score_history S ! i = score_history s1 ! i" using i3[of i] by simp
      also have "\<dots> = score_history s ! i" using i by (simp add: sc(1))
      finally show "score_history S ! i = score_history s ! i" .
    qed
    have a4: "length (score_history S) = length (score_history s)" using i4 by (simp add: sc(1))
    have a5: "S = (fst (last ((s, r, rv) # ?L)))\<lparr>n_estimators := n_estimators S\<rparr>"
      using i5 by (simp add: L del: loop_trace.simps)
    from a1 a2 a3 a4 a5 show ?thesis by blast
  qed
qed

lemma priv_fit_trace_spec:
  assumes f: "priv_fit E X y Xv yv s = Inr S" and pos: "1 \<le> n_estimators s"
  shows "length (priv_fit_trace E X y Xv yv s) = n_estimators S"
    "\<forall>i<length (priv_fit_trace E X y Xv yv s).
        score_history S ! i =
          Some (mean (square (fst (snd (priv_fit_trace E X y Xv yv s ! i)))),
                mean (square (snd (snd (priv_fit_trace E X y Xv yv s ! i))))) \<and>
        length (fst (snd (priv_fit_trace E X y Xv yv s ! i))) = length y \<and>
        length (snd (snd (priv_fit_trace E X y Xv yv s ! i))) = length yv"
    "length (score_history S) = length (score_history s)"
    "priv_fit_trace E X y Xv yv s \<noteq> []"
    "S = (fst (last (priv_fit_trace E X y Xv yv s)))\<lparr>n_estimators := n_estimators S\<rparr>"
proof -
  from f obtain mu s1 r1 rv1 row0 rows where
    m: "mean y = Some mu"
    and b: "priv_boost E X (map (\<lambda>v. v - mu) y) (Scalar 0) 0 Xv (map (\<lambda>v. v - mu) yv)
        (s\<lparr>intercept := mu\<rparr>) = Inr (s1, r1, rv1)"
    and X: "X = row0 # rows"
    and l: "fit_loop E X Xv (redundancy_matrix s X) (length row0) (n_estimators s - 1) 1
        (s1, r1, rv1) = Inr S"
    by (rule priv_fit_E)
  from b have fr: "hyper.truncate s1 = hyper.truncate (s\<lparr>intercept := mu\<rparr>)"
    by (rule priv_boost_frame(1))
  from arg_cong[OF fr, of redundancy_matrix] arg_cong[OF fr, of n_estimators]
  have h: "redundancy_matrix s1 = redundancy_matrix s" "n_estimators s1 = n_estimators s"
    by (simp_all add: hyper.truncate_def)
  note sc = priv_boost_score_history[OF b]
  note ln = priv_boost_lengths[OF b]
  let ?L = "loop_trace E X Xv (redundancy_matrix s X) (length row0) (n_estimators s - 1) 1
      (s1, r1, rv1)"
  let ?T = "priv_fit_trace E X y Xv yv s"
  have T: "?T = (s1, r1, rv1) # ?L"
    using b by (simp add: priv_fit_trace_def m X h)
  have "1 + (n_estimators s - 1) = n_estimators s1" using pos h by simp
  from loop_trace_spec[OF l this] have
    i1: "n_estimators S = 1 + length ?L"
    and i2: "\<And>j. j < length ?L \<Longrightarrow>
        score_history S ! (1 + j) =
          Some (mean (square (fst (snd (?L ! j)))), mean (square (snd (snd (?L ! j))))) \<and>
        length (fst (snd (?L ! j))) = length r1 \<and>
        length (snd (snd (?L ! j))) = length rv1"
    and i3: "\<And>i. i < 1 \<Longrightarrow> score_history S ! i = score_history s1 ! i"
    and i4: "length (score_history S) = length (score_history s1)"
    and i5: "S = (fst (last ((s1, r1, rv1) # ?L)))\<lparr>n_estimators := n_estimators S\<rparr>"
    by blast+
  show "length ?T = n_estimators S" using i1 by (simp add: T)
  show "?T \<noteq> []" by (simp add: T)
  show "S = (fst (last ?T))\<lparr>n_estimators := n_estimators S\<rparr>" using i5 by (simp only: T)
  show "length (score_history S) = length (score_history s)" using i4 by (simp add: sc(1))
  show "\<forall>i<length ?T.
        score_history S ! i =
          Some (mean (square (fst (snd (?T ! i)))), mean (square (snd (snd (?T ! i))))) \<and>
        length (fst (snd (?T ! i))) = length y \<and>
        length (snd (snd (?T ! i))) = length yv"
  proof (intro allI impI)
    fix i assume i: "i < length ?T"
    show "score_history S ! i =
          Some (mean (square (fst (snd (?T ! i)))), mean (square (snd (snd (?T ! i))))) \<and>
        length (fst (snd (?T ! i))) = length y \<and>
        length (snd (snd (?T ! i))) = length yv"
    proof (cases i)
      case 0
      from i3[of 0] sc have "score_history S ! 0 = Some (mean (square r1), mean (square rv1))"
        by simp
      with 0 ln show ?thesis by (simp add: T)
    next
      case (Suc j)
      with i have "j < length ?L" by (simp add: T)
      from i2[OF this] Suc ln show ?thesis by (simp add: T)
    qed
  qed
qed

lemma fit_rounds_trace:
  assumes "fit_rounds E X y vs s = Inr (Xt, s3)"
  obtains s1 p Xv where
    "priv_initialize_fit_params (fst (fit_split E X y vs s))
       (fst (snd (snd (fit_split E X y vs s)))) s = Inr s1"
    "priv_fit E Xt (target_values (fst (snd (snd (fit_split E X y vs s))))) Xv
       (target_values (snd (snd (snd (fit_split E X y vs s))))) (s1\<lparr>preprocessor := p\<rparr>)
       = Inr s3"
    "fit_trace E X y vs s =
       priv_fit_trace E Xt (target_values (fst (snd (snd (fit_split E X y vs s))))) Xv
         (target_values (snd (snd (snd (fit_split E X y vs s))))) (s1\<lparr>preprocessor := p\<rparr>)"
proof -
  let ?sp = "fit_split E X y vs s"
  from assms obtain s1 where
    i: "priv_initialize_fit_params (fst ?sp) (fst (snd (snd ?sp))) s = Inr s1"
    and f: "priv_fit E (snd (pre_fit_transform E (preprocessor s1) (fst ?sp)
                (target_values (fst (snd (snd ?sp))))))
              (target_values (fst (snd (snd ?sp))))
              (pre_transform E (fst (pre_fit_transform E (preprocessor s1) (fst ?sp)
                (target_values (fst (snd (snd ?sp)))))) (fst (snd ?sp)))
              (target_values (snd (snd (snd ?sp))))
              (s1\<lparr>preprocessor := fst (pre_fit_transform E (preprocessor s1) (fst ?sp)
                (target_values (fst (snd (snd ?sp)))))\<rparr>) = Inr s3"
    and x: "Xt = snd (pre_fit_transform E (preprocessor s1) (fst ?sp)
                (target_values (fst (snd (snd ?sp)))))"
    unfolding fit_rounds_def Let_def fit_split_def[symmetric]
    by (auto simp: and_then_Inr)
  have t: "fit_trace E X y vs s =
      priv_fit_trace E Xt (target_values (fst (snd (snd ?sp))))
        (pre_transform E (fst (pre_fit_transform E (preprocessor s1) (fst ?sp)
                (target_values (fst (snd (snd ?sp)))))) (fst (snd ?sp)))
        (target_values (snd (snd (snd ?sp))))
        (s1\<lparr>preprocessor := fst (pre_fit_transform E (preprocessor s1) (fst ?sp)
                (target_values (fst (snd (snd ?sp)))))\<rparr>)"
    unfolding fit_trace_def Let_def by (simp add: i x)
  show ?thesis by (rule that[OF i f[folded x] t])
qed

lemma fit_trace_facts:
  assumes nm: "new_model E h = Inr s0" and fr: "fit_rounds E X y vs s0 = Inr (Xt, s3)"
  shows "length (fit_trace E X y vs s0) = n_estimators s3"
    "\<forall>i<length (fit_trace E X y vs s0).
        score_history s3 ! i =
          Some (mean (square (fst (snd (fit_trace E X y vs s0 ! i)))),
                mean (square (snd (snd (fit_trace E X y vs s0 ! i))))) \<and>
        length (fst (snd (fit_trace E X y vs s0 ! i)))
          = length (target_values (fst (snd (snd (fit_split E X y vs s0))))) \<and>
        length (snd (snd (fit_trace E X y vs s0 ! i)))
          = length (target_values (snd (snd (snd (fit_split E X y vs s0)))))"
    "fit_trace E X y vs s0 \<noteq> []"
    "s3 = (fst (last (fit_trace E X y vs s0)))\<lparr>n_estimators := n_estimators s3\<rparr>"
proof -
  from fr obtain s1 p Xv where
    i: "priv_initialize_fit_params (fst (fit_split E X y vs s0))
       (fst (snd (snd (fit_split E X y vs s0)))) s0 = Inr s1"
    and f: "priv_fit E Xt (target_values (fst (snd (snd (fit_split E X y vs s0))))) Xv
       (target_values (snd (snd (snd (fit_split E X y vs s0))))) (s1\<lparr>preprocessor := p\<rparr>)
       = Inr s3"
    and t: "fit_trace E X y vs s0 =
       priv_fit_trace E Xt (target_values (fst (snd (snd (fit_split E X y vs s0))))) Xv
         (target_values (snd (snd (snd (fit_split E X y vs s0))))) (s1\<lparr>preprocessor := p\<rparr>)"
    by (rule fit_rounds_trace)
  note nw = new_model_Inr[OF nm]
  note ini = priv_initialize_fit_params_Inr[OF i]
  from nw(1) have pos: "1 \<le> n_estimators h" by (simp add: valid_hyper_def)
  from arg_cong[OF nw(2), of n_estimators] have "n_estimators s0 = n_estimators h"
    by (simp add: hyper.truncate_def)
  moreover from arg_cong[OF ini(6), of n_estimators] have "n_estimators s1 = n_estimators s0"
    by (simp add: hyper.truncate_def)
  ultimately have "1 \<le> n_estimators (s1\<lparr>preprocessor := p\<rparr>)" using pos by simp
  note sp = priv_fit_trace_spec[OF f this]
  show "length (fit_trace E X y vs s0) = n_estimators s3" unfolding t by (rule sp(1))
  show "\<forall>i<length (fit_trace E X y vs s0).
        score_history s3 ! i =
          Some (mean (square (fst (snd (fit_trace E X y vs s0 ! i)))),
                mean (square (snd (snd (fit_trace E X y vs s0 ! i))))) \<and>
        length (fst (snd (fit_trace E X y vs s0 ! i)))
          = length (target_values (fst (snd (snd (fit_split E X y vs s0))))) \<and>
        length (snd (snd (fit_trace E X y vs s0 ! i)))
          = length (target_values (snd (snd (snd (fit_split E X y vs s0)))))"
    unfolding t by (rule sp(2))
  show "fit_trace E X y vs s0 \<noteq> []" unfolding t by (rule sp(4))
  show "s3 = (fst (last (fit_trace E X y vs s0)))\<lparr>n_estimators := n_estimators s3\<rparr>"
    unfolding t by (rule sp(5))
qed

lemma fit_rounds2e:
  "fit_rounds env1 X2 (Array [0, 32]) (Some (X_none, Array [])) model2
     = Inr ([[1], [0]], round2e)"
  by (simp add: fit_rounds_def priv_initialize_fit_params_def cls_defs np_defs run2_defs
      round2_def round2e_def X_none_def Let_def upt_rec digit_char_def)

lemma fit2e:
  "fit env1 X2 (Array [0, 32]) (Some (X_none, Array [])) model2 = Inr fitted2e"
  apply (simp only: fit_def fit_rounds2e and_then_def sum.case prod.case)
  apply (simp add: round2_def round2e_def fitted2e_def sqrt_pair_def np_defs run2_defs Let_def
      upt_rec)
  done

section \<open>The claims\<close>

text \<open>
  C1 (early stopping). Let a fit of a freshly built model succeed, and let \<open>T + 1\<close> be the
  value of \<open>n_estimators\<close> afterwards. Then \<open>T + 1\<close> is at most the configured number of
  rounds, the selection history is cut to \<open>T + 1\<close> entries, exactly the rounds
  \<open>0, ..., T\<close> are recorded and no later one, and the test of the loop failed at every
  round \<open>1 \<le> t < T\<close>. The test at round \<open>t\<close> is: \<open>t \<ge> n_iter_no_change = k\<close>, and the
  validation squared errors of the \<open>k\<close> rounds \<open>t - k, ..., t - 1\<close> are non-decreasing at
  each consecutive step. The window ends with the round before \<open>t\<close>; the error of round
  \<open>t\<close> itself is not read. If the fit ended before the configured number of rounds,
  the test held at round \<open>T\<close>.
\<close>

theorem early_stopping_rule:
  assumes nm: "new_model E h = Inr s0" and ft: "fit E X y vs s0 = Inr s"
  shows "\<exists>X_train s3 T. fit_rounds E X y vs s0 = Inr (X_train, s3) \<and>
     n_estimators s = T + 1 \<and> T < n_estimators h \<and>
     selection_history s = take (T + 1) (selection_history s3) \<and>
     length (selection_history s) = T + 1 \<and>
     (\<forall>i\<le>T. selection_history s ! i \<noteq> None \<and> score_history s ! i \<noteq> None) \<and>
     (\<forall>i. T < i \<and> i < n_estimators h \<longrightarrow>
        selection_history s3 ! i = None \<and> score_history s ! i = None) \<and>
     (\<forall>t. 1 \<le> t \<and> t < T \<longrightarrow>
        \<not> (n_iter_no_change h \<le> t \<and>
           diff_all_ge0 (window_before (validation_mse s3) (n_iter_no_change h) t))) \<and>
     (T + 1 < n_estimators h \<longrightarrow>
        1 \<le> T \<and> n_iter_no_change h \<le> T \<and>
        diff_all_ge0 (window_before (validation_mse s3) (n_iter_no_change h) T))"
proof -
  from ft obtain Xt' s3 names biases regs sn where
    fr: "fit_rounds E X y vs s0 = Inr (Xt', s3)"
    and s: "s = s3\<lparr>regressors := regs, intercept := intercept s3 + sum_list biases,
              selection_history := take (n_estimators s3) (selection_history s3),
              score_history := map (map_option sqrt_pair) (score_history s3),
              selection_count := counter sn, priv_is_fitted := True\<rparr>"
    by (rule fit_E)
  note ff = fit_fresh[OF nm fr]
  note wd = writtenD[OF ff(1)]
  define T where "T = n_estimators s3 - 1"
  have T: "n_estimators s3 = T + 1" using ff(2) by (simp add: T_def)
  have sc: "score_history s = map (map_option sqrt_pair) (score_history s3)"
    and sh: "selection_history s = take (T + 1) (selection_history s3)"
    and ne: "n_estimators s = T + 1" by (simp_all add: s T)
  have c1: "T < n_estimators h" using ff(3) T by simp
  have c2: "length (selection_history s) = T + 1" using wd(2) c1 by (simp add: sh)
  have c3: "\<forall>i\<le>T. selection_history s ! i \<noteq> None \<and> score_history s ! i \<noteq> None"
  proof (intro allI impI)
    fix i assume i: "i \<le> T"
    then have i': "i < n_estimators s3" using T by simp
    from wd(3)[OF i'] wd(4)[OF i'] obtain m v f where
      "score_history s3 ! i = Some (m, v)" "selection_history s3 ! i = Some f" by blast
    moreover have "i < length (score_history s3)" using i c1 wd(1) by simp
    ultimately show "selection_history s ! i \<noteq> None \<and> score_history s ! i \<noteq> None"
      using i by (simp add: sh sc)
  qed
  have c4: "\<forall>i. T < i \<and> i < n_estimators h \<longrightarrow>
        selection_history s3 ! i = None \<and> score_history s ! i = None"
  proof (intro allI impI)
    fix i assume i: "T < i \<and> i < n_estimators h"
    then have i': "n_estimators s3 \<le> i" using T by simp
    from i have il: "i < length (score_history s3)" using wd(1) by simp
    from wd(5)[OF i'] wd(6)[OF i'] i il
    show "selection_history s3 ! i = None \<and> score_history s ! i = None" by (simp add: sc)
  qed
  have c5: "\<forall>t. 1 \<le> t \<and> t < T \<longrightarrow>
        \<not> (n_iter_no_change h \<le> t \<and>
           diff_all_ge0 (window_before (validation_mse s3) (n_iter_no_change h) t))"
    using ff(5) T by (simp add: stop_now_window ff(4))
  have c6: "T + 1 < n_estimators h \<longrightarrow>
        1 \<le> T \<and> n_iter_no_change h \<le> T \<and>
        diff_all_ge0 (window_before (validation_mse s3) (n_iter_no_change h) T)"
    using ff(6) T by (simp add: stop_now_window ff(4))
  from fr ne c1 sh c2 c3 c4 c5 c6 show ?thesis by blast
qed

theorem early_stopping_rule_witness:
  "new_model env1 hyper1 = Inr model1 \<and>
   fit env1 X1 (Array [0, 32]) (Some (X1_val, Array [3])) model1 = Inr fitted1 \<and>
   n_estimators hyper1 = 5 \<and> n_iter_no_change hyper1 = 2 \<and> n_estimators fitted1 = 4 \<and>
   (\<exists>X_train s3 T.
      fit_rounds env1 X1 (Array [0, 32]) (Some (X1_val, Array [3])) model1 = Inr (X_train, s3) \<and>
      n_estimators fitted1 = T + 1 \<and> T < n_estimators hyper1 \<and>
      selection_history fitted1 = take (T + 1) (selection_history s3) \<and>
      length (selection_history fitted1) = T + 1 \<and>
      (\<forall>i\<le>T. selection_history fitted1 ! i \<noteq> None \<and> score_history fitted1 ! i \<noteq> None) \<and>
      (\<forall>i. T < i \<and> i < n_estimators hyper1 \<longrightarrow>
         selection_history s3 ! i = None \<and> score_history fitted1 ! i = None) \<and>
      (\<forall>t. 1 \<le> t \<and> t < T \<longrightarrow>
         \<not> (n_iter_no_change hyper1 \<le> t \<and>
            diff_all_ge0 (window_before (validation_mse s3) (n_iter_no_change hyper1) t))) \<and>
      (T + 1 < n_estimators hyper1 \<longrightarrow>
         1 \<le> T \<and> n_iter_no_change hyper1 \<le> T \<and>
         diff_all_ge0 (window_before (validation_mse s3) (n_iter_no_change hyper1) T)))"
proof (intro conjI)
  show "n_estimators hyper1 = 5" "n_iter_no_change hyper1 = 2"
    by (simp_all add: hyper1_def config_def)
  show "n_estimators fitted1 = 4" by (simp add: fitted1_def rounds1_def)
  show "\<exists>X_train s3 T.
      fit_rounds env1 X1 (Array [0, 32]) (Some (X1_val, Array [3])) model1 = Inr (X_train, s3) \<and>
      n_estimators fitted1 = T + 1 \<and> T < n_estimators hyper1 \<and>
      selection_history fitted1 = take (T + 1) (selection_history s3) \<and>
      length (selection_history fitted1) = T + 1 \<and>
      (\<forall>i\<le>T. selection_history fitted1 ! i \<noteq> None \<and> score_history fitted1 ! i \<noteq> None) \<and>
      (\<forall>i. T < i \<and> i < n_estimators hyper1 \<longrightarrow>
         selection_history s3 ! i = None \<and> score_history fitted1 ! i = None) \<and>
      (\<forall>t. 1 \<le> t \<and> t < T \<longrightarrow>
         \<not> (n_iter_no_change hyper1 \<le> t \<and>
            diff_all_ge0 (window_before (validation_mse s3) (n_iter_no_change hyper1) t))) \<and>
      (T + 1 < n_estimators hyper1 \<longrightarrow>
         1 \<le> T \<and> n_iter_no_change hyper1 \<le> T \<and>
         diff_all_ge0 (window_before (validation_mse s3) (n_iter_no_change hyper1) T))"
    by (rule early_stopping_rule[OF new_model1 fit1])
qed (rule new_model1 fit1)+

text \<open>
  With the window that ends at round \<open>t\<close> the law fails. In the run of five rounds the
  validation squared errors are 25, 1, 1, 4 and \<open>k = 2\<close>. At \<open>t = 2\<close> the window ending
  at round 2 is \<open>[1, 1]\<close>, non-decreasing, so the fit would stop with 3 rounds; the
  window the code reads is \<open>[25, 1]\<close>, and the fit stops one round later, with 4.
\<close>

theorem early_stopping_counterexample:
  "new_model env1 hyper1 = Inr model1 \<and>
   fit_rounds env1 X1 (Array [0, 32]) (Some (X1_val, Array [3])) model1
     = Inr ([[0, 1], [1, 0]], rounds1) \<and>
   fit env1 X1 (Array [0, 32]) (Some (X1_val, Array [3])) model1 = Inr fitted1 \<and>
   validation_mse rounds1 = [Some 25, Some 1, Some 1, Some 4, None] \<and>
   n_iter_no_change hyper1 = 2 \<and>
   window_ending_at (validation_mse rounds1) 2 2 = [Some 1, Some 1] \<and>
   diff_all_ge0 (window_ending_at (validation_mse rounds1) 2 2) \<and>
   window_before (validation_mse rounds1) 2 2 = [Some 25, Some 1] \<and>
   \<not> diff_all_ge0 (window_before (validation_mse rounds1) 2 2) \<and>
   n_estimators fitted1 = 4 \<and> n_estimators fitted1 \<noteq> 2 + 1 \<and>
   selection_history fitted1 = [Some 0, Some 0, Some 0, Some 0]"
proof -
  have "validation_mse rounds1 = [Some 25, Some 1, Some 1, Some 4, None]"
    by (simp add: validation_mse_def rounds1_def)
  then show ?thesis using new_model1 fit_rounds1 fit1
    by (simp add: window_ending_at_def window_before_def slice_def hyper1_def config_def
        fitted1_def rounds1_def numeral_2_eq_2)
qed

text \<open>
  C2 (row subsampling). A round that succeeds selects a feature \<open>f\<close> and takes an order
  \<open>idx\<close> of the positions of the column \<open>f\<close>: the order in the cache if there is one,
  else the order \<open>np.argsort\<close> returns, which the round stores in the cache (an ascending
  sort order of the column whenever \<open>np.argsort\<close> returns one; which one, on a column with
  equal values, is not said). Every position of \<open>idx\<close> is a position of the column and
  of the target. The round draws one value per sample from the generator of the object,
  which advances once, and fits the new learner on the column and the target in the
  order \<open>idx\<close>, restricted to the positions \<open>j\<close> with \<open>draw[j] \<le> row_subsample\<close>. So
  the draw \<open>j\<close> decides about the sample \<open>idx[j]\<close>, the one at position \<open>j\<close> of the
  reordered arrays, not about the sample \<open>j\<close> of the original order.
\<close>

theorem row_subsampling_rule:
  assumes b: "priv_boost E X y redundancy t X_val y_val s = Inr (s1, y1, y_val1)"
  shows "\<exists>f col idx.
     selection_history s1 = (selection_history s)[t := Some f] \<and>
     column X f = Inr col \<and>
     f < length (priv_indexing_cache s1) \<and> priv_indexing_cache s1 ! f = Some idx \<and>
     (case priv_indexing_cache s ! f of None \<Rightarrow> idx = np_argsort E col | Some i0 \<Rightarrow> idx = i0) \<and>
     (priv_indexing_cache s ! f = None \<and> ascending_order col (np_argsort E col)
        \<longrightarrow> ascending_order col idx) \<and>
     (\<forall>i \<in> set idx. i < length col \<and> i < length y) \<and>
     length (fst (rng_random E (priv_random_generator s) (priv_m s))) = length idx \<and>
     priv_random_generator s1 = snd (rng_random E (priv_random_generator s) (priv_m s)) \<and>
     priv_regressors s1 = (priv_regressors s)[f := priv_regressors s ! f @
       [tree_fit E (max_depth s) (min_samples_leaf s) (min_samples_split s)
          (l2_regularization s) (learning_rate s)
          (map (\<lambda>j. col ! (idx ! j))
             (filter (\<lambda>j. fst (rng_random E (priv_random_generator s) (priv_m s)) ! j
                          \<le> row_subsample s) [0..<length idx]))
          (map (\<lambda>j. y ! (idx ! j))
             (filter (\<lambda>j. fst (rng_random E (priv_random_generator s) (priv_m s)) ! j
                          \<le> row_subsample s) [0..<length idx]))]]"
proof (rule priv_boost_Inr[OF b])
  fix f cm cache and idx :: "nat list" and Xsel Xs ys Xsub ysub learner
  let ?draws = "fst (rng_random E (priv_random_generator s) (priv_m s))"
  let ?kept = "filter (\<lambda>j. ?draws ! j \<le> row_subsample s) [0..<length idx]"
  assume col: "column X f = Inr Xsel"
    and ca: "f < length cache" "cache ! f = Some idx"
    and tx: "take_index Xsel idx = Inr Xs" and ty: "take_index y idx = Inr ys"
    and mx: "mask_select (map (\<lambda>d. d \<le> row_subsample s) ?draws) Xs = Inr Xsub"
    and my: "mask_select (map (\<lambda>d. d \<le> row_subsample s) ?draws) ys = Inr ysub"
    and le: "learner = tree_fit E (max_depth s) (min_samples_leaf s) (min_samples_split s)
        (l2_regularization s) (learning_rate s) Xsub ysub"
    and s1: "s1 = s\<lparr>selection_history := (selection_history s)[t := Some f],
            priv_selected_count_matrix := cm,
            priv_indexing_cache := cache,
            priv_random_generator := snd (rng_random E (priv_random_generator s) (priv_m s)),
            score_history := (score_history s)[t := Some (mean (square y1), mean (square y_val1))],
            priv_regressors := (priv_regressors s)[f := priv_regressors s ! f @ [learner]]\<rparr>"
    and cc: "case priv_indexing_cache s ! f of None \<Rightarrow> idx = np_argsort E Xsel | Some i0 \<Rightarrow> idx = i0"
  note Xs = take_index_Inr[OF tx] and Ys = take_index_Inr[OF ty]
  note MX = mask_select_nth[OF mx] and MY = mask_select_nth[OF my]
  have ld: "length ?draws = length idx" using MX(1) Xs(2) by simp
  have "Xsub = map (\<lambda>j. Xs ! j) ?kept" using MX(2) Xs(2) by simp
  also have "\<dots> = map (\<lambda>j. Xsel ! (idx ! j)) ?kept"
    by (rule map_cong) (simp_all add: Xs(1))
  finally have xs: "Xsub = map (\<lambda>j. Xsel ! (idx ! j)) ?kept" .
  have "ysub = map (\<lambda>j. ys ! j) ?kept" using MY(2) Ys(2) by simp
  also have "\<dots> = map (\<lambda>j. y ! (idx ! j)) ?kept"
    by (rule map_cong) (simp_all add: Ys(1))
  finally have ys: "ysub = map (\<lambda>j. y ! (idx ! j)) ?kept" .
  have rg: "\<forall>i \<in> set idx. i < length Xsel \<and> i < length y"
    using tx ty by (auto simp: take_index_def split: if_splits)
  have ao: "priv_indexing_cache s ! f = None \<and> ascending_order Xsel (np_argsort E Xsel)
        \<longrightarrow> ascending_order Xsel idx"
    using cc by auto
  show ?thesis
    apply (rule exI[of _ f], rule exI[of _ Xsel], rule exI[of _ idx])
    using col ca cc ld rg ao by (simp add: s1 le xs ys)
qed

theorem row_subsampling_rule_witness:
  "priv_boost env1 [[1], [0]] [- 16, 16] (Scalar 0) 0 [[0]] [- 13]
     (start2\<lparr>intercept := 16\<rparr>) = Inr (round2, [- 24, 8], [- 21]) \<and>
   (\<exists>f col idx.
      selection_history round2 = (selection_history (start2\<lparr>intercept := 16\<rparr>))[0 := Some f] \<and>
      column [[1], [0]] f = Inr col \<and>
      priv_indexing_cache round2 ! f = Some idx \<and>
      (case priv_indexing_cache (start2\<lparr>intercept := 16\<rparr>) ! f of
         None \<Rightarrow> idx = np_argsort env1 col | Some i0 \<Rightarrow> idx = i0) \<and>
      length (fst (rng_random env1 (priv_random_generator (start2\<lparr>intercept := 16\<rparr>))
                (priv_m (start2\<lparr>intercept := 16\<rparr>)))) = length idx \<and>
      priv_random_generator round2 =
        snd (rng_random env1 (priv_random_generator (start2\<lparr>intercept := 16\<rparr>))
               (priv_m (start2\<lparr>intercept := 16\<rparr>)))) \<and>
   column [[1], [0]] 0 = Inr [1, 0] \<and> np_argsort env1 [1, 0] = [1, 0] \<and>
   ascending_order [1, 0] (np_argsort env1 [1, 0]) \<and>
   priv_regressors round2 = [[leaf1 16 8]]"
proof -
  from row_subsampling_rule[OF boost2]
  have a: "\<exists>f col idx.
      selection_history round2 = (selection_history (start2\<lparr>intercept := 16\<rparr>))[0 := Some f] \<and>
      column [[1], [0]] f = Inr col \<and>
      priv_indexing_cache round2 ! f = Some idx \<and>
      (case priv_indexing_cache (start2\<lparr>intercept := 16\<rparr>) ! f of
         None \<Rightarrow> idx = np_argsort env1 col | Some i0 \<Rightarrow> idx = i0) \<and>
      length (fst (rng_random env1 (priv_random_generator (start2\<lparr>intercept := 16\<rparr>))
                (priv_m (start2\<lparr>intercept := 16\<rparr>)))) = length idx \<and>
      priv_random_generator round2 =
        snd (rng_random env1 (priv_random_generator (start2\<lparr>intercept := 16\<rparr>))
               (priv_m (start2\<lparr>intercept := 16\<rparr>)))"
    by (elim exE conjE, intro exI conjI) assumption+
  have b: "column [[1], [0]] 0 = Inr [1, 0]" "np_argsort env1 [1, 0] = [1, 0]"
    "priv_regressors round2 = [[leaf1 16 8]]"
    by (simp_all add: column_def stable_argsort_def env1_def leaf_env_def round2_def upt_rec)
  have c: "ascending_order [1, 0] (np_argsort env1 [1, 0])"
    using stable_argsort_ascending[of "[1, 0]"] by (simp add: env1_def leaf_env_def)
  show ?thesis by (intro conjI) (rule boost2 a b c)+
qed

text \<open>
  With the mask read against the original order the rule fails. In the run of one round
  the draws are \<open>[0, 3/4]\<close> and the fraction is \<open>1/2\<close>: the draw of sample 0 is below
  the fraction and the draw of sample 1 is above it, and the learner is fitted on
  sample 1 alone (the value 0 of the column, the residual 16), not on sample 0.
\<close>

theorem row_subsampling_counterexample:
  "new_model env1 hyper2 = Inr model2 \<and>
   fit_rounds env1 X2 (Array [0, 32]) (Some (X2_val, Array [3])) model2
     = Inr ([[1], [0]], round2) \<and>
   row_subsample model2 = 1 / 2 \<and>
   fst (rng_random env1 (priv_random_generator model2) 2) = [0, 3 / 4] \<and>
   [0, 3 / 4] ! 0 \<le> row_subsample model2 \<and>
   \<not> [0, 3 / 4] ! 1 \<le> row_subsample model2 \<and>
   column (frame_values X2) 0 = Inr [1, 0] \<and>
   map seen_x (priv_regressors round2 ! 0) = [[[1, 0] ! 1]] \<and>
   map seen_x (priv_regressors round2 ! 0) \<noteq> [[[1, 0] ! 0]] \<and>
   map seen_y (priv_regressors round2 ! 0) = [[[- 16, 16] ! 1]]"
  using new_model2 fit_rounds2
  by (simp add: column_def round2_def leaf1_def model2_def hyper2_def config_def
      env1_def leaf_env_def draws1_def X2_def hyper.defs sabr.defs)

text \<open>
  C3 (count matrix). \<open>_initialize_fit_params\<close> makes the matrix \<open>n \<times> n\<close> and all zero.
  A round on a square matrix that selects \<open>f\<close> adds 1 along the row \<open>f\<close>, then 1 along the
  column \<open>f\<close> (so the cell \<open>(f, f)\<close> has gained 2), then sets the cell \<open>(f, f)\<close> to 0;
  every other cell of the row or the column \<open>f\<close> has gained 1 and the rest is unchanged.
  After a fit that succeeds the matrix is square of size \<open>n\<close>, symmetric, and zero on
  the diagonal.
\<close>

theorem count_matrix_invariant:
  "(priv_initialize_fit_params X y s = Inr s1 \<longrightarrow>
      priv_selected_count_matrix s1 = replicate (priv_n s1) (replicate (priv_n s1) 0)) \<and>
   (priv_boost E Xt r red t Xv rv a = Inr (a1, r1, rv1) \<and>
    square_matrix (priv_selected_count_matrix a) \<longrightarrow>
      (\<exists>f A B. selection_history a1 = (selection_history a)[t := Some f] \<and>
         f < length (priv_selected_count_matrix a) \<and>
         add_at_row (priv_selected_count_matrix a) f 1 = Inr A \<and>
         add_at_col A f 1 = Inr B \<and>
         B ! f ! f = priv_selected_count_matrix a ! f ! f + 2 \<and>
         set_cell B f f 0 = Inr (priv_selected_count_matrix a1) \<and>
         (\<forall>i<length (priv_selected_count_matrix a). \<forall>j<length (priv_selected_count_matrix a).
            priv_selected_count_matrix a1 ! i ! j =
              (if i = f \<and> j = f then 0
               else priv_selected_count_matrix a ! i ! j + (if i = f then 1 else 0)
                      + (if j = f then 1 else 0))))) \<and>
   (fit E X' y' vs b = Inr b' \<longrightarrow>
      sym_zero_diag (priv_selected_count_matrix b') \<and>
      length (priv_selected_count_matrix b') = priv_n b')"
proof (intro conjI impI)
  assume "priv_initialize_fit_params X y s = Inr s1"
  then show "priv_selected_count_matrix s1 = replicate (priv_n s1) (replicate (priv_n s1) 0)"
    by (rule priv_initialize_fit_params_Inr(4))
next
  assume h: "priv_boost E Xt r red t Xv rv a = Inr (a1, r1, rv1) \<and>
    square_matrix (priv_selected_count_matrix a)"
  then have b: "priv_boost E Xt r red t Xv rv a = Inr (a1, r1, rv1)"
    and sq: "square_matrix (priv_selected_count_matrix a)" by simp_all
  from b obtain f l where sh: "selection_history a1 = (selection_history a)[t := Some f]"
    and u: "update_count_matrix (priv_selected_count_matrix a) f = Inr (priv_selected_count_matrix a1)"
    by (rule priv_boost_count_matrix)
  from update_count_matrix_steps[OF u sq] obtain A B where
    st: "add_at_row (priv_selected_count_matrix a) f 1 = Inr A" "add_at_col A f 1 = Inr B"
     "B ! f ! f = priv_selected_count_matrix a ! f ! f + 2"
     "set_cell B f f 0 = Inr (priv_selected_count_matrix a1)" by blast
  note uc = update_count_matrix_Inr[OF u sq]
  from sh st uc(1) uc(4)
  show "\<exists>f A B. selection_history a1 = (selection_history a)[t := Some f] \<and>
         f < length (priv_selected_count_matrix a) \<and>
         add_at_row (priv_selected_count_matrix a) f 1 = Inr A \<and>
         add_at_col A f 1 = Inr B \<and>
         B ! f ! f = priv_selected_count_matrix a ! f ! f + 2 \<and>
         set_cell B f f 0 = Inr (priv_selected_count_matrix a1) \<and>
         (\<forall>i<length (priv_selected_count_matrix a). \<forall>j<length (priv_selected_count_matrix a).
            priv_selected_count_matrix a1 ! i ! j =
              (if i = f \<and> j = f then 0
               else priv_selected_count_matrix a ! i ! j + (if i = f then 1 else 0)
                      + (if j = f then 1 else 0)))"
    by blast
next
  assume f: "fit E X' y' vs b = Inr b'"
  from f obtain Xt' b3 names biases regs sn where
    fr: "fit_rounds E X' y' vs b = Inr (Xt', b3)"
    and b': "b' = b3\<lparr>regressors := regs, intercept := intercept b3 + sum_list biases,
              selection_history := take (n_estimators b3) (selection_history b3),
              score_history := map (map_option sqrt_pair) (score_history b3),
              selection_count := counter sn, priv_is_fitted := True\<rparr>"
    by (rule fit_E)
  note fra = fit_rounds_frame[OF fr]
  show "sym_zero_diag (priv_selected_count_matrix b')" using fra(5) by (simp add: b')
  show "length (priv_selected_count_matrix b') = priv_n b'" using fra(6) by (simp add: b')
qed

theorem count_matrix_invariant_witness:
  "priv_initialize_fit_params X1 (Array [0, 32]) model1 = Inr start1 \<and>
   priv_selected_count_matrix start1 = replicate (priv_n start1) (replicate (priv_n start1) 0) \<and>
   priv_boost env1 [[0, 1], [1, 0]] [- 16, 16] (Scalar 0) 0 [[0, 0]] [- 13]
     (start1\<lparr>intercept := 16\<rparr>) = Inr (round0, [- 8, 24], [- 5]) \<and>
   square_matrix (priv_selected_count_matrix (start1\<lparr>intercept := 16\<rparr>)) \<and>
   (\<exists>f A B. selection_history round0 = (selection_history (start1\<lparr>intercept := 16\<rparr>))[0 := Some f] \<and>
      add_at_row (priv_selected_count_matrix (start1\<lparr>intercept := 16\<rparr>)) f 1 = Inr A \<and>
      add_at_col A f 1 = Inr B \<and>
      B ! f ! f = priv_selected_count_matrix (start1\<lparr>intercept := 16\<rparr>) ! f ! f + 2 \<and>
      set_cell B f f 0 = Inr (priv_selected_count_matrix round0)) \<and>
   priv_selected_count_matrix round0 = [[0, 1], [1, 0]] \<and>
   fit env1 X1 (Array [0, 32]) (Some (X1_val, Array [3])) model1 = Inr fitted1 \<and>
   sym_zero_diag (priv_selected_count_matrix fitted1) \<and>
   length (priv_selected_count_matrix fitted1) = priv_n fitted1 \<and>
   priv_selected_count_matrix fitted1 = [[0, 4], [4, 0]]"
proof -
  note a = count_matrix_invariant[THEN conjunct1, THEN mp, OF initialize1]
  note b = count_matrix_invariant[THEN conjunct2, THEN conjunct1, THEN mp,
      OF conjI[OF boost0 square0]]
  note c = count_matrix_invariant[THEN conjunct2, THEN conjunct2, THEN mp, OF fit1]
  from b have b': "\<exists>f A B. selection_history round0 = (selection_history (start1\<lparr>intercept := 16\<rparr>))[0 := Some f] \<and>
      add_at_row (priv_selected_count_matrix (start1\<lparr>intercept := 16\<rparr>)) f 1 = Inr A \<and>
      add_at_col A f 1 = Inr B \<and>
      B ! f ! f = priv_selected_count_matrix (start1\<lparr>intercept := 16\<rparr>) ! f ! f + 2 \<and>
      set_cell B f f 0 = Inr (priv_selected_count_matrix round0)"
    by blast
  have d: "priv_selected_count_matrix round0 = [[0, 1], [1, 0]]"
    "priv_selected_count_matrix fitted1 = [[0, 4], [4, 0]]"
    by (simp_all add: round0_def fitted1_def rounds1_def)
  from a b' c d initialize1 boost0 square0 fit1 show ?thesis by blast
qed

text \<open>
  C4 (redundancy). \<open>_fit\<close> runs round 0 with the scalar 0 as redundancy, then computes
  the redundancy matrix once, from the training matrix, and hands the same matrix to
  every round of the loop. A round \<open>t\<close> of the loop that succeeds uses the vector whose
  entry \<open>i\<close> is the sum over \<open>j\<close> of the product of the entries \<open>(i, j)\<close> of the redundancy
  matrix and of the count matrix before the round, divided by \<open>t\<close>.
\<close>

theorem redundancy_term:
  "(priv_fit E X y X_val y_val s = Inr S \<longrightarrow>
      (\<exists>mu s1 r1 rv1 row0 rows.
         mean y = Some mu \<and>
         priv_boost E X (map (\<lambda>v. v - mu) y) (Scalar 0) 0 X_val
           (map (\<lambda>v. v - mu) y_val) (s\<lparr>intercept := mu\<rparr>) = Inr (s1, r1, rv1) \<and>
         X = row0 # rows \<and>
         fit_loop E X X_val (redundancy_matrix s X) (length row0) (n_estimators s - 1) 1
           (s1, r1, rv1) = Inr S)) \<and>
   (fit_loop E X X_val R out_len (Suc k) t (a, r, rv) = Inr S' \<longrightarrow>
      (\<exists>red a1 r1 rv1.
         length R = out_len \<and> length red = out_len \<and>
         (\<forall>i<out_len. red ! i =
            (\<Sum>j<length (R ! i). R ! i ! j * priv_selected_count_matrix a ! i ! j) / real t) \<and>
         priv_boost E X r (Vector red) t X_val rv a = Inr (a1, r1, rv1) \<and>
         (if stop_now a1 t then Inr (a1\<lparr>n_estimators := t + 1\<rparr>)
          else fit_loop E X X_val R out_len k (Suc t) (a1, r1, rv1)) = Inr S'))"
proof (intro conjI impI)
  assume "priv_fit E X y X_val y_val s = Inr S"
  then show "\<exists>mu s1 r1 rv1 row0 rows.
         mean y = Some mu \<and>
         priv_boost E X (map (\<lambda>v. v - mu) y) (Scalar 0) 0 X_val
           (map (\<lambda>v. v - mu) y_val) (s\<lparr>intercept := mu\<rparr>) = Inr (s1, r1, rv1) \<and>
         X = row0 # rows \<and>
         fit_loop E X X_val (redundancy_matrix s X) (length row0) (n_estimators s - 1) 1
           (s1, r1, rv1) = Inr S"
    by (rule priv_fit_E) blast
next
  assume "fit_loop E X X_val R out_len (Suc k) t (a, r, rv) = Inr S'"
  then obtain red a1 r1 rv1 where
    rv: "redundancy_vector R (priv_selected_count_matrix a) out_len t = Inr red"
    and b: "priv_boost E X r (Vector red) t X_val rv a = Inr (a1, r1, rv1)"
    and c: "(if stop_now a1 t then Inr (a1\<lparr>n_estimators := t + 1\<rparr>)
          else fit_loop E X X_val R out_len k (Suc t) (a1, r1, rv1)) = Inr S'"
    by (rule fit_loop_SucE)
  from redundancy_vector_Inr[OF rv] b c
  show "\<exists>red a1 r1 rv1.
         length R = out_len \<and> length red = out_len \<and>
         (\<forall>i<out_len. red ! i =
            (\<Sum>j<length (R ! i). R ! i ! j * priv_selected_count_matrix a ! i ! j) / real t) \<and>
         priv_boost E X r (Vector red) t X_val rv a = Inr (a1, r1, rv1) \<and>
         (if stop_now a1 t then Inr (a1\<lparr>n_estimators := t + 1\<rparr>)
          else fit_loop E X X_val R out_len k (Suc t) (a1, r1, rv1)) = Inr S'"
    by blast
qed

theorem redundancy_term_witness:
  "priv_fit env1 [[0, 1], [1, 0]] [0, 32] [[0, 0]] [3] start1 = Inr rounds1 \<and>
   fit_loop env1 [[0, 1], [1, 0]] [[0, 0]] [[1, 1], [1, 1]] 2 (Suc 2) 1
     (round0, [- 8, 24], [- 5]) = Inr rounds1 \<and>
   (\<exists>mu s1 r1 rv1 row0 rows.
      mean [0, 32] = Some mu \<and>
      priv_boost env1 [[0, 1], [1, 0]] (map (\<lambda>v. v - mu) [0, 32]) (Scalar 0) 0
        [[0, 0]] (map (\<lambda>v. v - mu) [3]) (start1\<lparr>intercept := mu\<rparr>)
        = Inr (s1, r1, rv1) \<and>
      ([[0, 1], [1, 0]] :: matrix) = row0 # rows \<and>
      fit_loop env1 [[0, 1], [1, 0]] [[0, 0]] (redundancy_matrix start1 [[0, 1], [1, 0]])
        (length row0) (n_estimators start1 - 1) 1 (s1, r1, rv1) = Inr rounds1) \<and>
   (\<exists>red a1 r1 rv1.
      length red = 2 \<and>
      (\<forall>i<2. red ! i =
         (\<Sum>j<length (([[1, 1], [1, 1]] :: matrix) ! i).
            [[1, 1], [1, 1]] ! i ! j * priv_selected_count_matrix round0 ! i ! j) / real 1) \<and>
      priv_boost env1 [[0, 1], [1, 0]] [- 8, 24] (Vector red) 1 [[0, 0]] [- 5] round0
        = Inr (a1, r1, rv1))"
proof (intro conjI)
  show "priv_fit env1 [[0, 1], [1, 0]] [0, 32] [[0, 0]] [3] start1 = Inr rounds1"
    by (rule priv_fit1)
  show "fit_loop env1 [[0, 1], [1, 0]] [[0, 0]] [[1, 1], [1, 1]] 2 (Suc 2) 1
     (round0, [- 8, 24], [- 5]) = Inr rounds1"
    by (rule loop1)
  show "\<exists>mu s1 r1 rv1 row0 rows.
      mean [0, 32] = Some mu \<and>
      priv_boost env1 [[0, 1], [1, 0]] (map (\<lambda>v. v - mu) [0, 32]) (Scalar 0) 0
        [[0, 0]] (map (\<lambda>v. v - mu) [3]) (start1\<lparr>intercept := mu\<rparr>)
        = Inr (s1, r1, rv1) \<and>
      ([[0, 1], [1, 0]] :: matrix) = row0 # rows \<and>
      fit_loop env1 [[0, 1], [1, 0]] [[0, 0]] (redundancy_matrix start1 [[0, 1], [1, 0]])
        (length row0) (n_estimators start1 - 1) 1 (s1, r1, rv1) = Inr rounds1"
    by (rule redundancy_term[THEN conjunct1, THEN mp, OF priv_fit1])
  from redundancy_term[THEN conjunct2, THEN mp, OF loop1]
  show "\<exists>red a1 r1 rv1.
      length red = 2 \<and>
      (\<forall>i<2. red ! i =
         (\<Sum>j<length (([[1, 1], [1, 1]] :: matrix) ! i).
            [[1, 1], [1, 1]] ! i ! j * priv_selected_count_matrix round0 ! i ! j) / real 1) \<and>
      priv_boost env1 [[0, 1], [1, 0]] [- 8, 24] (Vector red) 1 [[0, 0]] [- 5] round0
        = Inr (a1, r1, rv1)"
    by blast
qed

text \<open>
  C5 (decomposition). \<open>contribution_frame\<close> builds the labels of its table as
  \<open>["intercept"] + self.feature_names_in_\<close>. After a fit that was given no feature names
  the right operand is an array of one name per feature, so the sum has one label per
  feature and the table has one column more: the construction of the table raises, for
  every input, and there are no columns to sum. (The premise on the column labels says
  that a labelled training table has one label per column.)
\<close>

theorem contribution_frame_raises:
  assumes nm: "new_model E h = Inr s0" and fn: "feature_names_in h = None"
    and ft: "fit E X y (Some (X_val, y_val)) s0 = Inr s"
    and fc: "\<forall>cs. frame_columns X = Some cs \<longrightarrow> length cs = priv_n s"
  shows "\<exists>e. contribution_frame E X' s = Inl e"
proof -
  from ft obtain Xt s3 names biases regs sn where
    fr: "fit_rounds E X y (Some (X_val, y_val)) s0 = Inr (Xt, s3)"
    and s: "s = s3\<lparr>regressors := regs, intercept := intercept s3 + sum_list biases,
              selection_history := take (n_estimators s3) (selection_history s3),
              score_history := map (map_option sqrt_pair) (score_history s3),
              selection_count := counter sn, priv_is_fitted := True\<rparr>"
    by (rule fit_E)
  from fr obtain s1 p Xv yv where
    i: "priv_initialize_fit_params X y s0 = Inr s1"
    and f: "priv_fit E Xt (target_values y) Xv yv (s1\<lparr>preprocessor := p\<rparr>) = Inr s3"
    by (rule fit_rounds_E) simp
  note nw = new_model_Inr[OF nm]
  note ini = priv_initialize_fit_params_Inr[OF i]
  note pf = priv_fit_frame[OF f]
  from arg_cong[OF nw(2), of feature_names_in] fn have "feature_names_in s0 = None"
    by (simp add: hyper.truncate_def)
  from ini(9)[OF this] have n1: "feature_names_in s1 = Some (case frame_columns X of
      Some cs \<Rightarrow> cs | None \<Rightarrow> map (\<lambda>i. ''feature_'' @ str_nat i) [0..<priv_n s1])" .
  from arg_cong[OF pf(1), of feature_names_in]
  have n3: "feature_names_in s3 = feature_names_in s1" by (simp add: hyper.truncate_def)
  have pn: "priv_n s = priv_n s1" using pf(3) by (simp add: s)
  have a: "priv_is_fitted s" by (simp add: s)
  have b: "feature_names_in s = Some (case frame_columns X of
      Some cs \<Rightarrow> cs | None \<Rightarrow> map (\<lambda>i. ''feature_'' @ str_nat i) [0..<priv_n s1])"
    using n1 n3 by (simp add: s)
  have c: "length (case frame_columns X of
      Some cs \<Rightarrow> cs | None \<Rightarrow> map (\<lambda>i. ''feature_'' @ str_nat i) [0..<priv_n s1]) = priv_n s"
    using fc pn by (cases "frame_columns X") simp_all
  from contribution_frame_names[OF a b c] show ?thesis .
qed

theorem contribution_frame_raises_witness:
  "new_model env1 hyper1 = Inr model1 \<and> feature_names_in hyper1 = None \<and>
   frame_columns X1 = None \<and>
   fit env1 X1 (Array [0, 32]) (Some (X1_val, Array [3])) model1 = Inr fitted1 \<and>
   predict env1 X1 fitted1 = Inr (Vector [1, 1]) \<and>
   (\<exists>e. contribution_frame env1 X1 fitted1 = Inl e)"
proof (intro conjI)
  show fn: "feature_names_in hyper1 = None" by (simp add: hyper1_def config_def)
  show fc: "frame_columns X1 = None" by (simp add: X1_def)
  show "\<exists>e. contribution_frame env1 X1 fitted1 = Inl e"
    by (rule contribution_frame_raises[OF new_model1 fn fit1]) (simp add: fc)
qed (rule new_model1 fit1 predict1)+

text \<open>
  C6 (length of the prediction). Let a fit of a freshly built model succeed. If a learner
  predicts one value per value it is given, if the sum of a non-empty list of learners
  counts as selected, and if the preprocessor keeps the rows of the input and returns at
  least one column per feature, then some regressor is selected and \<open>predict\<close> returns
  a vector with one entry per row of the input. (Round 0 always selects a feature, so
  the case of a fitted model with no selected feature does not occur.)
\<close>

theorem predict_length:
  assumes nm: "new_model E h = Inr s0" and ft: "fit E X y vs s0 = Inr s"
    and h1: "\<forall>l c. length (tree_predict E l c) = length c"
    and h2: "\<forall>ls name out c. ls \<noteq> [] \<longrightarrow>
       is_selected E (snd (fix_bias E (sum_tree_regressors E ls name out) c))"
    and h3: "length (pre_transform E (preprocessor s) X') = length (frame_values X')"
    and h4: "\<forall>row \<in> set (pre_transform E (preprocessor s) X'). length (regressors s) \<le> length row"
  shows "(\<exists>r \<in> set (regressors s). is_selected E r) \<and>
     (\<exists>v. predict E X' s = Inr (Vector v) \<and> length v = length (frame_values X'))"
proof -
  from ft obtain Xt s3 names biases regs sn where
    fr: "fit_rounds E X y vs s0 = Inr (Xt, s3)"
    and fb: "fix_all_bias E Xt 0 (map (\<lambda>(estimators, name).
        sum_tree_regressors E estimators name (output_name s3)) (zip (priv_regressors s3) names))
       = Inr (biases, regs)"
    and na: "names_at names (take (n_estimators s3) (selection_history s3)) = Inr sn"
    and s: "s = s3\<lparr>regressors := regs, intercept := intercept s3 + sum_list biases,
              selection_history := take (n_estimators s3) (selection_history s3),
              score_history := map (map_option sqrt_pair) (score_history s3),
              selection_count := counter sn, priv_is_fitted := True\<rparr>"
    by (rule fit_E)
  note nw = new_model_Inr[OF nm]
  from nw(1) have pos: "1 \<le> n_estimators h" by (simp add: valid_hyper_def)
  from arg_cong[OF nw(2), of n_estimators] have n0: "n_estimators s0 = n_estimators h"
    by (simp add: hyper.truncate_def)
  note fa = fit_rounds_facts[OF fr nw(6) n0 pos]
  note wd = writtenD[OF fa(1)]
  from fa(2) have "0 < n_estimators s3" by simp
  from wd(4)[OF this] obtain f0 where f0: "selection_history s3 ! 0 = Some f0" by blast
  note len = wd(2)
  have "0 < length (selection_history s3) \<and> selection_history s3 ! 0 = Some f0"
    using len pos f0 by simp
  with fa(7) have "f0 < length (priv_regressors s3) \<and> priv_regressors s3 ! f0 \<noteq> []"
    unfolding selected_have_learners_def by blast
  then have l0: "f0 < length (priv_regressors s3)" "priv_regressors s3 ! f0 \<noteq> []"
    by simp_all
  have "0 < length (take (n_estimators s3) (selection_history s3))"
    using fa(2) len pos by simp
  with names_at_Inr[OF na] obtain g where
    "take (n_estimators s3) (selection_history s3) ! 0 = Some g" "g < length names" by blast
  with f0 fa(2) have fn: "f0 < length names" by simp
  let ?cs = "map (\<lambda>(estimators, name).
        sum_tree_regressors E estimators name (output_name s3)) (zip (priv_regressors s3) names)"
  have lc: "f0 < length ?cs" using l0 fn by simp
  have c0: "?cs ! f0 = sum_tree_regressors E (priv_regressors s3 ! f0) (names ! f0) (output_name s3)"
    using l0 fn by simp
  from fix_all_bias_Inr[OF fb] lc obtain c where
    lr: "length regs = length ?cs" and r0: "regs ! f0 = snd (fix_bias E (?cs ! f0) c)" by blast
  have "is_selected E (regs ! f0)" unfolding r0 c0 using h2 l0(2) by blast
  moreover have "regs ! f0 \<in> set regs" using lc lr by simp
  ultimately have ex: "\<exists>r \<in> set regs. is_selected E r" by blast
  have rs: "regressors s = regs" "priv_is_fitted s" "intercept s = intercept s3 + sum_list biases"
    by (simp_all add: s)
  let ?Xa = "pre_transform E (preprocessor s) X'"
  have "\<forall>row \<in> set ?Xa. 0 + length regs \<le> length row" using h4 rs by simp
  from predict_each_total[OF this h1, of "is_selected E"] ex obtain ps where
    ps: "predict_each E (is_selected E) ?Xa 0 regs = Inr ps"
    "\<forall>p \<in> set ps. length p = length ?Xa" "ps \<noteq> []" by blast
  from sum_axis0_Vector[OF ps(3) ps(2)] obtain v where
    v: "sum_axis0 ps = Inr (Vector v)" "length v = length ?Xa" by blast
  have "predict E X' s = Inr (Vector (map (\<lambda>x. intercept s + x) v))"
    using rs ps(1) v(1) by (simp add: predict_def Let_def and_then_def)
  with v(2) h3 ex rs show ?thesis by simp
qed

theorem predict_length_witness:
  "new_model env1 hyper1 = Inr model1 \<and>
   fit env1 X1 (Array [0, 32]) (Some (X1_val, Array [3])) model1 = Inr fitted1 \<and>
   (\<exists>r \<in> set (regressors fitted1). is_selected env1 r) \<and>
   (\<exists>v. predict env1 X1 fitted1 = Inr (Vector v) \<and> length v = length (frame_values X1)) \<and>
   predict env1 X1 fitted1 = Inr (Vector [1, 1]) \<and> length (frame_values X1) = 2"
proof -
  note p = predict_length[OF new_model1 fit1 env1_predict_length env1_selected env1_rows
      env1_columns]
  have "length (frame_values X1) = 2" by (simp add: X1_def)
  with p new_model1 fit1 predict1 show ?thesis by blast
qed

text \<open>
  C7 (score history). A round \<open>t\<close> that succeeds writes at position \<open>t\<close> the pair of the
  mean squared training residual and the mean squared validation residual it leaves;
  each is at least 0, or \<open>nan\<close> exactly when its residual array is empty. After a fit of
  a freshly built model, one round is listed for each of the \<open>n_estimators\<close> rounds that
  ran, the object of the last one is the object the rounds return, and the final history
  is the history of the rounds with the square root taken once in every row: the row of
  a round that ran holds the roots of the two means of the squared residuals that round
  left (a residual array is as long as its target; the root of a number is at least 0
  and its square is the mean). A row after the last round was never written: what it
  holds, and so its root, is not known.
\<close>

theorem score_history_rmse:
  "(priv_boost E Xt r red t Xv rv a = Inr (a1, r1, rv1) \<longrightarrow>
      t < length (score_history a) \<and>
      score_history a1 = (score_history a)[t := Some (mean (square r1), mean (square rv1))] \<and>
      length r1 = length r \<and> length rv1 = length rv \<and>
      (mean (square r1) = None \<longleftrightarrow> r = []) \<and> (mean (square rv1) = None \<longleftrightarrow> rv = []) \<and>
      (\<forall>m. mean (square r1) = Some m \<longrightarrow> 0 \<le> m) \<and>
      (\<forall>m. mean (square rv1) = Some m \<longrightarrow> 0 \<le> m)) \<and>
   (new_model E h = Inr s0 \<and> fit E X y vs s0 = Inr s \<longrightarrow>
      (\<exists>X_train s3.
         fit_rounds E X y vs s0 = Inr (X_train, s3) \<and>
         length (fit_trace E X y vs s0) = n_estimators s \<and>
         s3 = (fst (last (fit_trace E X y vs s0)))\<lparr>n_estimators := n_estimators s\<rparr> \<and>
         score_history s = map (map_option sqrt_pair) (score_history s3) \<and>
         length (score_history s) = n_estimators h \<and>
         (\<forall>i<n_estimators s. \<exists>r rv.
            snd (fit_trace E X y vs s0 ! i) = (r, rv) \<and>
            length r = length (target_values (fst (snd (snd (fit_split E X y vs s0))))) \<and>
            length rv = length (target_values (snd (snd (snd (fit_split E X y vs s0))))) \<and>
            score_history s3 ! i = Some (mean (square r), mean (square rv)) \<and>
            score_history s ! i =
              Some (map_option sqrt (mean (square r)), map_option sqrt (mean (square rv))) \<and>
            (\<forall>m. mean (square r) = Some m \<longrightarrow> 0 \<le> sqrt m \<and> (sqrt m)\<^sup>2 = m) \<and>
            (\<forall>m. mean (square rv) = Some m \<longrightarrow> 0 \<le> sqrt m \<and> (sqrt m)\<^sup>2 = m)) \<and>
         (\<forall>i. n_estimators s \<le> i \<and> i < n_estimators h \<longrightarrow>
            score_history s3 ! i = None \<and> score_history s ! i = None)))"
proof (intro conjI impI)
  assume b: "priv_boost E Xt r red t Xv rv a = Inr (a1, r1, rv1)"
  note ln = priv_boost_lengths[OF b]
  from priv_boost_score_history[OF b]
  show "t < length (score_history a)"
    "score_history a1 = (score_history a)[t := Some (mean (square r1), mean (square rv1))]"
    by simp_all
  show "length r1 = length r" "length rv1 = length rv" by (rule ln)+
  show "mean (square r1) = None \<longleftrightarrow> r = []"
    using ln(1) by (cases r; cases r1) (simp_all add: mean_square_None)
  show "mean (square rv1) = None \<longleftrightarrow> rv = []"
    using ln(2) by (cases rv; cases rv1) (simp_all add: mean_square_None)
  show "\<forall>m. mean (square r1) = Some m \<longrightarrow> 0 \<le> m" using mean_square_nonneg by blast
  show "\<forall>m. mean (square rv1) = Some m \<longrightarrow> 0 \<le> m" using mean_square_nonneg by blast
next
  assume h: "new_model E h = Inr s0 \<and> fit E X y vs s0 = Inr s"
  then have nm: "new_model E h = Inr s0" and ft: "fit E X y vs s0 = Inr s" by simp_all
  from ft obtain Xt' s3 names biases regs sn where
    fr: "fit_rounds E X y vs s0 = Inr (Xt', s3)"
    and s: "s = s3\<lparr>regressors := regs, intercept := intercept s3 + sum_list biases,
              selection_history := take (n_estimators s3) (selection_history s3),
              score_history := map (map_option sqrt_pair) (score_history s3),
              selection_count := counter sn, priv_is_fitted := True\<rparr>"
    by (rule fit_E)
  note ff = fit_fresh[OF nm fr]
  note wd = writtenD[OF ff(1)]
  note tf = fit_trace_facts[OF nm fr]
  let ?T = "fit_trace E X y vs s0"
  have sc: "score_history s = map (map_option sqrt_pair) (score_history s3)"
    and ne: "n_estimators s = n_estimators s3" by (simp_all add: s)
  have A: "\<forall>i<n_estimators s. \<exists>r rv.
            snd (?T ! i) = (r, rv) \<and>
            length r = length (target_values (fst (snd (snd (fit_split E X y vs s0))))) \<and>
            length rv = length (target_values (snd (snd (snd (fit_split E X y vs s0))))) \<and>
            score_history s3 ! i = Some (mean (square r), mean (square rv)) \<and>
            score_history s ! i =
              Some (map_option sqrt (mean (square r)), map_option sqrt (mean (square rv))) \<and>
            (\<forall>m. mean (square r) = Some m \<longrightarrow> 0 \<le> sqrt m \<and> (sqrt m)\<^sup>2 = m) \<and>
            (\<forall>m. mean (square rv) = Some m \<longrightarrow> 0 \<le> sqrt m \<and> (sqrt m)\<^sup>2 = m)"
  proof (intro allI impI)
    fix i assume i: "i < n_estimators s"
    then have iT: "i < length ?T" using tf(1) ne by simp
    obtain r rv where rr: "snd (?T ! i) = (r, rv)" by (cases "snd (?T ! i)")
    from tf(2)[rule_format, OF iT] rr have
      c: "score_history s3 ! i = Some (mean (square r), mean (square rv))"
      and l1: "length r = length (target_values (fst (snd (snd (fit_split E X y vs s0)))))"
      and l2: "length rv = length (target_values (snd (snd (snd (fit_split E X y vs s0)))))"
      by simp_all
    from i ne ff(3) wd(1) have il: "i < length (score_history s3)" by simp
    then have d: "score_history s ! i =
        Some (map_option sqrt (mean (square r)), map_option sqrt (mean (square rv)))"
      by (simp add: sc c sqrt_pair_def)
    have e: "\<forall>m. mean (square r) = Some m \<longrightarrow> 0 \<le> sqrt m \<and> (sqrt m)\<^sup>2 = m"
      "\<forall>m. mean (square rv) = Some m \<longrightarrow> 0 \<le> sqrt m \<and> (sqrt m)\<^sup>2 = m"
      using mean_square_nonneg by auto
    from rr l1 l2 c d e show "\<exists>r rv.
            snd (?T ! i) = (r, rv) \<and>
            length r = length (target_values (fst (snd (snd (fit_split E X y vs s0))))) \<and>
            length rv = length (target_values (snd (snd (snd (fit_split E X y vs s0))))) \<and>
            score_history s3 ! i = Some (mean (square r), mean (square rv)) \<and>
            score_history s ! i =
              Some (map_option sqrt (mean (square r)), map_option sqrt (mean (square rv))) \<and>
            (\<forall>m. mean (square r) = Some m \<longrightarrow> 0 \<le> sqrt m \<and> (sqrt m)\<^sup>2 = m) \<and>
            (\<forall>m. mean (square rv) = Some m \<longrightarrow> 0 \<le> sqrt m \<and> (sqrt m)\<^sup>2 = m)"
      by blast
  qed
  have B: "\<forall>i. n_estimators s \<le> i \<and> i < n_estimators h \<longrightarrow>
            score_history s3 ! i = None \<and> score_history s ! i = None"
  proof (intro allI impI)
    fix i assume i: "n_estimators s \<le> i \<and> i < n_estimators h"
    with ne wd(5) have n: "score_history s3 ! i = None" by simp
    from i wd(1) have "i < length (score_history s3)" by simp
    with n show "score_history s3 ! i = None \<and> score_history s ! i = None"
      by (simp add: sc)
  qed
  have C: "length (score_history s) = n_estimators h" using wd(1) by (simp add: sc)
  have D: "length ?T = n_estimators s" using tf(1) ne by simp
  have F: "s3 = (fst (last ?T))\<lparr>n_estimators := n_estimators s\<rparr>" using tf(4) ne by simp
  from fr D F sc C A B
  show "\<exists>X_train s3.
         fit_rounds E X y vs s0 = Inr (X_train, s3) \<and>
         length (fit_trace E X y vs s0) = n_estimators s \<and>
         s3 = (fst (last (fit_trace E X y vs s0)))\<lparr>n_estimators := n_estimators s\<rparr> \<and>
         score_history s = map (map_option sqrt_pair) (score_history s3) \<and>
         length (score_history s) = n_estimators h \<and>
         (\<forall>i<n_estimators s. \<exists>r rv.
            snd (fit_trace E X y vs s0 ! i) = (r, rv) \<and>
            length r = length (target_values (fst (snd (snd (fit_split E X y vs s0))))) \<and>
            length rv = length (target_values (snd (snd (snd (fit_split E X y vs s0))))) \<and>
            score_history s3 ! i = Some (mean (square r), mean (square rv)) \<and>
            score_history s ! i =
              Some (map_option sqrt (mean (square r)), map_option sqrt (mean (square rv))) \<and>
            (\<forall>m. mean (square r) = Some m \<longrightarrow> 0 \<le> sqrt m \<and> (sqrt m)\<^sup>2 = m) \<and>
            (\<forall>m. mean (square rv) = Some m \<longrightarrow> 0 \<le> sqrt m \<and> (sqrt m)\<^sup>2 = m)) \<and>
         (\<forall>i. n_estimators s \<le> i \<and> i < n_estimators h \<longrightarrow>
            score_history s3 ! i = None \<and> score_history s ! i = None)"
    by blast
qed

theorem score_history_rmse_witness:
  "priv_boost env1 [[0, 1], [1, 0]] [- 16, 16] (Scalar 0) 0 [[0, 0]] [- 13]
     (start1\<lparr>intercept := 16\<rparr>) = Inr (round0, [- 8, 24], [- 5]) \<and>
   score_history round0 = (score_history (start1\<lparr>intercept := 16\<rparr>))
      [0 := Some (mean (square [- 8, 24]), mean (square [- 5]))] \<and>
   mean (square [- 8, 24]) = Some 320 \<and> mean (square [- 5]) = Some 25 \<and>
   new_model env1 hyper1 = Inr model1 \<and>
   fit env1 X1 (Array [0, 32]) (Some (X1_val, Array [3])) model1 = Inr fitted1 \<and>
   (\<exists>X_train s3.
      fit_rounds env1 X1 (Array [0, 32]) (Some (X1_val, Array [3])) model1 = Inr (X_train, s3) \<and>
      length (fit_trace env1 X1 (Array [0, 32]) (Some (X1_val, Array [3])) model1)
        = n_estimators fitted1 \<and>
      score_history fitted1 = map (map_option sqrt_pair) (score_history s3) \<and>
      (\<forall>i<n_estimators fitted1. \<exists>r rv.
         snd (fit_trace env1 X1 (Array [0, 32]) (Some (X1_val, Array [3])) model1 ! i) = (r, rv) \<and>
         score_history fitted1 ! i =
           Some (map_option sqrt (mean (square r)), map_option sqrt (mean (square rv))))) \<and>
   n_estimators fitted1 = 4 \<and>
   score_history fitted1 = [Some (Some (sqrt 320), Some (sqrt 25)),
     Some (Some (sqrt 400), Some (sqrt 1)), Some (Some (sqrt 452), Some (sqrt 1)),
     Some (Some (sqrt 481), Some (sqrt 4)), None]"
proof -
  note a = score_history_rmse[THEN conjunct1, THEN mp, OF boost0]
  note b = score_history_rmse[THEN conjunct2, THEN mp, OF conjI[OF new_model1 fit1]]
  have c: "mean (square [- 8, 24]) = Some 320" "mean (square [- 5]) = Some 25"
    by (simp_all add: mean_def square_def)
  have d: "score_history fitted1 = [Some (Some (sqrt 320), Some (sqrt 25)),
     Some (Some (sqrt 400), Some (sqrt 1)), Some (Some (sqrt 452), Some (sqrt 1)),
     Some (Some (sqrt 481), Some (sqrt 4)), None]" "n_estimators fitted1 = 4"
    by (simp_all add: fitted1_def rounds1_def)
  from a have a': "score_history round0 = (score_history (start1\<lparr>intercept := 16\<rparr>))
      [0 := Some (mean (square [- 8, 24]), mean (square [- 5]))]" by blast
  from b have b': "\<exists>X_train s3.
      fit_rounds env1 X1 (Array [0, 32]) (Some (X1_val, Array [3])) model1 = Inr (X_train, s3) \<and>
      length (fit_trace env1 X1 (Array [0, 32]) (Some (X1_val, Array [3])) model1)
        = n_estimators fitted1 \<and>
      score_history fitted1 = map (map_option sqrt_pair) (score_history s3) \<and>
      (\<forall>i<n_estimators fitted1. \<exists>r rv.
         snd (fit_trace env1 X1 (Array [0, 32]) (Some (X1_val, Array [3])) model1 ! i) = (r, rv) \<and>
         score_history fitted1 ! i =
           Some (map_option sqrt (mean (square r)), map_option sqrt (mean (square rv))))"
    by (elim exE conjE, intro exI conjI) blast+
  show ?thesis
    by (intro conjI) (rule boost0 a' c new_model1 fit1 b' d)+
qed

text \<open>
  The final history is not always the root of a per-round sequence of means, nor always
  at least 0. In the run of five rounds the fit stops after four: the history has five
  rows, and the last holds the root of memory no round wrote. In the run with an empty
  validation set the fit succeeds and the validation score of its round is \<open>nan\<close>.
\<close>

theorem score_history_counterexample:
  "fit env1 X1 (Array [0, 32]) (Some (X1_val, Array [3])) model1 = Inr fitted1 \<and>
   length (fit_trace env1 X1 (Array [0, 32]) (Some (X1_val, Array [3])) model1) = 4 \<and>
   n_estimators fitted1 = 4 \<and>
   length (score_history fitted1) = 5 \<and>
   score_history fitted1 ! 4 = None \<and>
   fit env1 X2 (Array [0, 32]) (Some (X_none, Array [])) model2 = Inr fitted2e \<and>
   score_history fitted2e = [Some (Some (sqrt 320), None)]"
proof -
  from fit_trace_facts(1)[OF new_model1 fit_rounds1]
  have "length (fit_trace env1 X1 (Array [0, 32]) (Some (X1_val, Array [3])) model1) = 4"
    by (simp add: rounds1_def)
  then show ?thesis using fit1 fit2e by (simp add: fitted1_def rounds1_def fitted2e_def)
qed

text \<open>
  C8 (selection). A round \<open>t\<close> that succeeds selects the index that \<open>argmax\<close> returns on
  the combined scores: an index of the score vector whose score is at least every
  score and strictly above every score before it (the first index of the maximum), and
  writes it at position \<open>t\<close> of the selection history.
\<close>

theorem selection_rule:
  assumes "priv_boost E X y redundancy t X_val y_val s = Inr (s1, y1, y_val1)"
  shows "\<exists>f. argmax (mrmr_scheme s (relevancy_scorer s X y) redundancy) = Inr f \<and>
     f < length (mrmr_scheme s (relevancy_scorer s X y) redundancy) \<and>
     (\<forall>j < length (mrmr_scheme s (relevancy_scorer s X y) redundancy).
        mrmr_scheme s (relevancy_scorer s X y) redundancy ! j
          \<le> mrmr_scheme s (relevancy_scorer s X y) redundancy ! f) \<and>
     (\<forall>j < f. mrmr_scheme s (relevancy_scorer s X y) redundancy ! j
          < mrmr_scheme s (relevancy_scorer s X y) redundancy ! f) \<and>
     t < length (selection_history s) \<and>
     selection_history s1 = (selection_history s)[t := Some f]"
proof -
  from assms obtain f where
    a: "argmax (mrmr_scheme s (relevancy_scorer s X y) redundancy) = Inr f"
    and t: "t < length (selection_history s)"
    and sh: "selection_history s1 = (selection_history s)[t := Some f]"
    by (rule priv_boost_Inr) simp
  from argmax_Inr[OF a] a t sh show ?thesis by blast
qed

theorem selection_rule_witness:
  "priv_boost env1 [[0, 1], [1, 0]] [- 16, 16] (Scalar 0) 0 [[0, 0]] [- 13]
     (start1\<lparr>intercept := 16\<rparr>) = Inr (round0, [- 8, 24], [- 5]) \<and>
   mrmr_scheme (start1\<lparr>intercept := 16\<rparr>)
     (relevancy_scorer (start1\<lparr>intercept := 16\<rparr>) [[0, 1], [1, 0]] [- 16, 16]) (Scalar 0)
     = [1, 1] \<and>
   argmax [1, 1] = Inr 0 \<and>
   selection_history round0 = (selection_history (start1\<lparr>intercept := 16\<rparr>))[0 := Some 0]"
proof -
  have sc: "mrmr_scheme (start1\<lparr>intercept := 16\<rparr>)
     (relevancy_scorer (start1\<lparr>intercept := 16\<rparr>) [[0, 1], [1, 0]] [- 16, 16]) (Scalar 0)
     = [1, 1]"
    by (simp add: run1_defs numeral_2_eq_2)
  from selection_rule[OF boost0] obtain f where
    a: "argmax [1, 1] = Inr f"
    and s: "selection_history round0 = (selection_history (start1\<lparr>intercept := 16\<rparr>))[0 := Some f]"
    unfolding sc by blast
  from a have "f = 0" by (simp add: argmax_def)
  with a s sc boost0 show ?thesis by simp
qed

text \<open>
  C9 (not fitted). On an object whose flag \<open>_is_fitted\<close> is not set, \<open>predict\<close>,
  \<open>contribution_frame\<close>, \<open>explain\<close> and \<open>plot_model_information\<close> raise \<open>NotFittedError\<close>;
  on an object whose flag is set none of them raises it. A freshly built object has the
  flag unset, the rounds of \<open>fit\<close> leave the flag as it is, and a \<open>fit\<close> that succeeds
  sets it. The guard is not the only error path the class checks for: the constructor
  rejects a configuration out of range with \<open>ValueError\<close>, and accepts every other.
\<close>

theorem not_fitted_guard:
  "(\<not> priv_is_fitted s \<longrightarrow>
      predict E X s = Inl NotFittedError \<and> contribution_frame E X s = Inl NotFittedError \<and>
      explain E X s = Inl NotFittedError \<and> plot_model_information E s = Inl NotFittedError) \<and>
   (priv_is_fitted s \<longrightarrow>
      predict E X s \<noteq> Inl NotFittedError \<and> contribution_frame E X s \<noteq> Inl NotFittedError \<and>
      explain E X s \<noteq> Inl NotFittedError \<and> plot_model_information E s \<noteq> Inl NotFittedError) \<and>
   (new_model E h = Inr s0 \<longrightarrow> \<not> priv_is_fitted s0) \<and>
   (fit_rounds E X' y' vs a = Inr (Xt, a3) \<longrightarrow> priv_is_fitted a3 = priv_is_fitted a) \<and>
   (fit E X' y' vs a = Inr a' \<longrightarrow> priv_is_fitted a') \<and>
   (\<not> valid_hyper h' \<longrightarrow> new_model E h' = Inl ValueError) \<and>
   (valid_hyper h' \<longrightarrow> (\<exists>s'. new_model E h' = Inr s'))"
proof (intro conjI impI)
  assume u: "\<not> priv_is_fitted s"
  show "predict E X s = Inl NotFittedError" using u by (simp add: predict_def)
  show "contribution_frame E X s = Inl NotFittedError" using u by (simp add: contribution_frame_def)
  show "explain E X s = Inl NotFittedError" using u by (simp add: explain_def)
  show "plot_model_information E s = Inl NotFittedError"
    using u by (simp add: plot_model_information_def)
next
  assume f: "priv_is_fitted s"
  show "predict E X s \<noteq> Inl NotFittedError" using predict_fitted_error[OF f] by blast
  show "contribution_frame E X s \<noteq> Inl NotFittedError"
    using contribution_frame_fitted_error[OF f] by blast
  show "explain E X s \<noteq> Inl NotFittedError" using explain_fitted_error[OF f] by blast
  show "plot_model_information E s \<noteq> Inl NotFittedError"
    using plot_model_information_fitted_error[OF f] by blast
next
  assume "new_model E h = Inr s0"
  then show "\<not> priv_is_fitted s0" by (rule new_model_Inr(3))
next
  assume "fit_rounds E X' y' vs a = Inr (Xt, a3)"
  then show "priv_is_fitted a3 = priv_is_fitted a" by (rule fit_rounds_frame(4))
next
  assume "fit E X' y' vs a = Inr a'"
  then show "priv_is_fitted a'" by (rule fit_E) simp
next
  assume "\<not> valid_hyper h'"
  then show "new_model E h' = Inl ValueError" by (simp add: new_model_def)
next
  assume "valid_hyper h'"
  then show "\<exists>s'. new_model E h' = Inr s'" by (simp add: new_model_def)
qed

theorem not_fitted_guard_witness:
  "new_model env1 hyper1 = Inr model1 \<and> \<not> priv_is_fitted model1 \<and>
   predict env1 X1 model1 = Inl NotFittedError \<and>
   contribution_frame env1 X1 model1 = Inl NotFittedError \<and>
   explain env1 X1 model1 = Inl NotFittedError \<and>
   plot_model_information env1 model1 = Inl NotFittedError \<and>
   fit_rounds env1 X1 (Array [0, 32]) (Some (X1_val, Array [3])) model1
     = Inr ([[0, 1], [1, 0]], rounds1) \<and>
   \<not> priv_is_fitted rounds1 \<and>
   fit env1 X1 (Array [0, 32]) (Some (X1_val, Array [3])) model1 = Inr fitted1 \<and>
   priv_is_fitted fitted1 \<and>
   predict env1 X1 fitted1 \<noteq> Inl NotFittedError \<and>
   contribution_frame env1 X1 fitted1 \<noteq> Inl NotFittedError \<and>
   explain env1 X1 fitted1 \<noteq> Inl NotFittedError \<and>
   plot_model_information env1 fitted1 \<noteq> Inl NotFittedError \<and>
   \<not> valid_hyper hyper0 \<and> new_model env1 hyper0 = Inl ValueError \<and>
   valid_hyper hyper1 \<and> (\<exists>s'. new_model env1 hyper1 = Inr s')"
proof -
  have u: "\<not> priv_is_fitted model1"
    by (rule not_fitted_guard[THEN conjunct2, THEN conjunct2, THEN conjunct1, THEN mp,
          OF new_model1])
  have f: "priv_is_fitted fitted1"
    by (rule not_fitted_guard[THEN conjunct2, THEN conjunct2, THEN conjunct2, THEN conjunct2,
          THEN conjunct1, THEN mp, OF fit1])
  have r: "priv_is_fitted rounds1 = priv_is_fitted model1"
    by (rule not_fitted_guard[THEN conjunct2, THEN conjunct2, THEN conjunct2, THEN conjunct1,
          THEN mp, OF fit_rounds1])
  note a = not_fitted_guard[where E = env1 and X = X1, THEN conjunct1, THEN mp, OF u]
  note b = not_fitted_guard[where E = env1 and X = X1, THEN conjunct2, THEN conjunct1,
      THEN mp, OF f]
  note c = not_fitted_guard[where E = env1, THEN conjunct2, THEN conjunct2, THEN conjunct2,
      THEN conjunct2, THEN conjunct2, THEN conjunct1, THEN mp, OF invalid_hyper0]
  note d = not_fitted_guard[where E = env1, THEN conjunct2, THEN conjunct2, THEN conjunct2,
      THEN conjunct2, THEN conjunct2, THEN conjunct2, THEN mp, OF valid_hyper1]
  from u f r a b c d new_model1 fit_rounds1 fit1 invalid_hyper0 valid_hyper1
  show ?thesis by blast
qed

text \<open>
  A second guarded error path: a configuration with \<open>n_estimators = 0\<close> is rejected at
  construction with \<open>ValueError\<close>, before any of the four operations is called.
\<close>

theorem not_fitted_guard_counterexample:
  "\<not> valid_hyper hyper0 \<and> n_estimators hyper0 = 0 \<and>
   new_model env1 hyper0 = Inl ValueError \<and>
   new_model env1 hyper0 \<noteq> Inl NotFittedError"
  by (simp add: new_model_def valid_hyper_def hyper0_def config_def)

text \<open>
  C10 (configuration after fit). A round \<open>t\<close> of the loop at which the test holds ends
  the loop with \<open>n_estimators\<close> set to \<open>t + 1\<close> and every other configuration field as
  before. After a fit of a freshly built model the configuration is the one given, but
  for three fields: \<open>n_estimators\<close>, which is at least 1 and at most the configured
  value, and \<open>feature_names_in_\<close> and \<open>output_name\<close>, which keep a value that was given
  and are filled in when none was. The score history keeps one cell per configured
  round, so its length is the configured value. If \<open>n_estimators\<close> is smaller than
  configured, the test held at round \<open>n_estimators - 1\<close>.
\<close>

theorem fit_configuration_frame:
  "(redundancy_vector R (priv_selected_count_matrix a) out_len t = Inr red \<and>
    priv_boost E Xt r (Vector red) t Xv rv a = Inr (a1, r1, rv1) \<and> stop_now a1 t \<longrightarrow>
      fit_loop E Xt Xv R out_len (Suc k) t (a, r, rv) = Inr (a1\<lparr>n_estimators := t + 1\<rparr>) \<and>
      hyper.truncate (a1\<lparr>n_estimators := t + 1\<rparr>) = (hyper.truncate a)\<lparr>n_estimators := t + 1\<rparr>) \<and>
   (new_model E h = Inr s0 \<and> fit E X y vs s0 = Inr s \<longrightarrow>
      hyper.truncate s = h\<lparr>n_estimators := n_estimators s,
         feature_names_in := feature_names_in s, output_name := output_name s\<rparr> \<and>
      (feature_names_in h \<noteq> None \<longrightarrow> feature_names_in s = feature_names_in h) \<and>
      (output_name h \<noteq> None \<longrightarrow> output_name s = output_name h) \<and>
      feature_names_in s \<noteq> None \<and>
      1 \<le> n_estimators s \<and> n_estimators s \<le> n_estimators h \<and>
      length (score_history s) = n_estimators h \<and>
      (n_estimators s < n_estimators h \<longrightarrow>
         (\<exists>X_train s3. fit_rounds E X y vs s0 = Inr (X_train, s3) \<and>
            stop_now s3 (n_estimators s - 1))))"
proof (intro conjI impI)
  assume h: "redundancy_vector R (priv_selected_count_matrix a) out_len t = Inr red \<and>
    priv_boost E Xt r (Vector red) t Xv rv a = Inr (a1, r1, rv1) \<and> stop_now a1 t"
  then show "fit_loop E Xt Xv R out_len (Suc k) t (a, r, rv) = Inr (a1\<lparr>n_estimators := t + 1\<rparr>)"
    by (simp add: and_then_def)
  from h have b: "priv_boost E Xt r (Vector red) t Xv rv a = Inr (a1, r1, rv1)" by simp
  from priv_boost_frame(1)[OF b]
  show "hyper.truncate (a1\<lparr>n_estimators := t + 1\<rparr>) = (hyper.truncate a)\<lparr>n_estimators := t + 1\<rparr>"
    by simp
next
  assume h: "new_model E h = Inr s0 \<and> fit E X y vs s0 = Inr s"
  then have nm: "new_model E h = Inr s0" and ft: "fit E X y vs s0 = Inr s" by simp_all
  from ft obtain Xt' s3 names biases regs sn where
    fr: "fit_rounds E X y vs s0 = Inr (Xt', s3)"
    and nms: "feature_names_in s3 = Some names"
    and s: "s = s3\<lparr>regressors := regs, intercept := intercept s3 + sum_list biases,
              selection_history := take (n_estimators s3) (selection_history s3),
              score_history := map (map_option sqrt_pair) (score_history s3),
              selection_count := counter sn, priv_is_fitted := True\<rparr>"
    by (rule fit_E)
  note nw = new_model_Inr[OF nm]
  note ff = fit_fresh[OF nm fr]
  note wd = writtenD[OF ff(1)]
  note fra = fit_rounds_frame[OF fr]
  have ts: "hyper.truncate s = hyper.truncate s3" by (simp add: s)
  from arg_cong[OF nw(2), of feature_names_in] arg_cong[OF nw(2), of output_name]
  have h0: "feature_names_in s0 = feature_names_in h" "output_name s0 = output_name h"
    by (simp_all add: hyper.truncate_def)
  have eqs: "n_estimators s = n_estimators s3" "feature_names_in s = feature_names_in s3"
    "output_name s = output_name s3" by (simp_all add: s)
  show "hyper.truncate s = h\<lparr>n_estimators := n_estimators s,
         feature_names_in := feature_names_in s, output_name := output_name s\<rparr>"
    by (simp add: ts fra(1) nw(2) eqs)
  show "feature_names_in s = feature_names_in h" if "feature_names_in h \<noteq> None"
    using fra(2) that h0 eqs by simp
  show "output_name s = output_name h" if "output_name h \<noteq> None"
    using fra(3) that h0 eqs by simp
  show "feature_names_in s \<noteq> None" using nms eqs by simp
  show "1 \<le> n_estimators s" using ff(2) eqs by simp
  show "n_estimators s \<le> n_estimators h" using ff(3) eqs by simp
  show "length (score_history s) = n_estimators h" using wd(1) by (simp add: s)
  show "\<exists>X_train s3. fit_rounds E X y vs s0 = Inr (X_train, s3) \<and>
            stop_now s3 (n_estimators s - 1)" if "n_estimators s < n_estimators h"
    using ff(6) that fr eqs by auto
qed

theorem fit_configuration_frame_witness:
  "redundancy_vector [[1, 1], [1, 1]] (priv_selected_count_matrix after2) 2 3 = Inr [1, 1] \<and>
   priv_boost env1 [[0, 1], [1, 0]] [- 2, 30] (Vector [1, 1]) 3 [[0, 0]] [1] after2
     = Inr (after3, [- 1, 31], [2]) \<and>
   stop_now after3 3 \<and>
   fit_loop env1 [[0, 1], [1, 0]] [[0, 0]] [[1, 1], [1, 1]] 2 (Suc 0) 3 (after2, [- 2, 30], [1])
     = Inr (after3\<lparr>n_estimators := 3 + 1\<rparr>) \<and>
   hyper.truncate (after3\<lparr>n_estimators := 3 + 1\<rparr>)
     = (hyper.truncate after2)\<lparr>n_estimators := 3 + 1\<rparr> \<and>
   new_model env1 hyper1 = Inr model1 \<and>
   fit env1 X1 (Array [0, 32]) (Some (X1_val, Array [3])) model1 = Inr fitted1 \<and>
   hyper.truncate fitted1 = hyper1\<lparr>n_estimators := n_estimators fitted1,
     feature_names_in := feature_names_in fitted1, output_name := output_name fitted1\<rparr> \<and>
   n_estimators fitted1 \<le> n_estimators hyper1 \<and>
   length (score_history fitted1) = n_estimators hyper1 \<and>
   n_estimators fitted1 < n_estimators hyper1 \<and>
   (\<exists>X_train s3.
      fit_rounds env1 X1 (Array [0, 32]) (Some (X1_val, Array [3])) model1 = Inr (X_train, s3) \<and>
      stop_now s3 (n_estimators fitted1 - 1))"
proof -
  have r: "redundancy_vector [[1, 1], [1, 1]] (priv_selected_count_matrix after2) 2 3
      = Inr [1, 1]"
    using redundancy3 by (simp add: after2_def)
  note a = fit_configuration_frame[where k = 0, THEN conjunct1, THEN mp,
      OF conjI[OF r conjI[OF boost3 stop3]]]
  note b = fit_configuration_frame[THEN conjunct2, THEN mp, OF conjI[OF new_model1 fit1]]
  have lt: "n_estimators fitted1 < n_estimators hyper1"
    by (simp add: fitted1_def rounds1_def hyper1_def config_def)
  from b lt have c: "\<exists>X_train s3.
      fit_rounds env1 X1 (Array [0, 32]) (Some (X1_val, Array [3])) model1 = Inr (X_train, s3) \<and>
      stop_now s3 (n_estimators fitted1 - 1)" by blast
  from a have a1: "fit_loop env1 [[0, 1], [1, 0]] [[0, 0]] [[1, 1], [1, 1]] 2 (Suc 0) 3
      (after2, [- 2, 30], [1]) = Inr (after3\<lparr>n_estimators := 3 + 1\<rparr>)"
    and a2: "hyper.truncate (after3\<lparr>n_estimators := 3 + 1\<rparr>)
     = (hyper.truncate after2)\<lparr>n_estimators := 3 + 1\<rparr>" by blast+
  from b have b1: "hyper.truncate fitted1 = hyper1\<lparr>n_estimators := n_estimators fitted1,
     feature_names_in := feature_names_in fitted1, output_name := output_name fitted1\<rparr>"
    and b2: "n_estimators fitted1 \<le> n_estimators hyper1"
    and b3: "length (score_history fitted1) = n_estimators hyper1" by blast+
  show ?thesis
    by (intro conjI) (rule r boost3 stop3 a1 a2 new_model1 fit1 b1 b2 b3 lt c)+
qed

text \<open>
  In the run of five rounds the fit stops early with \<open>n_estimators = 4\<close>. The length of
  the score history is still 5, the configured value, and the two name fields, which
  were not given, are no longer empty.
\<close>

theorem fit_configuration_counterexample:
  "new_model env1 hyper1 = Inr model1 \<and>
   fit env1 X1 (Array [0, 32]) (Some (X1_val, Array [3])) model1 = Inr fitted1 \<and>
   n_estimators hyper1 = 5 \<and> n_estimators fitted1 = 4 \<and>
   length (score_history fitted1) = 5 \<and>
   feature_names_in hyper1 = None \<and>
   feature_names_in fitted1 = Some [''feature_0'', ''feature_1''] \<and>
   output_name hyper1 = None \<and> output_name fitted1 = Some ''output''"
  using new_model1 fit1
  by (simp add: fitted1_def rounds1_def start1_def model1_def hyper1_def config_def
      hyper.defs sabr.defs)

end
